theory Spec2Isabelle
  imports Complex_Main "HOL-Library.Word" "HOL-Library.Multiset"
begin

section \<open>Numbers\<close>

text \<open>
  \<open>uint32_t\<close> and \<open>GLuint\<close> are 32-bit words. A C++ \<open>float\<close> is a value of the IEEE 754
  format binary32: a finite number, where \<open>Finite 0\<close> is the positive zero, the negative
  zero, an infinity, or a NaN (sign and payload of a NaN are not kept). \<open>Finite r\<close> stands
  for a value of the format when \<open>r\<close> is one; nothing below needs that of its inputs.
\<close>

type_synonym u32 = "32 word"

datatype float = Finite real | NegZero | PlusInf | MinusInf | NaN

fun sign_bit :: "float \<Rightarrow> bool" where
  "sign_bit (Finite r) = (r < 0)"
| "sign_bit NegZero = True"
| "sign_bit PlusInf = False"
| "sign_bit MinusInf = True"
| "sign_bit NaN = False"

text \<open>The number a finite value stands for; 0 is returned for the other values.\<close>

fun float_val :: "float \<Rightarrow> real" where
  "float_val (Finite r) = r"
| "float_val NegZero = 0"
| "float_val PlusInf = 0"
| "float_val MinusInf = 0"
| "float_val NaN = 0"

fun is_inf :: "float \<Rightarrow> bool" where
  "is_inf PlusInf = True"
| "is_inf MinusInf = True"
| "is_inf (Finite r) = False"
| "is_inf NegZero = False"
| "is_inf NaN = False"

fun is_zero :: "float \<Rightarrow> bool" where
  "is_zero (Finite r) = (r = 0)"
| "is_zero NegZero = True"
| "is_zero PlusInf = False"
| "is_zero MinusInf = False"
| "is_zero NaN = False"

definition signed_zero :: "bool \<Rightarrow> float" where
  "signed_zero neg = (if neg then NegZero else Finite 0)"

definition signed_inf :: "bool \<Rightarrow> float" where
  "signed_inf neg = (if neg then MinusInf else PlusInf)"

text \<open>
  Rounding to binary32. A number \<open>a\<close> with \<open>2^E \<le> a < 2^(E+1)\<close> and \<open>-126 \<le> E \<le> 127\<close> lies
  among the multiples of \<open>2^(E-23)\<close>; below \<open>2^-126\<close> the spacing stays \<open>2^-149\<close>.
  \<open>ulp_exponent\<close> finds the exponent of the spacing, searching \<open>E\<close> from 127 downwards.
\<close>

fun ulp_exponent_from :: "nat \<Rightarrow> real \<Rightarrow> int" where
  "ulp_exponent_from 0 a = -149"
| "ulp_exponent_from (Suc k) a =
     (if 2 powi (int k - 126) \<le> a then int k - 149 else ulp_exponent_from k a)"

definition ulp_exponent :: "real \<Rightarrow> int" where
  "ulp_exponent a = ulp_exponent_from 254 a"

text \<open>The nearest integer, the even one of two that are equally near.\<close>

definition round_half_even :: "real \<Rightarrow> int" where
  "round_half_even q =
     (let f = \<lfloor>q\<rfloor>
      in if q - of_int f < 1 / 2 then f
         else if 1 / 2 < q - of_int f then f + 1
         else if even f then f else f + 1)"

text \<open>
  \<open>binary32 neg x\<close>: the value of the format nearest to the real number \<open>x\<close>, ties to even
  (the default rounding mode). A result of magnitude \<open>2^128\<close> overflows to an infinity; a
  result that is zero takes the sign \<open>neg\<close>.
\<close>

definition binary32 :: "bool \<Rightarrow> real \<Rightarrow> float" where
  "binary32 neg x =
     (let u = 2 powi ulp_exponent \<bar>x\<bar>;
          y = of_int (round_half_even (x / u)) * u
      in if 2 powi 128 \<le> \<bar>y\<bar> then signed_inf (x < 0)
         else if y = 0 then signed_zero neg
         else Finite y)"

text \<open>
  The operators \<open>-x\<close>, \<open>+\<close>, \<open>-\<close>, \<open>*\<close> and \<open>/\<close> on \<open>float\<close>: the exact result rounded once,
  with the results IEEE 754 fixes for zeros, infinities and NaN. Each operator of the
  sources is one such operation: no two are fused and none is carried out in a wider format.
\<close>

fun float_neg :: "float \<Rightarrow> float" where
  "float_neg (Finite r) = (if r = 0 then NegZero else Finite (- r))"
| "float_neg NegZero = Finite 0"
| "float_neg PlusInf = MinusInf"
| "float_neg MinusInf = PlusInf"
| "float_neg NaN = NaN"

definition float_add :: "float \<Rightarrow> float \<Rightarrow> float" where
  "float_add a b =
     (if a = NaN \<or> b = NaN then NaN
      else if is_inf a \<and> is_inf b then (if a = b then a else NaN)
      else if is_inf a then a
      else if is_inf b then b
      else (let s = float_val a + float_val b
            in binary32 (if s = 0 then sign_bit a \<and> sign_bit b else s < 0) s))"

definition float_sub :: "float \<Rightarrow> float \<Rightarrow> float" where
  "float_sub a b = float_add a (float_neg b)"

definition float_mul :: "float \<Rightarrow> float \<Rightarrow> float" where
  "float_mul a b =
     (if a = NaN \<or> b = NaN then NaN
      else if is_inf a \<or> is_inf b
           then (if is_zero a \<or> is_zero b then NaN else signed_inf (sign_bit a \<noteq> sign_bit b))
      else binary32 (sign_bit a \<noteq> sign_bit b) (float_val a * float_val b))"

definition float_div :: "float \<Rightarrow> float \<Rightarrow> float" where
  "float_div a b =
     (if a = NaN \<or> b = NaN then NaN
      else if is_inf a then (if is_inf b then NaN else signed_inf (sign_bit a \<noteq> sign_bit b))
      else if is_inf b then signed_zero (sign_bit a \<noteq> sign_bit b)
      else if is_zero b
           then (if is_zero a then NaN else signed_inf (sign_bit a \<noteq> sign_bit b))
      else binary32 (sign_bit a \<noteq> sign_bit b) (float_val a / float_val b))"

text \<open>A decimal literal with the suffix \<open>f\<close>: the nearest value of the format.\<close>

definition float_literal :: "real \<Rightarrow> float" where
  "float_literal x = binary32 (x < 0) x"

section \<open>Vectors\<close>

text \<open>
  \<open>glm::vec3\<close>, \<open>glm::vec4\<close>, \<open>glm::mat3\<close> and \<open>glm::mat4\<close> are records; a matrix is stored
  by columns, as glm does, so \<open>m[3]\<close> is the field \<open>c3\<close>.
\<close>

record vec3 =
  x3 :: float
  y3 :: float
  z3 :: float

record vec4 =
  x4 :: float
  y4 :: float
  z4 :: float
  w4 :: float

record mat3 =
  m3c0 :: vec3
  m3c1 :: vec3
  m3c2 :: vec3

record mat4 =
  c0 :: vec4
  c1 :: vec4
  c2 :: vec4
  c3 :: vec4

definition mk_vec3 :: "float \<Rightarrow> float \<Rightarrow> float \<Rightarrow> vec3" where
  "mk_vec3 a b c = \<lparr>x3 = a, y3 = b, z3 = c\<rparr>"

definition mk_vec4 :: "float \<Rightarrow> float \<Rightarrow> float \<Rightarrow> float \<Rightarrow> vec4" where
  "mk_vec4 a b c d = \<lparr>x4 = a, y4 = b, z4 = c, w4 = d\<rparr>"

text \<open>\<open>glm::vec3(v4)\<close>: the first three components.\<close>

definition vec3_of_vec4 :: "vec4 \<Rightarrow> vec3" where
  "vec3_of_vec4 v = mk_vec3 (x4 v) (y4 v) (z4 v)"

text \<open>\<open>glm::mat3(m4)\<close>: the upper-left 3x3 block.\<close>

definition mat3_of_mat4 :: "mat4 \<Rightarrow> mat3" where
  "mat3_of_mat4 m =
     \<lparr>m3c0 = vec3_of_vec4 (c0 m), m3c1 = vec3_of_vec4 (c1 m), m3c2 = vec3_of_vec4 (c2 m)\<rparr>"

text \<open>
  \<open>m * v\<close> for a column-major \<open>mat3\<close>, \<open>a - b\<close> and \<open>glm::dot(a, b)\<close> for \<open>vec3\<close>, with the
  operations in the order of glm's scalar code: each row of the product is
  \<open>m[0][r] * v.x + m[1][r] * v.y + m[2][r] * v.z\<close>, and the dot product adds the three
  products from the left.
\<close>

definition mat3_mul_vec3 :: "mat3 \<Rightarrow> vec3 \<Rightarrow> vec3" where
  "mat3_mul_vec3 m v =
     mk_vec3
       (float_add (float_add (float_mul (x3 (m3c0 m)) (x3 v)) (float_mul (x3 (m3c1 m)) (y3 v)))
                  (float_mul (x3 (m3c2 m)) (z3 v)))
       (float_add (float_add (float_mul (y3 (m3c0 m)) (x3 v)) (float_mul (y3 (m3c1 m)) (y3 v)))
                  (float_mul (y3 (m3c2 m)) (z3 v)))
       (float_add (float_add (float_mul (z3 (m3c0 m)) (x3 v)) (float_mul (z3 (m3c1 m)) (y3 v)))
                  (float_mul (z3 (m3c2 m)) (z3 v)))"

definition vec3_sub :: "vec3 \<Rightarrow> vec3 \<Rightarrow> vec3" where
  "vec3_sub a b =
     mk_vec3 (float_sub (x3 a) (x3 b)) (float_sub (y3 a) (y3 b)) (float_sub (z3 a) (z3 b))"

definition dot3 :: "vec3 \<Rightarrow> vec3 \<Rightarrow> float" where
  "dot3 a b =
     float_add (float_add (float_mul (x3 a) (x3 b)) (float_mul (y3 a) (y3 b)))
               (float_mul (z3 a) (z3 b))"

section \<open>Shader programs: core/program.cpp\<close>

datatype shader_kind =
  GL_VERTEX_SHADER | GL_GEOMETRY_SHADER | GL_FRAGMENT_SHADER | GL_COMPUTE_SHADER

text \<open>\<open>Program::Variable\<close>: what reflection records for an attribute or a uniform.\<close>

record Variable =
  var_size :: int
  var_type :: nat
  var_loc :: int

text \<open>The fields of \<open>Program\<close>; the two \<open>unordered_map\<close>s are partial maps.\<close>

record Program =
  program :: int
  vertShader :: int
  geomShader :: int
  fragShader :: int
  computeShader :: int
  debugName :: string
  uniforms :: "string \<rightharpoonup> Variable"
  attribs :: "string \<rightharpoonup> Variable"

text \<open>
  What the code asks of its surroundings while it loads a program: the file system behind
  \<open>LoadFile\<close> (\<open>None\<close>: the file cannot be read, and the output string stays as
  constructed, empty) and the OpenGL driver. The driver answers by shader kind and source
  text; a linked program is identified by the kinds and sources attached to it, in the
  order of the \<open>glAttachShader\<close> calls. The handles it gives out are part of its answer;
  that two objects get two handles is not modelled, and no property below rests on it.
\<close>

record gl_driver =
  LoadFile :: "string \<Rightarrow> string option"
  glCreateShader :: "shader_kind \<Rightarrow> int"
  compile_status :: "shader_kind \<Rightarrow> string \<Rightarrow> bool"
  shader_info_log :: "shader_kind \<Rightarrow> string \<Rightarrow> string"
  glCreateProgram :: int
  link_status :: "(shader_kind \<times> string) list \<Rightarrow> bool"
  program_info_log :: "(shader_kind \<times> string) list \<Rightarrow> string"
  active_attribs :: "(shader_kind \<times> string) list \<Rightarrow> (string \<times> Variable) list"
  active_uniforms :: "(shader_kind \<times> string) list \<Rightarrow> (string \<times> Variable) list"

text \<open>
  What a call leaves behind outside the \<open>Program\<close> object: lines written with
  \<open>Log::printf\<close> or to \<open>std::cerr\<close>, and the OpenGL calls that change driver objects.
\<close>

datatype event =
    Printf string
  | Cerr string
  | PrintInfoLog string
  | DumpShaderSource string
  | DeleteShader int
  | DeleteProgram int
  | AttachShader int int
  | LinkProgram int

text \<open>\<open>GL_INFO_LOG_LENGTH\<close>: the length of the log with its terminator, 0 without a log.\<close>

definition info_log_length :: "string \<Rightarrow> nat" where
  "info_log_length l = (if l = [] then 0 else length l + 1)"

text \<open>
  \<open>CompileShader\<close>. \<open>ndebug\<close> says whether \<open>NDEBUG\<close> is defined; without it
  \<open>WARNINGS_AS_ERRORS\<close> is. The result is \<open>None\<close> where the source returns false (and
  leaves \<open>*shaderOut\<close> alone), \<open>Some shader\<close> where it stores the shader and returns true.
\<close>

definition CompileShader ::
  "gl_driver \<Rightarrow> bool \<Rightarrow> shader_kind \<Rightarrow> string \<Rightarrow> string \<Rightarrow> event list \<times> int option" where
  "CompileShader gl ndebug kind source dbg =
     (let shader = glCreateShader gl kind;
          compiled = compile_status gl kind source;
          e1 = (if \<not> compiled
                then [Printf (''shader compilation error for \"'' @ dbg @ ''\"!\<newline>'')] else []);
          bufferLen = info_log_length (shader_info_log gl kind source);
          e2 = (if bufferLen > 1
                then (if compiled
                      then [Printf (''shader compilation warning for \"'' @ dbg @ ''\"!\<newline>'')]
                      else [])
                     @ [PrintInfoLog (shader_info_log gl kind source), DumpShaderSource source]
                else [])
      in (e1 @ e2,
          if (if ndebug then \<not> compiled else \<not> compiled \<or> bufferLen > 1)
          then None else Some shader))"

text \<open>\<open>Program::Delete\<close>.\<close>

definition Delete :: "Program \<Rightarrow> event list \<times> Program" where
  "Delete p =
     ([DeleteShader (vertShader p), DeleteShader (geomShader p), DeleteShader (fragShader p),
       DeleteShader (computeShader p), DeleteProgram (program p)],
      p\<lparr>debugName := [], vertShader := 0, geomShader := 0, fragShader := 0,
        computeShader := 0, program := 0, uniforms := Map.empty, attribs := Map.empty\<rparr>)"

text \<open>\<open>Program::CheckLinkStatus\<close>, for the program linked from \<open>srcs\<close>.\<close>

definition CheckLinkStatus ::
  "gl_driver \<Rightarrow> bool \<Rightarrow> string \<Rightarrow> (shader_kind \<times> string) list \<Rightarrow> event list \<times> bool" where
  "CheckLinkStatus gl ndebug dbg srcs =
     (let linked = link_status gl srcs;
          e1 = (if \<not> linked then [Printf (''Failed to link shaders \"'' @ dbg @ ''\"\<newline>'')] else []);
          bufferLen = min (length (program_info_log gl srcs)) 4095;
          e2 = (if bufferLen > 0
                then (if linked
                      then [Printf (''Warning during linking shaders \"'' @ dbg @ ''\"\<newline>'')]
                      else [])
                     @ [PrintInfoLog (program_info_log gl srcs)]
                else [])
      in (e1 @ e2,
          \<not> (if ndebug then \<not> linked else \<not> linked \<or> bufferLen > 1)))"

text \<open>The reflection loops: \<open>table[name] = v\<close> for each active variable in turn.\<close>

fun reflect :: "(string \<rightharpoonup> Variable) \<Rightarrow> (string \<times> Variable) list \<Rightarrow> (string \<rightharpoonup> Variable)" where
  "reflect m [] = m"
| "reflect m ((name, v) # vs) = reflect (m(name \<mapsto> v)) vs"

text \<open>
  \<open>Program::LoadVertGeomFrag\<close>: the returned boolean, the object afterwards, and the events
  in order. Every \<open>return false\<close> of the source is one \<open>(False, \<dots>)\<close> branch.
\<close>

definition LoadVertGeomFrag ::
  "gl_driver \<Rightarrow> bool \<Rightarrow> Program \<Rightarrow> string \<Rightarrow> string \<Rightarrow> string \<Rightarrow> bool \<times> Program \<times> event list" where
  "LoadVertGeomFrag gl ndebug p0 vertFilename geomFilename fragFilename =
     (let (ed, p1) = Delete p0;
          useGeomShader = (geomFilename \<noteq> []);
          p2 = p1\<lparr>debugName :=
                 (if useGeomShader
                  then vertFilename @ '' + '' @ geomFilename @ '' + '' @ fragFilename
                  else vertFilename @ '' + '' @ fragFilename)\<rparr>
      in case LoadFile gl vertFilename of
           None \<Rightarrow> (False, p2,
             ed @ [Printf (''Failed to load vertex shader '' @ vertFilename @ ''\<newline>'')])
         | Some vertSource \<Rightarrow>
      (case (if useGeomShader then LoadFile gl geomFilename else Some []) of
           None \<Rightarrow> (False, p2,
             ed @ [Printf (''Failed to load geometry shader '' @ geomFilename @ ''\<newline>'')])
         | Some geomSource \<Rightarrow>
      (case LoadFile gl fragFilename of
           None \<Rightarrow> (False, p2,
             ed @ [Printf (''Failed to load fragment shader \"'' @ fragFilename @ ''\"\<newline>'')])
         | Some fragSource \<Rightarrow>
      (case CompileShader gl ndebug GL_VERTEX_SHADER vertSource vertFilename of
           (ev, None) \<Rightarrow> (False, p2,
             ed @ ev @ [Printf (''Failed to compile vertex shader \"'' @ vertFilename @ ''\"\<newline>'')])
         | (ev, Some vs) \<Rightarrow>
      (let p3 = p2\<lparr>vertShader := vs\<rparr> in
       case (if useGeomShader
             then CompileShader gl ndebug GL_GEOMETRY_SHADER geomSource geomFilename
             else ([], Some (geomShader p3))) of
           (eg, None) \<Rightarrow> (False, p3,
             ed @ ev @ eg
               @ [Printf (''Failed to compile geometry shader \"'' @ geomFilename @ ''\"\<newline>'')])
         | (eg, Some gs) \<Rightarrow>
      (let p4 = p3\<lparr>geomShader := gs\<rparr> in
       case CompileShader gl ndebug GL_FRAGMENT_SHADER fragSource fragFilename of
           (ef, None) \<Rightarrow> (False, p4,
             ed @ ev @ eg @ ef
               @ [Printf (''Failed to compile fragment shader \"'' @ fragFilename @ ''\"\<newline>'')])
         | (ef, Some fs) \<Rightarrow>
      (let p5 = p4\<lparr>fragShader := fs, program := glCreateProgram gl\<rparr>;
           srcs = [(GL_VERTEX_SHADER, vertSource), (GL_FRAGMENT_SHADER, fragSource)]
                  @ (if useGeomShader then [(GL_GEOMETRY_SHADER, geomSource)] else []);
           ea = [AttachShader (program p5) (vertShader p5),
                 AttachShader (program p5) (fragShader p5)]
                @ (if useGeomShader then [AttachShader (program p5) (geomShader p5)] else [])
                @ [LinkProgram (program p5)];
           (el, ok) = CheckLinkStatus gl ndebug (debugName p5) srcs
       in if \<not> ok
          then (False, p5,
             ed @ ev @ eg @ ef @ ea @ el
               @ [Printf (''Failed to link program \"'' @ debugName p5 @ ''\"\<newline>''),
                  Printf ''\<newline>'',
                  Printf (vertFilename @ '' =\<newline>''), DumpShaderSource vertSource]
               @ (if useGeomShader
                  then [Printf (geomFilename @ '' =\<newline>''), DumpShaderSource geomSource]
                  else [])
               @ [Printf (fragFilename @ '' =\<newline>''), DumpShaderSource fragSource])
          else (True,
             p5\<lparr>attribs := reflect (attribs p5) (active_attribs gl srcs),
                uniforms := reflect (uniforms p5) (active_uniforms gl srcs)\<rparr>,
             ed @ ev @ eg @ ef @ ea @ el))))))))"

text \<open>
  \<open>Program::LoadCompute\<close>. After a failed \<open>LoadFile\<close> the source prints and goes on, with
  the source string as it was constructed (empty): there is no \<open>return\<close> in that branch.
\<close>

definition LoadCompute ::
  "gl_driver \<Rightarrow> bool \<Rightarrow> Program \<Rightarrow> string \<Rightarrow> bool \<times> Program \<times> event list" where
  "LoadCompute gl ndebug p0 computeFilename =
     (let (ed, p1) = Delete p0;
          p2 = p1\<lparr>debugName := computeFilename\<rparr>;
          (e0, computeSource) =
             (case LoadFile gl computeFilename of
                None \<Rightarrow> ([Printf (''Failed to load compute shader '' @ computeFilename @ ''\<newline>'')], [])
              | Some s \<Rightarrow> ([], s))
      in case CompileShader gl ndebug GL_COMPUTE_SHADER computeSource computeFilename of
           (ec, None) \<Rightarrow> (False, p2,
             ed @ e0 @ ec
               @ [Printf (''Failed to compile compute shader '' @ computeFilename @ ''\<newline>'')])
         | (ec, Some cs) \<Rightarrow>
      (let p3 = p2\<lparr>computeShader := cs, program := glCreateProgram gl\<rparr>;
           srcs = [(GL_COMPUTE_SHADER, computeSource)];
           ea = [AttachShader (program p3) (computeShader p3), LinkProgram (program p3)];
           (el, ok) = CheckLinkStatus gl ndebug (debugName p3) srcs
       in if \<not> ok
          then (False, p3,
             ed @ e0 @ ec @ ea @ el
               @ [Printf (''Failed to link program \"'' @ debugName p3 @ ''\"\<newline>''),
                  Printf ''\<newline>'',
                  Printf (computeFilename @ '' =\<newline>''), DumpShaderSource computeSource])
          else (True,
             p3\<lparr>uniforms := reflect (uniforms p3) (active_uniforms gl srcs)\<rparr>,
             ed @ e0 @ ec @ ea @ el)))"

text \<open>
  \<open>Program::GetUniformLoc\<close> and \<open>Program::GetAttribLoc\<close>. \<open>assert(false)\<close> ends the process
  when \<open>NDEBUG\<close> is not defined and is nothing when it is. In \<open>GetUniformLoc\<close> the assertion
  stands before the line to \<open>std::cerr\<close>, in \<open>GetAttribLoc\<close> after it.
\<close>

datatype abort = AssertionFailed

definition GetUniformLoc :: "bool \<Rightarrow> Program \<Rightarrow> string \<Rightarrow> event list \<times> (abort + int)" where
  "GetUniformLoc ndebug p name =
     (case uniforms p name of
        Some v \<Rightarrow> ([], Inr (var_loc v))
      | None \<Rightarrow>
          if \<not> ndebug then ([], Inl AssertionFailed)
          else ([Cerr (''could not find uniform '' @ name @ '' for program '' @ debugName p
                       @ ''\<newline>'')],
                Inr 0))"

definition GetAttribLoc :: "bool \<Rightarrow> Program \<Rightarrow> string \<Rightarrow> event list \<times> (abort + int)" where
  "GetAttribLoc ndebug p name =
     (case attribs p name of
        Some v \<Rightarrow> ([], Inr (var_loc v))
      | None \<Rightarrow>
          ([Cerr (''could not find attrib '' @ name @ '' for program '' @ debugName p
                  @ ''\<newline>'')],
           if \<not> ndebug then Inl AssertionFailed else Inr 0))"

section \<open>Depth keys\<close>

text \<open>
  \<open>(uint32_t)f\<close> for a \<open>float\<close> f truncates towards zero. C++ defines the result only when
  the truncated value fits the type, that is for a finite f with \<open>-1 < f < 2^32\<close>; for
  every other f, the infinities and NaN among them, the language leaves the behaviour open,
  and what the compiled program yields there is the parameter \<open>oor\<close> of the model.
\<close>

definition trunc_toward_zero :: "real \<Rightarrow> int" where
  "trunc_toward_zero f = (if 0 \<le> f then \<lfloor>f\<rfloor> else \<lceil>f\<rceil>)"

fun u32_representable :: "float \<Rightarrow> bool" where
  "u32_representable (Finite r) = (-1 < r \<and> r < 4294967296)"
| "u32_representable NegZero = True"
| "u32_representable PlusInf = False"
| "u32_representable MinusInf = False"
| "u32_representable NaN = False"

definition float_to_u32 :: "(float \<Rightarrow> u32) \<Rightarrow> float \<Rightarrow> u32" where
  "float_to_u32 oor f =
     (if u32_representable f then word_of_int (trunc_toward_zero (float_val f)) else oor f)"

text \<open>
  Two behaviours outside the range. On x86-64 the usual code converts to a 64-bit signed
  integer and keeps the low 32 bits: that wraps modulo \<open>2^32\<close> where the truncated value
  fits 64 bits, and gives 0 elsewhere (the low half of the instruction's answer to an
  operand it cannot convert). The unsigned conversion instruction of AVX-512 answers every
  operand outside the range with \<open>2^32 - 1\<close>.
\<close>

fun wrap_conversion :: "float \<Rightarrow> u32" where
  "wrap_conversion (Finite r) =
     (if - 9223372036854775809 < r \<and> r < 9223372036854775808
      then word_of_int (trunc_toward_zero r) else 0)"
| "wrap_conversion NegZero = 0"
| "wrap_conversion PlusInf = 0"
| "wrap_conversion MinusInf = 0"
| "wrap_conversion NaN = 0"

definition all_ones_conversion :: "float \<Rightarrow> u32" where
  "all_ones_conversion f = 4294967295"

text \<open>
  The right-hand side of \<open>depthVec[i] = std::numeric_limits<uint32_t>::max() -
  (uint32_t)(depth * 65536.0f)\<close>.
\<close>

definition depth_key :: "(float \<Rightarrow> u32) \<Rightarrow> float \<Rightarrow> u32" where
  "depth_key oor depth = 4294967295 - float_to_u32 oor (float_mul depth (Finite 65536))"

text \<open>\<open>forward\<close> and \<open>eye\<close> as both \<open>Render\<close> functions compute them.\<close>

definition camera_forward :: "mat4 \<Rightarrow> vec3" where
  "camera_forward cameraMat =
     mat3_mul_vec3 (mat3_of_mat4 cameraMat) (mk_vec3 (Finite 0) (Finite 0) (Finite (-1)))"

definition camera_eye :: "mat4 \<Rightarrow> vec3" where
  "camera_eye cameraMat = vec3_of_vec4 (c3 cameraMat)"

text \<open>
  The loop of \<open>SplatRenderer::Render\<close> from index \<open>i\<close> on. \<open>operator[]\<close> of a vector is
  not checked: an index outside \<open>depthVec\<close> or \<open>indexVec\<close> ends the model with \<open>None\<close>.
\<close>

function build_vecs ::
  "(float \<Rightarrow> u32) \<Rightarrow> vec3 \<Rightarrow> vec3 \<Rightarrow> vec3 list \<Rightarrow> nat \<Rightarrow> u32 list \<times> u32 list
     \<Rightarrow> (u32 list \<times> u32 list) option" where
  "build_vecs oor forward eye positionVec i (depthVec, indexVec) =
     (if i < length positionVec
      then (if i < length depthVec \<and> i < length indexVec
            then build_vecs oor forward eye positionVec (Suc i)
                   (depthVec[i := depth_key oor (dot3 (vec3_sub (positionVec ! i) eye) forward)],
                    indexVec[i := word_of_nat i])
            else None)
      else Some (depthVec, indexVec))"
  by pat_completeness auto
termination
  by (relation "measure (\<lambda>(oor, forward, eye, positionVec, i, vecs). length positionVec - i)") auto

declare build_vecs.simps [simp del]

section \<open>The device\<close>

text \<open>
  Buffer objects hold typed arrays; \<open>byte_size\<close> is what \<open>glBufferData\<close> was given. The
  device state keeps what the frame's calls read or write: the buffers, the binding points,
  the bound program and its uniforms by name, the texture unit, and the list of draws, each
  draw recorded as the index sequence it was issued with. \<open>errors\<close> collects OpenGL errors
  (the call is then ignored, as OpenGL does); \<open>fault\<close> is raised where a call leaves what
  the model covers.
\<close>

datatype buffer_data = U32Data "u32 list" | Vec3Data "vec3 list" | Vec4Data "vec4 list"

fun byte_size :: "buffer_data \<Rightarrow> nat" where
  "byte_size (U32Data xs) = 4 * length xs"
| "byte_size (Vec3Data xs) = 12 * length xs"
| "byte_size (Vec4Data xs) = 16 * length xs"

datatype buffer_target = GL_COPY_READ_BUFFER | GL_COPY_WRITE_BUFFER

datatype uniform_value =
  UInt int | UFloat float | UVec3 vec3 | UVec4 vec4 | UMat4 mat4

datatype gl_error = GL_INVALID_VALUE | GL_INVALID_OPERATION

record device =
  buffers :: "nat \<rightharpoonup> buffer_data"
  next_buffer :: nat
  bound :: "buffer_target \<rightharpoonup> nat"
  ssbo :: "nat \<rightharpoonup> nat"
  cur_program :: int
  uniform_vals :: "int \<times> string \<rightharpoonup> uniform_value"
  active_texture :: nat
  bound_texture :: "nat \<rightharpoonup> nat"
  draws :: "u32 list list"
  errors :: "gl_error list"
  fault :: bool

text \<open>
  Modelled from the spec: \<open>GeometryBinding\<close> of section 4.3, the class
  \<open>VertexArrayObject\<close>, which is not among the sources: it "associates named attribute
  slots to DeviceBuffers and owns one index buffer used for indexed draws". The record
  keeps what \<open>SetAttribBuffer\<close> and \<open>SetElementBuffer\<close> were called with.
\<close>

record VertexArrayObject =
  attribBuffers :: "(int \<times> nat) list"
  elementBuffer :: nat

text \<open>
  The calls a \<open>Render\<close> function makes, in the order it makes them. \<open>BufferUpdate\<close> is
  \<open>BufferObject::Update\<close>, \<open>Bind\<close> is \<open>Program::Bind\<close> with the program handle,
  \<open>SetUniform\<close> is \<open>Program::SetUniform\<close> by name on the program with that handle,
  \<open>sorter_sort\<close> is \<open>sorter->sort\<close> with the capacity the sorter was built with, and
  \<open>DrawElements\<close> is \<open>VertexArrayObject::DrawElements(GL_POINTS)\<close>.
\<close>

datatype gl_cmd =
    BufferUpdate nat buffer_data
  | Bind int
  | SetUniform int string uniform_value
  | glBindBufferBase nat nat
  | glDispatchCompute u32 u32 u32
  | glMemoryBarrier
  | sorter_sort nat nat nat nat
  | glBindBuffer buffer_target nat
  | glCopyBufferSubData buffer_target buffer_target nat nat nat
  | glActiveTexture nat
  | glBindTexture nat
  | DrawElements VertexArrayObject

text \<open>
  Modelled from the spec: \<open>DeviceBuffer(usageHint, hostArray)\<close> of section 4.3, the
  constructor of \<open>BufferObject\<close>, which is not among the sources: it "creates and uploads
  a buffer sized to hostArray's byte length". The new object takes the next unused name.
\<close>

definition new_BufferObject :: "device \<Rightarrow> buffer_data \<Rightarrow> nat \<times> device" where
  "new_BufferObject dev d =
     (next_buffer dev,
      dev\<lparr>buffers := (buffers dev)(next_buffer dev \<mapsto> d), next_buffer := Suc (next_buffer dev)\<rparr>)"

text \<open>
  Modelled from the spec: \<open>update(hostArray)\<close> of section 4.3, \<open>BufferObject::Update\<close>,
  which is not among the sources: it "requires the same element count as creation (no
  resize) and replaces content". An update that breaks the requirement is a fault.
\<close>

definition exec_BufferUpdate :: "nat \<Rightarrow> buffer_data \<Rightarrow> device \<Rightarrow> device" where
  "exec_BufferUpdate obj d dev =
     (case buffers dev obj of
        None \<Rightarrow> dev\<lparr>fault := True\<rparr>
      | Some old \<Rightarrow>
          if byte_size old = byte_size d then dev\<lparr>buffers := (buffers dev)(obj \<mapsto> d)\<rparr>
          else dev\<lparr>fault := True\<rparr>)"

text \<open>
  Modelled from the spec: the contract of \<open>ParallelSorter\<close> in section 4.2, for
  \<open>rgc::radix_sort::sorter\<close> of \<open>radix_sort.hpp\<close>, which is not among the sources:
  "sorts count key/value pairs resident on the compute device, ascending by key, with
  valueBuffer[i] following its key", and "not guaranteed stable". The sorter is a function
  on the list of pairs; the contract asks that it permutes the pairs and leaves the keys
  ascending, and fixes nothing else.
\<close>

definition sorter_contract :: "((u32 \<times> u32) list \<Rightarrow> (u32 \<times> u32) list) \<Rightarrow> bool" where
  "sorter_contract srt = (\<forall>kvs. mset (srt kvs) = mset kvs \<and> sorted (map fst (srt kvs)))"

text \<open>One sorter that meets the contract: insertion by key.\<close>

definition insertion_sorter :: "(u32 \<times> u32) list \<Rightarrow> (u32 \<times> u32) list" where
  "insertion_sorter kvs = sort_key fst kvs"

text \<open>
  Modelled from the spec: \<open>sort(keyBuffer, valueBuffer, count)\<close> of section 4.2 on the
  device: the first \<open>n\<close> pairs of the two buffers are replaced by the sorted pairs.
  "Sorting more than the allocated capacity is undefined": that, and buffers that are not
  arrays of at least \<open>n\<close> 32-bit words, is a fault.
\<close>

definition exec_sorter_sort ::
  "((u32 \<times> u32) list \<Rightarrow> (u32 \<times> u32) list) \<Rightarrow> nat \<Rightarrow> nat \<Rightarrow> nat \<Rightarrow> nat \<Rightarrow> device \<Rightarrow> device" where
  "exec_sorter_sort srt capacity keyObj valObj n dev =
     (case (buffers dev keyObj, buffers dev valObj) of
        (Some (U32Data ks), Some (U32Data vs)) \<Rightarrow>
          if n \<le> capacity \<and> n \<le> length ks \<and> n \<le> length vs \<and> keyObj \<noteq> valObj
          then (let sorted_pairs = srt (zip (take n ks) (take n vs))
                in dev\<lparr>buffers := (buffers dev)
                         (keyObj \<mapsto> U32Data (map fst sorted_pairs @ drop n ks),
                          valObj \<mapsto> U32Data (map snd sorted_pairs @ drop n vs))\<rparr>)
          else dev\<lparr>fault := True\<rparr>
      | _ \<Rightarrow> dev\<lparr>fault := True\<rparr>)"

text \<open>
  Modelled from the spec: the kernel of \<open>shader/presort_compute.glsl\<close>, which is not
  among the sources, as section 4.1 describes it: "each invocation reads one position,
  computes dot(position - eye, forward), writes the quantized key and writes its own index
  as the value", with "trailing invocations beyond N" guarded. N is the length of the
  position array bound at index 0; keys are at index 1 and values at index 2. The
  arithmetic of the device is taken to be that of the host. One invocation with global
  index \<open>idx\<close>:
\<close>

definition presort_invocation ::
  "(float \<Rightarrow> u32) \<Rightarrow> vec3 \<Rightarrow> vec3 \<Rightarrow> vec4 list \<Rightarrow> nat \<Rightarrow> u32 list \<times> u32 list \<Rightarrow> u32 list \<times> u32 list" where
  "presort_invocation oor forward eye positions idx kv =
     (if idx < length positions
      then ((fst kv)[idx := depth_key oor (dot3 (vec3_sub (vec3_of_vec4 (positions ! idx)) eye) forward)],
            (snd kv)[idx := word_of_nat idx])
      else kv)"

text \<open>
  \<open>glDispatchCompute(groups, 1, 1)\<close> of that kernel, with work groups of 256 invocations
  (\<open>LOCAL_SIZE\<close> in \<open>PointRenderer::Render\<close>): every global index below
  \<open>256 * groups\<close> runs once. The invocations write disjoint elements, so their order
  does not matter; the model runs them by ascending index. Key and value arrays shorter than
  the position array would be written out of bounds: a fault.
\<close>

definition LOCAL_SIZE :: nat where
  "LOCAL_SIZE = 256"

definition exec_glDispatchCompute :: "(float \<Rightarrow> u32) \<Rightarrow> u32 \<Rightarrow> u32 \<Rightarrow> u32 \<Rightarrow> device \<Rightarrow> device" where
  "exec_glDispatchCompute oor gx gy gz dev =
     (case (ssbo dev 0, ssbo dev 1, ssbo dev 2,
            uniform_vals dev (cur_program dev, ''forward''),
            uniform_vals dev (cur_program dev, ''eye'')) of
        (Some posObj, Some keyObj, Some valObj, Some (UVec3 forward), Some (UVec3 eye)) \<Rightarrow>
          (case (buffers dev posObj, buffers dev keyObj, buffers dev valObj) of
             (Some (Vec4Data positions), Some (U32Data ks), Some (U32Data vs)) \<Rightarrow>
               if length positions \<le> length ks \<and> length positions \<le> length vs
                  \<and> keyObj \<noteq> valObj \<and> gy = 1 \<and> gz = 1
               then (let kv = fold (presort_invocation oor forward eye positions)
                                   [0 ..< LOCAL_SIZE * unat gx] (ks, vs)
                     in dev\<lparr>buffers := (buffers dev)
                              (keyObj \<mapsto> U32Data (fst kv), valObj \<mapsto> U32Data (snd kv))\<rparr>)
               else dev\<lparr>fault := True\<rparr>
           | _ \<Rightarrow> dev\<lparr>fault := True\<rparr>)
      | _ \<Rightarrow> dev\<lparr>fault := True\<rparr>)"

text \<open>
  \<open>glCopyBufferSubData\<close> as OpenGL specifies it: \<open>GL_INVALID_OPERATION\<close> without a buffer
  bound to a target, \<open>GL_INVALID_VALUE\<close> when a range leaves its buffer or the ranges
  overlap in one buffer, and otherwise \<open>size\<close> bytes go from the read buffer to the write
  buffer inside the device. A size of \<open>2^63\<close> or more is a negative \<open>GLsizeiptr\<close>. The typed
  buffers of the model express copies of whole 32-bit words between word arrays; any other
  copy is a fault.
\<close>

definition exec_glCopyBufferSubData ::
  "buffer_target \<Rightarrow> buffer_target \<Rightarrow> nat \<Rightarrow> nat \<Rightarrow> nat \<Rightarrow> device \<Rightarrow> device" where
  "exec_glCopyBufferSubData readTarget writeTarget readOffset writeOffset sz dev =
     (case (bound dev readTarget, bound dev writeTarget) of
        (Some r, Some w) \<Rightarrow>
          (case (buffers dev r, buffers dev w) of
             (Some rd, Some wd) \<Rightarrow>
               if 9223372036854775808 \<le> sz \<or> byte_size rd < readOffset + sz
                  \<or> byte_size wd < writeOffset + sz
                  \<or> (r = w \<and> readOffset < writeOffset + sz \<and> writeOffset < readOffset + sz)
               then dev\<lparr>errors := errors dev @ [GL_INVALID_VALUE]\<rparr>
               else (case (rd, wd) of
                  (U32Data rs, U32Data ws) \<Rightarrow>
                    if 4 dvd readOffset \<and> 4 dvd writeOffset \<and> 4 dvd sz
                    then dev\<lparr>buffers := (buffers dev)
                           (w \<mapsto> U32Data (take (writeOffset div 4) ws
                                            @ take (sz div 4) (drop (readOffset div 4) rs)
                                            @ drop ((writeOffset + sz) div 4) ws))\<rparr>
                    else dev\<lparr>fault := True\<rparr>
                | _ \<Rightarrow> dev\<lparr>fault := True\<rparr>)
           | _ \<Rightarrow> dev\<lparr>errors := errors dev @ [GL_INVALID_OPERATION]\<rparr>)
      | _ \<Rightarrow> dev\<lparr>errors := errors dev @ [GL_INVALID_OPERATION]\<rparr>)"

text \<open>
  Modelled from the spec: \<open>drawIndexed(primitiveKind)\<close> of section 4.3,
  \<open>VertexArrayObject::DrawElements\<close>, which is not among the sources: it "issues exactly
  one draw call over the full index buffer".
\<close>

definition exec_DrawElements :: "VertexArrayObject \<Rightarrow> device \<Rightarrow> device" where
  "exec_DrawElements vao dev =
     (case buffers dev (elementBuffer vao) of
        Some (U32Data idx) \<Rightarrow> dev\<lparr>draws := draws dev @ [idx]\<rparr>
      | _ \<Rightarrow> dev\<lparr>fault := True\<rparr>)"

text \<open>
  One call on the device. The two parameters are the out-of-range conversion of the
  platform and the sorter. \<open>glBindBuffer\<close>, \<open>glBindBufferBase\<close>, \<open>glUseProgram\<close>,
  \<open>glActiveTexture\<close> and \<open>glBindTexture\<close> set the binding they name, and
  \<open>glMemoryBarrier\<close> changes nothing where calls run one after the other.

  Modelled from the spec: \<open>setUniform(name, value)\<close> of section 6, the template
  \<open>Program::SetUniform(name, value)\<close>, which is not among the sources: the value is kept
  for the program under the name, which is taken to resolve.
\<close>

fun exec :: "(float \<Rightarrow> u32) \<Rightarrow> ((u32 \<times> u32) list \<Rightarrow> (u32 \<times> u32) list) \<Rightarrow> gl_cmd \<Rightarrow> device \<Rightarrow> device" where
  "exec oor srt (BufferUpdate obj d) dev = exec_BufferUpdate obj d dev"
| "exec oor srt (Bind h) dev = dev\<lparr>cur_program := h\<rparr>"
| "exec oor srt (SetUniform h name v) dev = dev\<lparr>uniform_vals := (uniform_vals dev)((h, name) \<mapsto> v)\<rparr>"
| "exec oor srt (glBindBufferBase i obj) dev = dev\<lparr>ssbo := (ssbo dev)(i \<mapsto> obj)\<rparr>"
| "exec oor srt (glDispatchCompute gx gy gz) dev = exec_glDispatchCompute oor gx gy gz dev"
| "exec oor srt glMemoryBarrier dev = dev"
| "exec oor srt (sorter_sort cap k v n) dev = exec_sorter_sort srt cap k v n dev"
| "exec oor srt (glBindBuffer t obj) dev = dev\<lparr>bound := (bound dev)(t \<mapsto> obj)\<rparr>"
| "exec oor srt (glCopyBufferSubData rt wt ro wo sz) dev = exec_glCopyBufferSubData rt wt ro wo sz dev"
| "exec oor srt (glActiveTexture u) dev = dev\<lparr>active_texture := u\<rparr>"
| "exec oor srt (glBindTexture t) dev = dev\<lparr>bound_texture := (bound_texture dev)(active_texture dev \<mapsto> t)\<rparr>"
| "exec oor srt (DrawElements vao) dev = exec_DrawElements vao dev"

text \<open>The calls of a frame, one after the other.\<close>

fun run :: "(float \<Rightarrow> u32) \<Rightarrow> ((u32 \<times> u32) list \<Rightarrow> (u32 \<times> u32) list) \<Rightarrow> gl_cmd list \<Rightarrow> device \<Rightarrow> device" where
  "run oor srt [] dev = dev"
| "run oor srt (c # cs) dev = run oor srt cs (exec oor srt c dev)"

section \<open>The renderers: splatrenderer.cpp and pointrenderer.cpp\<close>

record vec2 =
  x2 :: float
  y2 :: float

text \<open>
  Library functions the renderers call and the model does not look into: \<open>glm::inverse\<close>,
  \<open>glm::perspective\<close>, \<open>tanf\<close> and \<open>expf\<close>.
\<close>

record math_lib =
  glm_inverse :: "mat4 \<Rightarrow> mat4"
  glm_perspective :: "float \<Rightarrow> float \<Rightarrow> float \<Rightarrow> float \<Rightarrow> mat4"
  tanf :: "float \<Rightarrow> float"
  expf :: "float \<Rightarrow> float"

text \<open>
  The elements of the clouds, with the fields the renderers read. \<open>g_covMat\<close> stands for
  the value of \<open>g.ComputeCovMat()\<close>.
\<close>

record Gaussian =
  g_position :: vec3
  g_f_dc :: vec3
  g_opacity :: float
  g_covMat :: mat3

record Point =
  p_position :: vec3
  p_color :: "8 word \<times> 8 word \<times> 8 word"

text \<open>
  The members both renderers have under the same names, and then each renderer's own.
  \<open>sorter\<close> is the capacity the sorter was constructed with.
\<close>

record renderer_vecs =
  depthVec :: "u32 list"
  indexVec :: "u32 list"
  keyBuffer :: nat
  valBuffer :: nat
  sorter :: nat

record SplatRenderer = renderer_vecs +
  splatProg :: Program
  splatVao :: VertexArrayObject
  positionVec :: "vec3 list"

record PointRenderer = renderer_vecs +
  pointTex :: nat
  pointProg :: Program
  preSortProg :: Program
  pointVao :: VertexArrayObject
  posVec :: "vec4 list"
  posBuffer :: nat

text \<open>
  \<open>Program::Program()\<close> sets four handles to 0 and leaves \<open>computeShader\<close> as the memory
  holds it: that value is the parameter.
\<close>

definition new_Program :: "int \<Rightarrow> Program" where
  "new_Program uninit =
     \<lparr>program = 0, vertShader = 0, geomShader = 0, fragShader = 0, computeShader = uninit,
      debugName = [], uniforms = Map.empty, attribs = Map.empty\<rparr>"

text \<open>The renderers as their constructors leave them: empty vectors, no objects yet.\<close>

definition new_SplatRenderer :: "int \<Rightarrow> SplatRenderer" where
  "new_SplatRenderer uninit =
     \<lparr>depthVec = [], indexVec = [], keyBuffer = 0, valBuffer = 0, sorter = 0,
      splatProg = new_Program uninit,
      splatVao = \<lparr>attribBuffers = [], elementBuffer = 0\<rparr>, positionVec = []\<rparr>"

definition new_PointRenderer :: "int \<Rightarrow> PointRenderer" where
  "new_PointRenderer uninit =
     \<lparr>depthVec = [], indexVec = [], keyBuffer = 0, valBuffer = 0, sorter = 0,
      pointTex = 0, pointProg = new_Program uninit, preSortProg = new_Program uninit,
      pointVao = \<lparr>attribBuffers = [], elementBuffer = 0\<rparr>, posVec = [], posBuffer = 0\<rparr>"

text \<open>\<open>GetAttribLoc\<close> for several names in turn; the first failed assertion ends the run.\<close>

fun GetAttribLocs :: "bool \<Rightarrow> Program \<Rightarrow> string list \<Rightarrow> event list \<times> (abort + int list)" where
  "GetAttribLocs ndebug p [] = ([], Inr [])"
| "GetAttribLocs ndebug p (name # names) =
     (case GetAttribLoc ndebug p name of
        (e, Inl a) \<Rightarrow> (e, Inl a)
      | (e, Inr l) \<Rightarrow>
          (case GetAttribLocs ndebug p names of
             (e', Inl a) \<Rightarrow> (e @ e', Inl a)
           | (e', Inr ls) \<Rightarrow> (e @ e', Inr (l # ls))))"

text \<open>
  The element array both \<open>BuildVertexArrayObject\<close> functions append to \<open>indexVec\<close>:
  \<open>for (uint32_t i = 0; i < (uint32_t)numPoints; i++) indexVec.push_back(i)\<close>.
\<close>

definition element_array :: "nat \<Rightarrow> u32 list" where
  "element_array numPoints = map word_of_nat [0 ..< unat (word_of_nat numPoints :: u32)]"

text \<open>
  The colour of a Gaussian in the loop of \<open>SplatRenderer::BuildVertexArrayObject\<close>:
  \<open>0.5f + SH_C0 * g.f_dc[k]\<close> and \<open>alpha = 1.0f / (1.0f + expf(-g.opacity))\<close>.
\<close>

definition SH_C0 :: float where
  "SH_C0 = float_literal 0.28209479177387814"

definition gaussian_color :: "math_lib \<Rightarrow> Gaussian \<Rightarrow> vec4" where
  "gaussian_color lib g =
     mk_vec4 (float_add (Finite 0.5) (float_mul SH_C0 (x3 (g_f_dc g))))
             (float_add (Finite 0.5) (float_mul SH_C0 (y3 (g_f_dc g))))
             (float_add (Finite 0.5) (float_mul SH_C0 (z3 (g_f_dc g))))
             (float_div (Finite 1) (float_add (Finite 1) (expf lib (float_neg (g_opacity g)))))"

text \<open>
  \<open>SplatRenderer::BuildVertexArrayObject\<close>. \<open>assert(numPoints <= UINT32_MAX)\<close> ends the
  process when it fails and \<open>NDEBUG\<close> is not defined.
\<close>

definition Splat_BuildVertexArrayObject ::
  "math_lib \<Rightarrow> bool \<Rightarrow> device \<Rightarrow> SplatRenderer \<Rightarrow> Gaussian list
     \<Rightarrow> event list \<times> (abort + SplatRenderer \<times> device)" where
  "Splat_BuildVertexArrayObject lib ndebug dev r gaussianCloud =
     (let numPoints = length gaussianCloud;
          positionVec' = positionVec r @ map g_position gaussianCloud;
          colorVec = map (gaussian_color lib) gaussianCloud;
          cov3_col0Vec = map (\<lambda>g. m3c0 (g_covMat g)) gaussianCloud;
          cov3_col1Vec = map (\<lambda>g. m3c1 (g_covMat g)) gaussianCloud;
          cov3_col2Vec = map (\<lambda>g. m3c2 (g_covMat g)) gaussianCloud;
          (positionBuffer, d1) = new_BufferObject dev (Vec3Data positionVec');
          (colorBuffer, d2) = new_BufferObject d1 (Vec4Data colorVec);
          (cov3_col0Buffer, d3) = new_BufferObject d2 (Vec3Data cov3_col0Vec);
          (cov3_col1Buffer, d4) = new_BufferObject d3 (Vec3Data cov3_col1Vec);
          (cov3_col2Buffer, d5) = new_BufferObject d4 (Vec3Data cov3_col2Vec)
      in if \<not> ndebug \<and> \<not> numPoints \<le> 4294967295 then ([], Inl AssertionFailed)
         else
          (let indexVec' = indexVec r @ element_array numPoints;
               (indexBuffer, d6) = new_BufferObject d5 (U32Data indexVec')
           in case GetAttribLocs ndebug (splatProg r)
                     [''position'', ''color'', ''cov3_col0'', ''cov3_col1'', ''cov3_col2''] of
                (e, Inl a) \<Rightarrow> (e, Inl a)
              | (e, Inr locs) \<Rightarrow>
                  (e, Inr (r\<lparr>positionVec := positionVec', indexVec := indexVec',
                             splatVao := \<lparr>attribBuffers =
                                zip locs [positionBuffer, colorBuffer, cov3_col0Buffer,
                                          cov3_col1Buffer, cov3_col2Buffer],
                                elementBuffer = indexBuffer\<rparr>\<rparr>, d6))))"

text \<open>\<open>std::vector::resize\<close> with value-initialised new elements.\<close>

definition vector_resize :: "u32 list \<Rightarrow> nat \<Rightarrow> u32 list" where
  "vector_resize xs n = take n xs @ replicate (n - length xs) 0"

text \<open>
  The three ways an \<open>Init\<close> ends: a failed assertion, \<open>return false\<close>, or \<open>return true\<close>
  with the renderer and the device as they then are. The events come along.
\<close>

datatype 'r init_result =
    InitAborted "event list"
  | InitFalse "event list"
  | InitTrue 'r device "event list"

text \<open>\<open>SplatRenderer::Init\<close>.\<close>

definition SplatRenderer_Init ::
  "gl_driver \<Rightarrow> math_lib \<Rightarrow> bool \<Rightarrow> int \<Rightarrow> device \<Rightarrow> SplatRenderer \<Rightarrow> Gaussian list
     \<Rightarrow> SplatRenderer init_result" where
  "SplatRenderer_Init gl lib ndebug uninit dev r gaussianCloud =
     (case LoadVertGeomFrag gl ndebug (new_Program uninit)
             ''shader/splat_vert.glsl'' ''shader/splat_geom.glsl'' ''shader/splat_frag.glsl'' of
        (False, prog, ev) \<Rightarrow> InitFalse (ev @ [Printf ''Error loading splat shaders!\<newline>''])
      | (True, prog, ev) \<Rightarrow>
          (case Splat_BuildVertexArrayObject lib ndebug dev (r\<lparr>splatProg := prog\<rparr>) gaussianCloud of
             (eb, Inl a) \<Rightarrow> InitAborted (ev @ eb)
           | (eb, Inr (r2, d2)) \<Rightarrow>
               (let r3 = r2\<lparr>depthVec := vector_resize (depthVec r2) (length gaussianCloud)\<rparr>;
                    (k, d3) = new_BufferObject d2 (U32Data (depthVec r3));
                    (v, d4) = new_BufferObject d3 (U32Data (indexVec r3))
                in InitTrue (r3\<lparr>keyBuffer := k, valBuffer := v, sorter := length gaussianCloud\<rparr>)
                     d4 (ev @ eb))))"

text \<open>
  \<open>PointRenderer::BuildVertexArrayObject\<close>. In \<open>p.color[k] / 255.0f\<close> the colour byte is
  converted to \<open>float\<close> first, which is exact.
\<close>

definition point_color :: "Point \<Rightarrow> vec4" where
  "point_color p =
     (case p_color p of
        (cr, cg, cb) \<Rightarrow>
          mk_vec4 (float_div (Finite (real (unat cr))) (Finite 255))
                  (float_div (Finite (real (unat cg))) (Finite 255))
                  (float_div (Finite (real (unat cb))) (Finite 255)) (Finite 1))"

definition point_position :: "Point \<Rightarrow> vec4" where
  "point_position p =
     mk_vec4 (x3 (p_position p)) (y3 (p_position p)) (z3 (p_position p)) (Finite 1)"

definition Point_BuildVertexArrayObject ::
  "bool \<Rightarrow> device \<Rightarrow> PointRenderer \<Rightarrow> Point list \<Rightarrow> event list \<times> (abort + PointRenderer \<times> device)" where
  "Point_BuildVertexArrayObject ndebug dev r pointCloud =
     (let numPoints = length pointCloud;
          posVec' = posVec r @ map point_position pointCloud;
          colorVec = map point_color pointCloud;
          (positionBuffer, d1) = new_BufferObject dev (Vec4Data posVec');
          (colorBuffer, d2) = new_BufferObject d1 (Vec4Data colorVec)
      in if \<not> ndebug \<and> \<not> numPoints \<le> 4294967295 then ([], Inl AssertionFailed)
         else
          (let indexVec' = indexVec r @ element_array numPoints;
               (indexBuffer, d3) = new_BufferObject d2 (U32Data indexVec')
           in case GetAttribLocs ndebug (pointProg r) [''position'', ''color''] of
                (e, Inl a) \<Rightarrow> (e, Inl a)
              | (e, Inr locs) \<Rightarrow>
                  (e, Inr (r\<lparr>posVec := posVec', indexVec := indexVec',
                             pointVao := \<lparr>attribBuffers = zip locs [positionBuffer, colorBuffer],
                                          elementBuffer = indexBuffer\<rparr>\<rparr>, d3))))"

text \<open>
  \<open>PointRenderer::Init\<close>. \<open>image_load\<close> stands for \<open>Image::Load\<close> followed by the
  \<open>Texture\<close> constructor: \<open>None\<close> when the image cannot be loaded, else the texture name.
\<close>

definition PointRenderer_Init ::
  "gl_driver \<Rightarrow> (string \<Rightarrow> nat option) \<Rightarrow> bool \<Rightarrow> int \<Rightarrow> device \<Rightarrow> PointRenderer \<Rightarrow> Point list
     \<Rightarrow> PointRenderer init_result" where
  "PointRenderer_Init gl image_load ndebug uninit dev r pointCloud =
     (case image_load ''texture/sphere.png'' of
        None \<Rightarrow> InitFalse [Printf ''Error loading sphere.png\<newline>'']
      | Some tex \<Rightarrow>
     (case LoadVertGeomFrag gl ndebug (new_Program uninit)
             ''shader/point_vert.glsl'' ''shader/point_geom.glsl'' ''shader/point_frag.glsl'' of
        (False, prog, ev) \<Rightarrow> InitFalse (ev @ [Printf ''Error loading point shaders!\<newline>''])
      | (True, prog, ev) \<Rightarrow>
     (case LoadCompute gl ndebug (new_Program uninit) ''shader/presort_compute.glsl'' of
        (False, cprog, ec) \<Rightarrow>
          InitFalse (ev @ ec @ [Printf ''Error loading point pre-sort compute shader!\<newline>''])
      | (True, cprog, ec) \<Rightarrow>
          (case Point_BuildVertexArrayObject ndebug dev
                  (r\<lparr>pointTex := tex, pointProg := prog, preSortProg := cprog\<rparr>) pointCloud of
             (eb, Inl a) \<Rightarrow> InitAborted (ev @ ec @ eb)
           | (eb, Inr (r2, d2)) \<Rightarrow>
               (let r3 = r2\<lparr>depthVec := vector_resize (depthVec r2) (length pointCloud)\<rparr>;
                    (k, d3) = new_BufferObject d2 (U32Data (depthVec r3));
                    (v, d4) = new_BufferObject d3 (U32Data (indexVec r3));
                    (pb, d5) = new_BufferObject d4 (Vec4Data (posVec r3))
                in InitTrue (r3\<lparr>keyBuffer := k, valBuffer := v, posBuffer := pb,
                                sorter := length pointCloud\<rparr>)
                     d5 (ev @ ec @ eb))))))"

subsection \<open>The blocks of a frame\<close>

text \<open>
  The blocks "sort" and "copy sorted indices" read the same in both \<open>Render\<close> functions.
  \<open>numPoints * sizeof(uint32_t)\<close> is arithmetic on \<open>size_t\<close>, 64 bits wide.
\<close>

definition sort_block :: "'a renderer_vecs_scheme \<Rightarrow> nat \<Rightarrow> gl_cmd list" where
  "sort_block r numPoints = [sorter_sort (sorter r) (keyBuffer r) (valBuffer r) numPoints]"

definition copy_sorted_indices ::
  "'a renderer_vecs_scheme \<Rightarrow> VertexArrayObject \<Rightarrow> nat \<Rightarrow> gl_cmd list" where
  "copy_sorted_indices r vao numPoints =
     [glBindBuffer GL_COPY_READ_BUFFER (valBuffer r),
      glBindBuffer GL_COPY_WRITE_BUFFER (elementBuffer vao),
      glCopyBufferSubData GL_COPY_READ_BUFFER GL_COPY_WRITE_BUFFER 0 0
        ((numPoints * 4) mod 18446744073709551616)]"

text \<open>The blocks "build vecs" and "update buffers" of \<open>SplatRenderer::Render\<close>.\<close>

definition splat_build_vecs ::
  "(float \<Rightarrow> u32) \<Rightarrow> SplatRenderer \<Rightarrow> mat4 \<Rightarrow> (u32 list \<times> u32 list) option" where
  "splat_build_vecs oor r cameraMat =
     build_vecs oor (camera_forward cameraMat) (camera_eye cameraMat) (positionVec r) 0
       (depthVec r, indexVec r)"

definition update_buffers :: "'a renderer_vecs_scheme \<Rightarrow> gl_cmd list" where
  "update_buffers r =
     [BufferUpdate (keyBuffer r) (U32Data (depthVec r)),
      BufferUpdate (valBuffer r) (U32Data (indexVec r))]"

definition splat_draw ::
  "math_lib \<Rightarrow> SplatRenderer \<Rightarrow> mat4 \<Rightarrow> vec4 \<Rightarrow> vec2 \<Rightarrow> float \<Rightarrow> gl_cmd list" where
  "splat_draw lib r cameraMat viewport nearFar fovy =
     (let width = z4 viewport;
          height = w4 viewport;
          aspectRatio = float_div width height;
          viewMat = glm_inverse lib cameraMat;
          projMat = glm_perspective lib fovy aspectRatio (x2 nearFar) (y2 nearFar);
          h = program (splatProg r)
      in [Bind h,
          SetUniform h ''viewMat'' (UMat4 viewMat),
          SetUniform h ''projMat'' (UMat4 projMat),
          SetUniform h ''projParams''
            (UVec4 (mk_vec4 (float_div height (tanf lib (float_div fovy (Finite 2))))
                            (x2 nearFar) (y2 nearFar) (Finite 0))),
          SetUniform h ''viewport'' (UVec4 viewport),
          DrawElements (splatVao r)])"

text \<open>
  \<open>SplatRenderer::Render\<close>: the renderer with its two host vectors rewritten, and the calls
  of the frame; \<open>None\<close> when the loop leaves a vector.
\<close>

definition SplatRenderer_Render ::
  "math_lib \<Rightarrow> (float \<Rightarrow> u32) \<Rightarrow> SplatRenderer \<Rightarrow> mat4 \<Rightarrow> vec4 \<Rightarrow> vec2 \<Rightarrow> float
     \<Rightarrow> (SplatRenderer \<times> gl_cmd list) option" where
  "SplatRenderer_Render lib oor r cameraMat viewport nearFar fovy =
     (let numPoints = length (positionVec r)
      in case splat_build_vecs oor r cameraMat of
           None \<Rightarrow> None
         | Some (dv, iv) \<Rightarrow>
             (let r' = r\<lparr>depthVec := dv, indexVec := iv\<rparr>
              in Some (r', update_buffers r' @ sort_block r' numPoints
                           @ copy_sorted_indices r' (splatVao r') numPoints
                           @ splat_draw lib r' cameraMat viewport nearFar fovy)))"

text \<open>
  The block "depth compute" of \<open>PointRenderer::Render\<close>. The group count is computed in
  \<open>GLuint\<close>: \<open>((GLuint)numPoints + (LOCAL_SIZE - 1)) / LOCAL_SIZE\<close>.
\<close>

definition dispatch_groups :: "nat \<Rightarrow> u32" where
  "dispatch_groups numPoints =
     (word_of_nat numPoints + word_of_nat (LOCAL_SIZE - 1)) div word_of_nat LOCAL_SIZE"

definition depth_compute :: "PointRenderer \<Rightarrow> mat4 \<Rightarrow> nat \<Rightarrow> gl_cmd list" where
  "depth_compute r cameraMat numPoints =
     (let forward = camera_forward cameraMat;
          eye = camera_eye cameraMat;
          h = program (preSortProg r)
      in [Bind h,
          SetUniform h ''forward'' (UVec3 forward),
          SetUniform h ''eye'' (UVec3 eye),
          glBindBufferBase 0 (posBuffer r),
          glBindBufferBase 1 (keyBuffer r),
          glBindBufferBase 2 (valBuffer r),
          glDispatchCompute (dispatch_groups numPoints) 1 1,
          glMemoryBarrier])"

definition point_draw ::
  "math_lib \<Rightarrow> PointRenderer \<Rightarrow> mat4 \<Rightarrow> vec4 \<Rightarrow> vec2 \<Rightarrow> float \<Rightarrow> gl_cmd list" where
  "point_draw lib r cameraMat viewport nearFar fovy =
     (let width = z4 viewport;
          height = w4 viewport;
          aspectRatio = float_div width height;
          modelViewMat = glm_inverse lib cameraMat;
          projMat = glm_perspective lib fovy aspectRatio (x2 nearFar) (y2 nearFar);
          h = program (pointProg r)
      in [Bind h,
          SetUniform h ''modelViewMat'' (UMat4 modelViewMat),
          SetUniform h ''projMat'' (UMat4 projMat),
          SetUniform h ''pointSize'' (UFloat (float_literal 0.02)),
          SetUniform h ''invAspectRatio'' (UFloat (float_div (Finite 1) aspectRatio)),
          glActiveTexture 0,
          glBindTexture (pointTex r),
          SetUniform h ''colorTex'' (UInt 0),
          DrawElements (pointVao r)])"

text \<open>\<open>PointRenderer::Render\<close>: the calls of the frame. The host vectors stay as they are.\<close>

definition PointRenderer_Render ::
  "math_lib \<Rightarrow> PointRenderer \<Rightarrow> mat4 \<Rightarrow> vec4 \<Rightarrow> vec2 \<Rightarrow> float \<Rightarrow> gl_cmd list" where
  "PointRenderer_Render lib r cameraMat viewport nearFar fovy =
     (let numPoints = length (posVec r)
      in depth_compute r cameraMat numPoints @ sort_block r numPoints
         @ copy_sorted_indices r (pointVao r) numPoints
         @ point_draw lib r cameraMat viewport nearFar fovy)"

subsection \<open>Frames\<close>

text \<open>
  A frame: one call of \<open>Render\<close> and its calls on the device. A frame loop calls \<open>Render\<close>
  once per entry of a list of camera matrix, viewport, near and far plane, and field of view.
\<close>

type_synonym frame_params = "mat4 \<times> vec4 \<times> vec2 \<times> float"

definition splat_frame ::
  "math_lib \<Rightarrow> (float \<Rightarrow> u32) \<Rightarrow> ((u32 \<times> u32) list \<Rightarrow> (u32 \<times> u32) list) \<Rightarrow> frame_params
     \<Rightarrow> SplatRenderer \<times> device \<Rightarrow> (SplatRenderer \<times> device) option" where
  "splat_frame lib oor srt fp s =
     (case fp of (cameraMat, viewport, nearFar, fovy) \<Rightarrow>
        (case SplatRenderer_Render lib oor (fst s) cameraMat viewport nearFar fovy of
           None \<Rightarrow> None
         | Some (r', cmds) \<Rightarrow> Some (r', run oor srt cmds (snd s))))"

fun splat_frames ::
  "math_lib \<Rightarrow> (float \<Rightarrow> u32) \<Rightarrow> ((u32 \<times> u32) list \<Rightarrow> (u32 \<times> u32) list) \<Rightarrow> frame_params list
     \<Rightarrow> SplatRenderer \<times> device \<Rightarrow> (SplatRenderer \<times> device) option" where
  "splat_frames lib oor srt [] s = Some s"
| "splat_frames lib oor srt (fp # fps) s =
     (case splat_frame lib oor srt fp s of
        None \<Rightarrow> None
      | Some s' \<Rightarrow> splat_frames lib oor srt fps s')"

definition point_frame ::
  "math_lib \<Rightarrow> (float \<Rightarrow> u32) \<Rightarrow> ((u32 \<times> u32) list \<Rightarrow> (u32 \<times> u32) list) \<Rightarrow> PointRenderer
     \<Rightarrow> frame_params \<Rightarrow> device \<Rightarrow> device" where
  "point_frame lib oor srt r fp dev =
     (case fp of (cameraMat, viewport, nearFar, fovy) \<Rightarrow>
        run oor srt (PointRenderer_Render lib r cameraMat viewport nearFar fovy) dev)"

fun point_frames ::
  "math_lib \<Rightarrow> (float \<Rightarrow> u32) \<Rightarrow> ((u32 \<times> u32) list \<Rightarrow> (u32 \<times> u32) list) \<Rightarrow> PointRenderer
     \<Rightarrow> frame_params list \<Rightarrow> device \<Rightarrow> device" where
  "point_frames lib oor srt r [] dev = dev"
| "point_frames lib oor srt r (fp # fps) dev =
     point_frames lib oor srt r fps (point_frame lib oor srt r fp dev)"

section \<open>What the properties are stated with\<close>

text \<open>The content of a buffer object that holds 32-bit words.\<close>

definition u32_buffer :: "device \<Rightarrow> nat \<Rightarrow> u32 list option" where
  "u32_buffer dev obj = (case buffers dev obj of Some (U32Data xs) \<Rightarrow> Some xs | _ \<Rightarrow> None)"

definition holds_words :: "device \<Rightarrow> nat \<Rightarrow> nat \<Rightarrow> bool" where
  "holds_words dev obj n =
     (case buffers dev obj of Some (U32Data xs) \<Rightarrow> length xs = n | _ \<Rightarrow> False)"

text \<open>
  The state in which a frame starts once \<open>Init\<close> has returned true: key, value and element
  buffer are three objects of \<open>n\<close> words each, the sorter was built for at least \<open>n\<close>
  elements, and \<open>n\<close> passes \<open>assert(numPoints <= UINT32_MAX)\<close>. For the splat renderer the
  two host vectors have \<open>n\<close> elements; for the point renderer the position buffer holds
  \<open>posVec\<close>, and \<open>n + 255\<close> does not leave \<open>GLuint\<close>.
\<close>

definition frame_ready ::
  "'a renderer_vecs_scheme \<Rightarrow> VertexArrayObject \<Rightarrow> nat \<Rightarrow> device \<Rightarrow> bool" where
  "frame_ready r vao n dev =
     (n \<le> 4294967295 \<and> n \<le> sorter r
      \<and> keyBuffer r \<noteq> valBuffer r \<and> keyBuffer r \<noteq> elementBuffer vao
      \<and> valBuffer r \<noteq> elementBuffer vao
      \<and> holds_words dev (keyBuffer r) n \<and> holds_words dev (valBuffer r) n
      \<and> holds_words dev (elementBuffer vao) n)"

definition splat_ready :: "SplatRenderer \<Rightarrow> device \<Rightarrow> bool" where
  "splat_ready r dev =
     (frame_ready r (splatVao r) (length (positionVec r)) dev
      \<and> length (depthVec r) = length (positionVec r)
      \<and> length (indexVec r) = length (positionVec r))"

definition point_ready :: "PointRenderer \<Rightarrow> device \<Rightarrow> bool" where
  "point_ready r dev =
     (frame_ready r (pointVao r) (length (posVec r)) dev
      \<and> buffers dev (posBuffer r) = Some (Vec4Data (posVec r))
      \<and> length (posVec r) + 255 < 4294967296)"

text \<open>
  One thing the OpenGL Shading Language asks of every driver: a program needs a function
  \<open>main\<close> in each of its stages, so a compute program made of the empty source text does not
  link, if the empty text compiles at all.
\<close>

definition rejects_empty_compute :: "gl_driver \<Rightarrow> bool" where
  "rejects_empty_compute gl =
     (\<not> compile_status gl GL_COMPUTE_SHADER [] \<or> \<not> link_status gl [(GL_COMPUTE_SHADER, [])])"

text \<open>
  A missing or uncompilable shader file, for a call of \<open>LoadVertGeomFrag\<close> with three
  files and for a call of \<open>LoadCompute\<close>: a file cannot be loaded, or all can and the text
  of one does not compile.
\<close>

definition shader_files_fail :: "gl_driver \<Rightarrow> string \<Rightarrow> string \<Rightarrow> string \<Rightarrow> bool" where
  "shader_files_fail gl vf gf ff =
     (case (LoadFile gl vf, LoadFile gl gf, LoadFile gl ff) of
        (Some vs, Some gs, Some fs) \<Rightarrow>
          \<not> (compile_status gl GL_VERTEX_SHADER vs \<and> compile_status gl GL_GEOMETRY_SHADER gs
             \<and> compile_status gl GL_FRAGMENT_SHADER fs)
      | _ \<Rightarrow> True)"

definition compute_file_fails :: "gl_driver \<Rightarrow> string \<Rightarrow> bool" where
  "compute_file_fails gl cf =
     (case LoadFile gl cf of
        None \<Rightarrow> True
      | Some cs \<Rightarrow> \<not> compile_status gl GL_COMPUTE_SHADER cs)"

text \<open>The identity permutation of \<open>n\<close> indices, as 32-bit words.\<close>

definition identity_permutation :: "nat \<Rightarrow> u32 list" where
  "identity_permutation n = map word_of_nat [0 ..< n]"

text \<open>
  \<open>depth\<close> of the loop body, \<open>glm::dot(positionVec[i] - eye, forward)\<close>, and the operand
  of the conversion, \<open>depth * 65536.0f\<close>, both as the \<open>float\<close> values the code computes.
\<close>

definition camera_depth :: "mat4 \<Rightarrow> vec3 \<Rightarrow> float" where
  "camera_depth cameraMat p = dot3 (vec3_sub p (camera_eye cameraMat)) (camera_forward cameraMat)"

definition scaled_depth :: "mat4 \<Rightarrow> vec3 \<Rightarrow> float" where
  "scaled_depth cameraMat p = float_mul (camera_depth cameraMat p) (Finite 65536)"


text \<open>
  The keys of a frame, in the order of the primitives, and what sorting them with the
  identity permutation leaves in the key buffer and in the value buffer. The latter is
  the order in which the frame draws.
\<close>

definition splat_keys :: "(float \<Rightarrow> u32) \<Rightarrow> mat4 \<Rightarrow> SplatRenderer \<Rightarrow> u32 list" where
  "splat_keys oor cameraMat r = map (\<lambda>p. depth_key oor (camera_depth cameraMat p)) (positionVec r)"

definition point_keys :: "(float \<Rightarrow> u32) \<Rightarrow> mat4 \<Rightarrow> PointRenderer \<Rightarrow> u32 list" where
  "point_keys oor cameraMat r =
     map (\<lambda>p. depth_key oor (camera_depth cameraMat (vec3_of_vec4 p))) (posVec r)"

definition sorted_keys :: "((u32 \<times> u32) list \<Rightarrow> (u32 \<times> u32) list) \<Rightarrow> u32 list \<Rightarrow> u32 list" where
  "sorted_keys srt keys = map fst (srt (zip keys (identity_permutation (length keys))))"

definition draw_order :: "((u32 \<times> u32) list \<Rightarrow> (u32 \<times> u32) list) \<Rightarrow> u32 list \<Rightarrow> u32 list" where
  "draw_order srt keys = map snd (srt (zip keys (identity_permutation (length keys))))"

text \<open>
  The key as the specification words it, to compare the code with: \<open>UINT32_MAX -
  (uint32)(dot(position - eye, forward) * 65536)\<close>, where \<open>forward\<close> is the rotation part of
  the camera matrix applied to \<open>(0, 0, -1)\<close> and \<open>eye\<close> is the translation column, with
  the matrix product, the difference and the dot product written out by components. The
  conversion \<open>(uint32)\<close> is written out as well: a finite operand \<open>s\<close> with \<open>0 \<le> s < 2^32\<close> goes to
  the integer part of \<open>s\<close>, one with \<open>-1 < s < 0\<close> and the negative zero go to 0, and every
  other operand is outside the range.
\<close>

definition spec_uint32 :: "(float \<Rightarrow> u32) \<Rightarrow> float \<Rightarrow> u32" where
  "spec_uint32 oor f =
     (case f of
        Finite s \<Rightarrow>
          if 0 \<le> s \<and> s < 4294967296 then of_nat (nat \<lfloor>s\<rfloor>)
          else if -1 < s \<and> s < 0 then 0
          else oor f
      | NegZero \<Rightarrow> 0
      | PlusInf \<Rightarrow> oor f
      | MinusInf \<Rightarrow> oor f
      | NaN \<Rightarrow> oor f)"

definition spec_key :: "(float \<Rightarrow> u32) \<Rightarrow> mat4 \<Rightarrow> vec3 \<Rightarrow> u32" where
  "spec_key oor cameraMat p =
     (let fx = float_add (float_add (float_mul (x4 (c0 cameraMat)) (Finite 0))
                                    (float_mul (x4 (c1 cameraMat)) (Finite 0)))
                         (float_mul (x4 (c2 cameraMat)) (Finite (-1)));
          fy = float_add (float_add (float_mul (y4 (c0 cameraMat)) (Finite 0))
                                    (float_mul (y4 (c1 cameraMat)) (Finite 0)))
                         (float_mul (y4 (c2 cameraMat)) (Finite (-1)));
          fz = float_add (float_add (float_mul (z4 (c0 cameraMat)) (Finite 0))
                                    (float_mul (z4 (c1 cameraMat)) (Finite 0)))
                         (float_mul (z4 (c2 cameraMat)) (Finite (-1)));
          dx = float_sub (x3 p) (x4 (c3 cameraMat));
          dy = float_sub (y3 p) (y4 (c3 cameraMat));
          dz = float_sub (z3 p) (z4 (c3 cameraMat));
          depth = float_add (float_add (float_mul dx fx) (float_mul dy fy)) (float_mul dz fz)
      in 4294967295 - spec_uint32 oor (float_mul depth (Finite 65536)))"

text \<open>
  \<open>Program::SetUniform(int loc, \<dots>)\<close> hands the location to \<open>glUniform*\<close>. OpenGL specifies
  that call on the uniforms of the bound program, here a map from locations to values:
  location \<open>-1\<close> is ignored without an error, the location of an active uniform of the same
  kind takes the value, and any other location is \<open>GL_INVALID_OPERATION\<close>.
\<close>

fun uniform_kind :: "uniform_value \<Rightarrow> nat" where
  "uniform_kind (UInt i) = 0"
| "uniform_kind (UFloat f) = 1"
| "uniform_kind (UVec3 v) = 2"
| "uniform_kind (UVec4 v) = 3"
| "uniform_kind (UMat4 m) = 4"

definition glUniform ::
  "(int \<rightharpoonup> uniform_value) \<Rightarrow> int \<Rightarrow> uniform_value
     \<Rightarrow> gl_error option \<times> (int \<rightharpoonup> uniform_value)" where
  "glUniform us loc v =
     (if loc = -1 then (None, us)
      else case us loc of
             None \<Rightarrow> (Some GL_INVALID_OPERATION, us)
           | Some old \<Rightarrow>
               if uniform_kind old = uniform_kind v then (None, us(loc \<mapsto> v))
               else (Some GL_INVALID_OPERATION, us))"

section \<open>Concrete inputs\<close>

text \<open>A linked program with one uniform and one attribute, both at location 0.\<close>

definition one_uniform_program :: Program where
  "one_uniform_program =
     \<lparr>program = 1, vertShader = 2, geomShader = 0, fragShader = 3, computeShader = 0,
      debugName = ''v + f'',
      uniforms = [''pointSize'' \<mapsto> \<lparr>var_size = 1, var_type = 5126, var_loc = 0\<rparr>],
      attribs = [''position'' \<mapsto> \<lparr>var_size = 1, var_type = 35666, var_loc = 0\<rparr>]\<rparr>"

definition one_uniform_store :: "int \<rightharpoonup> uniform_value" where
  "one_uniform_store = [0 \<mapsto> UFloat (Finite 1)]"

text \<open>
  A driver over the file system \<open>files\<close> that compiles or not as \<open>compiles\<close> says and
  links or not as \<open>links\<close> says, writes no logs and reflects no variables.
\<close>

definition test_driver :: "(string \<Rightarrow> string option) \<Rightarrow> bool \<Rightarrow> bool \<Rightarrow> gl_driver" where
  "test_driver files compiles links =
     \<lparr>LoadFile = files, glCreateShader = (\<lambda>k. 3), compile_status = (\<lambda>k s. compiles),
      shader_info_log = (\<lambda>k s. []), glCreateProgram = 7, link_status = (\<lambda>srcs. links),
      program_info_log = (\<lambda>srcs. []), active_attribs = (\<lambda>srcs. []),
      active_uniforms = (\<lambda>srcs. [])\<rparr>"

text \<open>
  A driver over the file system \<open>files\<close> that compiles every text, links a program when
  none of its sources is empty, writes no logs and reflects no variables.
\<close>

definition linking_driver :: "(string \<Rightarrow> string option) \<Rightarrow> gl_driver" where
  "linking_driver files =
     \<lparr>LoadFile = files, glCreateShader = (\<lambda>k. 3), compile_status = (\<lambda>k s. True),
      shader_info_log = (\<lambda>k s. []), glCreateProgram = 7,
      link_status = (\<lambda>srcs. list_all (\<lambda>ks. snd ks \<noteq> []) srcs),
      program_info_log = (\<lambda>srcs. []), active_attribs = (\<lambda>srcs. []),
      active_uniforms = (\<lambda>srcs. [])\<rparr>"

text \<open>A file system with every file but the compute shader's.\<close>

definition no_compute_file :: "string \<Rightarrow> string option" where
  "no_compute_file f =
     (if f = ''shader/presort_compute.glsl'' then None else Some ''void main() {}'')"

text \<open>A file system with the file \<open>c.glsl\<close> only.\<close>

definition only_compute_file :: "string \<Rightarrow> string option" where
  "only_compute_file f = (if f = ''c.glsl'' then Some ''x'' else None)"

text \<open>Vectors of finite components.\<close>

definition vec3_lit :: "real \<Rightarrow> real \<Rightarrow> real \<Rightarrow> vec3" where
  "vec3_lit a b c = mk_vec3 (Finite a) (Finite b) (Finite c)"

definition vec4_lit :: "real \<Rightarrow> real \<Rightarrow> real \<Rightarrow> real \<Rightarrow> vec4" where
  "vec4_lit a b c d = mk_vec4 (Finite a) (Finite b) (Finite c) (Finite d)"

text \<open>A file system with every file but the vertex shader of the splats.\<close>

definition no_splat_vert_file :: "string \<Rightarrow> string option" where
  "no_splat_vert_file f =
     (if f = ''shader/splat_vert.glsl'' then None else Some ''void main() {}'')"

text \<open>A file system that has every file, a cloud of one Gaussian and a cloud of one point.\<close>

definition all_files :: "string \<Rightarrow> string option" where
  "all_files f = Some ''void main() {}''"

definition one_gaussian :: Gaussian where
  "one_gaussian =
     \<lparr>g_position = vec3_lit 0 0 (-1), g_f_dc = vec3_lit 0 0 0, g_opacity = Finite 0,
      g_covMat = \<lparr>m3c0 = vec3_lit 1 0 0, m3c1 = vec3_lit 0 1 0, m3c2 = vec3_lit 0 0 1\<rparr>\<rparr>"

definition one_point :: Point where
  "one_point = \<lparr>p_position = vec3_lit 0 0 (-1), p_color = (255, 0, 0)\<rparr>"

definition empty_device :: device where
  "empty_device =
     \<lparr>buffers = Map.empty, next_buffer = 1, bound = Map.empty, ssbo = Map.empty,
      cur_program = 0, uniform_vals = Map.empty, active_texture = 0, bound_texture = Map.empty,
      draws = [], errors = [], fault = False\<rparr>"

text \<open>The camera at the origin looking down the negative z axis.\<close>

definition identity_camera :: mat4 where
  "identity_camera =
     \<lparr>c0 = vec4_lit 1 0 0 0, c1 = vec4_lit 0 1 0 0, c2 = vec4_lit 0 0 1 0, c3 = vec4_lit 0 0 0 1\<rparr>"

text \<open>
  The same camera moved along its axis to \<open>z = 0.003f\<close>, a number the format does not hold
  exactly.
\<close>

definition offset_camera :: mat4 where
  "offset_camera =
     \<lparr>c0 = vec4_lit 1 0 0 0, c1 = vec4_lit 0 1 0 0, c2 = vec4_lit 0 0 1 0,
      c3 = mk_vec4 (Finite 0) (Finite 0) (float_literal 0.003) (Finite 1)\<rparr>"


text \<open>
  A splat renderer over two positions, with key, value and element buffer as objects 7, 8
  and 6 and the position attribute as object 5, and a device that holds them.
\<close>

definition two_splats :: "vec3 list \<Rightarrow> SplatRenderer" where
  "two_splats ps =
     \<lparr>depthVec = [0, 0], indexVec = [0, 1], keyBuffer = 7, valBuffer = 8, sorter = 2,
      splatProg = one_uniform_program,
      splatVao = \<lparr>attribBuffers = [(0, 5)], elementBuffer = 6\<rparr>,
      positionVec = ps\<rparr>"

definition two_splats_device :: "vec3 list \<Rightarrow> device" where
  "two_splats_device ps =
     empty_device\<lparr>buffers := [5 \<mapsto> Vec3Data ps, 6 \<mapsto> U32Data [0, 1], 7 \<mapsto> U32Data [0, 0],
                               8 \<mapsto> U32Data [0, 1]],
                  next_buffer := 9\<rparr>"

text \<open>The same for the point renderer, with the position buffer as object 9.\<close>

definition two_points :: "vec4 list \<Rightarrow> PointRenderer" where
  "two_points ps =
     \<lparr>depthVec = [0, 0], indexVec = [0, 1], keyBuffer = 7, valBuffer = 8, sorter = 2,
      pointTex = 1, pointProg = one_uniform_program, preSortProg = one_uniform_program,
      pointVao = \<lparr>attribBuffers = [(0, 5)], elementBuffer = 6\<rparr>,
      posVec = ps, posBuffer = 9\<rparr>"

definition two_points_device :: "vec4 list \<Rightarrow> device" where
  "two_points_device ps =
     empty_device\<lparr>buffers := [5 \<mapsto> Vec4Data ps, 6 \<mapsto> U32Data [0, 1], 7 \<mapsto> U32Data [0, 0],
                               8 \<mapsto> U32Data [0, 1], 9 \<mapsto> Vec4Data ps],
                  next_buffer := 10\<rparr>"

text \<open>Both renderers over an empty cloud, and a device that holds their empty buffers.\<close>

definition no_splats :: SplatRenderer where
  "no_splats =
     \<lparr>depthVec = [], indexVec = [], keyBuffer = 7, valBuffer = 8, sorter = 0,
      splatProg = one_uniform_program,
      splatVao = \<lparr>attribBuffers = [(0, 5)], elementBuffer = 6\<rparr>,
      positionVec = []\<rparr>"

definition no_points :: PointRenderer where
  "no_points =
     \<lparr>depthVec = [], indexVec = [], keyBuffer = 7, valBuffer = 8, sorter = 0,
      pointTex = 1, pointProg = one_uniform_program, preSortProg = one_uniform_program,
      pointVao = \<lparr>attribBuffers = [(0, 5)], elementBuffer = 6\<rparr>,
      posVec = [], posBuffer = 9\<rparr>"

definition no_points_device :: device where
  "no_points_device =
     empty_device\<lparr>buffers := [5 \<mapsto> Vec4Data [], 6 \<mapsto> U32Data [], 7 \<mapsto> U32Data [],
                               8 \<mapsto> U32Data [], 9 \<mapsto> Vec4Data []],
                  next_buffer := 10\<rparr>"

text \<open>
  Stand-ins for the library functions, and the parameters of one frame. What a frame does
  to the buffers does not depend on them.
\<close>

definition some_math :: math_lib where
  "some_math =
     \<lparr>glm_inverse = (\<lambda>m. m), glm_perspective = (\<lambda>f a n fa. identity_camera),
      tanf = (\<lambda>a. Finite 1), expf = (\<lambda>a. Finite 1)\<rparr>"

definition some_frame :: frame_params where
  "some_frame = (identity_camera, vec4_lit 0 0 640 480, \<lparr>x2 = Finite 1, y2 = Finite 100\<rparr>, Finite 1)"

chapter \<open>Properties\<close>

section \<open>Shader programs\<close>

lemma CompileShader_Some:
  "CompileShader gl ndebug k src dbg = (e, Some sh) \<Longrightarrow> compile_status gl k src"
  by (auto simp add: CompileShader_def Let_def split: if_splits)

lemma LoadVertGeomFrag_deletes_first:
  "take 5 (snd (snd (LoadVertGeomFrag gl ndebug p0 vf gf ff))) = fst (Delete p0)"
  by (simp add: LoadVertGeomFrag_def Delete_def Let_def split: option.splits prod.splits if_splits)

lemma LoadCompute_deletes_first:
  "take 5 (snd (snd (LoadCompute gl ndebug p0 cf))) = fst (Delete p0)"
  by (simp add: LoadCompute_def Delete_def Let_def split: option.splits prod.splits if_splits)

lemma LoadVertGeomFrag_failed_tables:
  "\<not> fst (LoadVertGeomFrag gl ndebug p0 vf gf ff) \<Longrightarrow>
     uniforms (fst (snd (LoadVertGeomFrag gl ndebug p0 vf gf ff))) = Map.empty
   \<and> attribs (fst (snd (LoadVertGeomFrag gl ndebug p0 vf gf ff))) = Map.empty"
  by (simp add: LoadVertGeomFrag_def Delete_def Let_def split: option.splits prod.splits if_splits)

lemma LoadCompute_failed_tables:
  "\<not> fst (LoadCompute gl ndebug p0 cf) \<Longrightarrow>
     uniforms (fst (snd (LoadCompute gl ndebug p0 cf))) = Map.empty
   \<and> attribs (fst (snd (LoadCompute gl ndebug p0 cf))) = Map.empty"
  by (simp add: LoadCompute_def Delete_def Let_def split: option.splits prod.splits if_splits)

text \<open>The tables after a load do not depend on the tables before it.\<close>

lemma LoadVertGeomFrag_forgets_tables:
  "uniforms (fst (snd (LoadVertGeomFrag gl ndebug (p0\<lparr>uniforms := utab, attribs := atab\<rparr>) vf gf ff)))
     = uniforms (fst (snd (LoadVertGeomFrag gl ndebug p0 vf gf ff)))
   \<and> attribs (fst (snd (LoadVertGeomFrag gl ndebug (p0\<lparr>uniforms := utab, attribs := atab\<rparr>) vf gf ff)))
     = attribs (fst (snd (LoadVertGeomFrag gl ndebug p0 vf gf ff)))"
  by (simp add: LoadVertGeomFrag_def Delete_def Let_def split: option.splits prod.splits if_splits)

lemma LoadCompute_forgets_tables:
  "uniforms (fst (snd (LoadCompute gl ndebug (p0\<lparr>uniforms := utab, attribs := atab\<rparr>) cf)))
     = uniforms (fst (snd (LoadCompute gl ndebug p0 cf)))
   \<and> attribs (fst (snd (LoadCompute gl ndebug (p0\<lparr>uniforms := utab, attribs := atab\<rparr>) cf)))
     = attribs (fst (snd (LoadCompute gl ndebug p0 cf)))"
  by (simp add: LoadCompute_def Delete_def Let_def split: option.splits prod.splits if_splits)

text \<open>
  \<open>LoadVertGeomFrag\<close> returns false as soon as one of its files cannot be loaded, before any
  shader is compiled.
\<close>

lemma LoadVertGeomFrag_missing_file:
  assumes "LoadFile gl vf = None \<or> (gf \<noteq> [] \<and> LoadFile gl gf = None) \<or> LoadFile gl ff = None"
  shows "\<not> fst (LoadVertGeomFrag gl ndebug p0 vf gf ff)
       \<and> program (fst (snd (LoadVertGeomFrag gl ndebug p0 vf gf ff))) = 0
       \<and> vertShader (fst (snd (LoadVertGeomFrag gl ndebug p0 vf gf ff))) = 0
       \<and> geomShader (fst (snd (LoadVertGeomFrag gl ndebug p0 vf gf ff))) = 0
       \<and> fragShader (fst (snd (LoadVertGeomFrag gl ndebug p0 vf gf ff))) = 0
       \<and> computeShader (fst (snd (LoadVertGeomFrag gl ndebug p0 vf gf ff))) = 0"
  using assms
  by (auto simp add: LoadVertGeomFrag_def Delete_def Let_def split: option.splits prod.splits)

lemma LoadVertGeomFrag_uncompilable:
  assumes "LoadFile gl vf = Some vs" "LoadFile gl gf = Some gs" "LoadFile gl ff = Some fs"
    and "\<not> compile_status gl GL_VERTEX_SHADER vs
         \<or> (gf \<noteq> [] \<and> \<not> compile_status gl GL_GEOMETRY_SHADER gs)
         \<or> \<not> compile_status gl GL_FRAGMENT_SHADER fs"
  shows "\<not> fst (LoadVertGeomFrag gl ndebug p0 vf gf ff)"
  using assms
  by (auto simp add: LoadVertGeomFrag_def Let_def split: option.splits prod.splits
        dest: CompileShader_Some)

lemma LoadCompute_uncompilable:
  assumes "LoadFile gl cf = Some cs" "\<not> compile_status gl GL_COMPUTE_SHADER cs"
  shows "\<not> fst (LoadCompute gl ndebug p0 cf)
       \<and> program (fst (snd (LoadCompute gl ndebug p0 cf))) = 0
       \<and> computeShader (fst (snd (LoadCompute gl ndebug p0 cf))) = 0"
  using assms
  by (auto simp add: LoadCompute_def Delete_def Let_def split: option.splits prod.splits
        dest: CompileShader_Some)

text \<open>
  \<open>LoadCompute\<close> does not return where its file cannot be loaded: what it returns then is
  what compiling and linking the empty source gives.
\<close>

lemma LoadCompute_missing_file_result:
  assumes "LoadFile gl cf = None"
  shows "fst (LoadCompute gl ndebug p0 cf) =
           (snd (CompileShader gl ndebug GL_COMPUTE_SHADER [] cf) \<noteq> None
            \<and> snd (CheckLinkStatus gl ndebug cf [(GL_COMPUTE_SHADER, [])]))"
  using assms
  by (auto simp add: LoadCompute_def Delete_def Let_def split: option.splits prod.splits)

text \<open>Both \<open>Init\<close> functions return false when a load they check returns false.\<close>

lemma PointRenderer_Init_load_failure:
  assumes "image_load ''texture/sphere.png'' = None
     \<or> \<not> fst (LoadVertGeomFrag gl ndebug (new_Program uninit)
             ''shader/point_vert.glsl'' ''shader/point_geom.glsl'' ''shader/point_frag.glsl'')
     \<or> \<not> fst (LoadCompute gl ndebug (new_Program uninit) ''shader/presort_compute.glsl'')"
  shows "\<exists>ev. PointRenderer_Init gl image_load ndebug uninit dev r pointCloud = InitFalse ev"
  using assms
  by (auto simp add: PointRenderer_Init_def split: option.splits prod.splits bool.splits sum.splits)

lemma SplatRenderer_Init_load_failure:
  assumes "\<not> fst (LoadVertGeomFrag gl ndebug (new_Program uninit)
             ''shader/splat_vert.glsl'' ''shader/splat_geom.glsl'' ''shader/splat_frag.glsl'')"
  shows "\<exists>ev. SplatRenderer_Init gl lib ndebug uninit dev r cloud = InitFalse ev"
  using assms
  by (auto simp add: SplatRenderer_Init_def split: option.splits prod.splits bool.splits sum.splits)

text \<open>
  C4, as amended. For a uniform or attribute name that is not in the reflected program,
  \<open>GetUniformLoc\<close> and \<open>GetAttribLoc\<close> fail their assertion in a debug build; in a release
  build they write a line to \<open>std::cerr\<close> and return the location 0.
\<close>

theorem unresolved_lookup:
  assumes "uniforms p u = None" and "attribs p a = None"
  shows "GetUniformLoc ndebug p u =
           (if ndebug
            then ([Cerr (''could not find uniform '' @ u @ '' for program '' @ debugName p
                         @ ''\<newline>'')], Inr 0)
            else ([], Inl AssertionFailed))
       \<and> GetAttribLoc ndebug p a =
           ([Cerr (''could not find attrib '' @ a @ '' for program '' @ debugName p
                   @ ''\<newline>'')],
            if ndebug then Inr 0 else Inl AssertionFailed)"
  using assms by (simp add: GetUniformLoc_def GetAttribLoc_def)

theorem unresolved_lookup_witness:
  "GetUniformLoc True one_uniform_program ''viewMat'' =
        ([Cerr ''could not find uniform viewMat for program v + f\<newline>''], Inr 0)
   \<and> GetAttribLoc False one_uniform_program ''color'' =
        ([Cerr ''could not find attrib color for program v + f\<newline>''], Inl AssertionFailed)"
proof -
  have u: "uniforms one_uniform_program ''viewMat'' = None" by (simp add: one_uniform_program_def)
  have a: "attribs one_uniform_program ''color'' = None" by (simp add: one_uniform_program_def)
  have d: "debugName one_uniform_program = ''v + f''" by (simp add: one_uniform_program_def)
  show ?thesis
    using unresolved_lookup[OF u a, of True] unresolved_lookup[OF u a, of False] by (simp add: d)
qed

text \<open>
  The location 0 is not a sentinel. In a program whose uniform \<open>pointSize\<close> is at location
  0, the release build answers the unknown name \<open>viewMat\<close> with 0, and \<open>glUniform\<close> at that
  location overwrites \<open>pointSize\<close>: the call is not a no-op. (OpenGL ignores location -1.)
\<close>

theorem unresolved_lookup_counterexample:
  "\<not> (case snd (GetUniformLoc True one_uniform_program ''viewMat'') of
         Inl a \<Rightarrow> False
       | Inr l \<Rightarrow> snd (glUniform one_uniform_store l (UFloat (Finite 2))) = one_uniform_store)"
proof
  assume h: "case snd (GetUniformLoc True one_uniform_program ''viewMat'') of
         Inl a \<Rightarrow> False
       | Inr l \<Rightarrow> snd (glUniform one_uniform_store l (UFloat (Finite 2))) = one_uniform_store"
  have "snd (GetUniformLoc True one_uniform_program ''viewMat'') = Inr 0"
    by (simp add: GetUniformLoc_def one_uniform_program_def)
  with h have "snd (glUniform one_uniform_store 0 (UFloat (Finite 2))) = one_uniform_store" by simp
  then have "snd (glUniform one_uniform_store 0 (UFloat (Finite 2))) 0 = one_uniform_store 0" by simp
  then show False by (simp add: glUniform_def one_uniform_store_def)
qed

subsection \<open>Loads that fail\<close>

lemma LoadVertGeomFrag_missing_file_report:
  assumes "LoadFile gl vf = None \<or> (gf \<noteq> [] \<and> LoadFile gl gf = None) \<or> LoadFile gl ff = None"
  shows "\<not> fst (LoadVertGeomFrag gl ndebug p0 vf gf ff)
       \<and> last (snd (snd (LoadVertGeomFrag gl ndebug p0 vf gf ff)))
           \<in> {Printf (''Failed to load vertex shader '' @ vf @ ''\<newline>''),
              Printf (''Failed to load geometry shader '' @ gf @ ''\<newline>''),
              Printf (''Failed to load fragment shader \"'' @ ff @ ''\"\<newline>'')}"
  using assms
  by (auto simp add: LoadVertGeomFrag_def Delete_def Let_def split: option.splits prod.splits)

lemma LoadVertGeomFrag_uncompilable_report:
  assumes "LoadFile gl vf = Some vs" "LoadFile gl gf = Some gs" "LoadFile gl ff = Some fs"
    and "\<not> compile_status gl GL_VERTEX_SHADER vs
         \<or> (gf \<noteq> [] \<and> \<not> compile_status gl GL_GEOMETRY_SHADER gs)
         \<or> \<not> compile_status gl GL_FRAGMENT_SHADER fs"
  shows "\<not> fst (LoadVertGeomFrag gl ndebug p0 vf gf ff)
       \<and> last (snd (snd (LoadVertGeomFrag gl ndebug p0 vf gf ff)))
           \<in> {Printf (''Failed to compile vertex shader \"'' @ vf @ ''\"\<newline>''),
              Printf (''Failed to compile geometry shader \"'' @ gf @ ''\"\<newline>''),
              Printf (''Failed to compile fragment shader \"'' @ ff @ ''\"\<newline>'')}"
  using assms
  by (auto simp add: LoadVertGeomFrag_def Let_def split: option.splits prod.splits
        dest: CompileShader_Some)

lemma LoadCompute_uncompilable_report:
  assumes "LoadFile gl cf = Some cs" "\<not> compile_status gl GL_COMPUTE_SHADER cs"
  shows "\<not> fst (LoadCompute gl ndebug p0 cf)
       \<and> last (snd (snd (LoadCompute gl ndebug p0 cf)))
           = Printf (''Failed to compile compute shader '' @ cf @ ''\<newline>'')"
  using assms
  by (auto simp add: LoadCompute_def Delete_def Let_def split: option.splits prod.splits
        dest: CompileShader_Some)

lemma CheckLinkStatus_True:
  "snd (CheckLinkStatus gl ndebug dbg srcs) \<Longrightarrow> link_status gl srcs"
  by (auto simp add: CheckLinkStatus_def Let_def split: if_splits)

text \<open>
  \<open>LoadCompute\<close> prints and goes on when its file cannot be loaded; it then compiles and
  links the empty text, and returns false because that fails.
\<close>

lemma LoadCompute_missing_file_report:
  assumes "LoadFile gl cf = None" and "rejects_empty_compute gl"
  shows "\<not> fst (LoadCompute gl ndebug p0 cf)
       \<and> Printf (''Failed to load compute shader '' @ cf @ ''\<newline>'')
           \<in> set (snd (snd (LoadCompute gl ndebug p0 cf)))"
proof -
  have r: "\<not> (snd (CompileShader gl ndebug GL_COMPUTE_SHADER [] cf) \<noteq> None
            \<and> snd (CheckLinkStatus gl ndebug cf [(GL_COMPUTE_SHADER, [])]))"
  proof
    assume a: "snd (CompileShader gl ndebug GL_COMPUTE_SHADER [] cf) \<noteq> None
            \<and> snd (CheckLinkStatus gl ndebug cf [(GL_COMPUTE_SHADER, [])])"
    then obtain sh where "snd (CompileShader gl ndebug GL_COMPUTE_SHADER [] cf) = Some sh" by auto
    then have "CompileShader gl ndebug GL_COMPUTE_SHADER [] cf
                 = (fst (CompileShader gl ndebug GL_COMPUTE_SHADER [] cf), Some sh)"
      by (metis prod.collapse)
    then have "compile_status gl GL_COMPUTE_SHADER []" by (rule CompileShader_Some)
    moreover from a have "link_status gl [(GL_COMPUTE_SHADER, [])]"
      by (intro CheckLinkStatus_True[of gl ndebug cf]) simp
    ultimately show False using assms(2) by (simp add: rejects_empty_compute_def)
  qed
  have f: "\<not> fst (LoadCompute gl ndebug p0 cf)"
    unfolding LoadCompute_missing_file_result[OF assms(1)] using r .
  have p: "Printf (''Failed to load compute shader '' @ cf @ ''\<newline>'')
           \<in> set (snd (snd (LoadCompute gl ndebug p0 cf)))"
    using assms(1)
    by (auto simp add: LoadCompute_def Delete_def Let_def split: option.splits prod.splits)
  from f p show ?thesis ..
qed

text \<open>Both \<open>Init\<close> functions print their line and return false when a load returns false.\<close>

lemma SplatRenderer_Init_load_failure_report:
  assumes "\<not> fst (LoadVertGeomFrag gl ndebug (new_Program uninit)
             ''shader/splat_vert.glsl'' ''shader/splat_geom.glsl'' ''shader/splat_frag.glsl'')"
  shows "\<exists>ev. SplatRenderer_Init gl lib ndebug uninit dev r cloud
                 = InitFalse (ev @ [Printf ''Error loading splat shaders!\<newline>''])"
  using assms
  by (auto simp add: SplatRenderer_Init_def split: option.splits prod.splits bool.splits sum.splits)

lemma PointRenderer_Init_texture_failure:
  assumes "image_load ''texture/sphere.png'' = None"
  shows "PointRenderer_Init gl image_load ndebug uninit dev r pointCloud
           = InitFalse [Printf ''Error loading sphere.png\<newline>'']"
  using assms by (simp add: PointRenderer_Init_def)

lemma PointRenderer_Init_shader_failure:
  assumes "image_load ''texture/sphere.png'' = Some tex"
    and "\<not> fst (LoadVertGeomFrag gl ndebug (new_Program uninit)
             ''shader/point_vert.glsl'' ''shader/point_geom.glsl'' ''shader/point_frag.glsl'')"
  shows "\<exists>ev. PointRenderer_Init gl image_load ndebug uninit dev r pointCloud
                 = InitFalse (ev @ [Printf ''Error loading point shaders!\<newline>''])"
  using assms
  by (auto simp add: PointRenderer_Init_def split: option.splits prod.splits bool.splits sum.splits)

lemma PointRenderer_Init_compute_failure:
  assumes "image_load ''texture/sphere.png'' = Some tex"
    and "fst (LoadVertGeomFrag gl ndebug (new_Program uninit)
             ''shader/point_vert.glsl'' ''shader/point_geom.glsl'' ''shader/point_frag.glsl'')"
    and "\<not> fst (LoadCompute gl ndebug (new_Program uninit) ''shader/presort_compute.glsl'')"
  shows "\<exists>ev. PointRenderer_Init gl image_load ndebug uninit dev r pointCloud
                 = InitFalse (ev @ [Printf ''Error loading point pre-sort compute shader!\<newline>''])"
  using assms
  by (auto simp add: PointRenderer_Init_def split: option.splits prod.splits bool.splits sum.splits)


lemma shader_files_fail_load:
  assumes "shader_files_fail gl vf gf ff" and "gf \<noteq> []"
  shows "\<not> fst (LoadVertGeomFrag gl ndebug p0 vf gf ff)"
proof (cases "LoadFile gl vf = None \<or> LoadFile gl gf = None \<or> LoadFile gl ff = None")
  case True
  with assms(2)
  have "LoadFile gl vf = None \<or> (gf \<noteq> [] \<and> LoadFile gl gf = None) \<or> LoadFile gl ff = None"
    by simp
  from LoadVertGeomFrag_missing_file_report[OF this, of ndebug p0] show ?thesis by (rule conjunct1)
next
  case False
  then obtain vs gs fs where
    l: "LoadFile gl vf = Some vs" "LoadFile gl gf = Some gs" "LoadFile gl ff = Some fs" by auto
  with assms(1) have "\<not> compile_status gl GL_VERTEX_SHADER vs
         \<or> (gf \<noteq> [] \<and> \<not> compile_status gl GL_GEOMETRY_SHADER gs)
         \<or> \<not> compile_status gl GL_FRAGMENT_SHADER fs"
    using assms(2) by (auto simp add: shader_files_fail_def)
  from LoadVertGeomFrag_uncompilable_report[OF l this, of ndebug p0] show ?thesis
    by (rule conjunct1)
qed

lemma compute_file_fails_load:
  assumes "compute_file_fails gl cf" and "rejects_empty_compute gl"
  shows "\<not> fst (LoadCompute gl ndebug p0 cf)"
proof (cases "LoadFile gl cf")
  case None
  from LoadCompute_missing_file_report[OF None assms(2), of ndebug p0] show ?thesis
    by (rule conjunct1)
next
  case (Some cs)
  with assms(1) have "\<not> compile_status gl GL_COMPUTE_SHADER cs"
    by (simp add: compute_file_fails_def)
  from LoadCompute_uncompilable_report[OF Some this, of ndebug p0] show ?thesis
    by (rule conjunct1)
qed

text \<open>
  C5. For a driver that does not link the empty compute program: \<open>LoadVertGeomFrag\<close>
  returns false, after a line that names the failure, when one of its files is missing,
  and when all are loaded and the text of one does not compile. \<open>LoadCompute\<close> returns false
  when its file cannot be loaded, after the line "Failed to load compute shader", and when
  its text does not compile. \<open>SplatRenderer::Init\<close> and \<open>PointRenderer::Init\<close> then print
  their own line and return false, and so does \<open>PointRenderer::Init\<close> when the image of the
  point texture cannot be loaded: \<open>Init\<close> ends without a renderer to run a frame with. All
  of this holds in debug and in release builds.
\<close>

theorem load_failure_aborts_init:
  assumes "rejects_empty_compute gl"
  shows "(LoadFile gl vf = None \<or> (gf \<noteq> [] \<and> LoadFile gl gf = None) \<or> LoadFile gl ff = None \<longrightarrow>
            \<not> fst (LoadVertGeomFrag gl ndebug p0 vf gf ff)
            \<and> last (snd (snd (LoadVertGeomFrag gl ndebug p0 vf gf ff)))
                \<in> {Printf (''Failed to load vertex shader '' @ vf @ ''\<newline>''),
                   Printf (''Failed to load geometry shader '' @ gf @ ''\<newline>''),
                   Printf (''Failed to load fragment shader \"'' @ ff @ ''\"\<newline>'')})
       \<and> (LoadFile gl vf = Some vs \<and> LoadFile gl gf = Some gs \<and> LoadFile gl ff = Some fs
            \<and> (\<not> compile_status gl GL_VERTEX_SHADER vs
                \<or> (gf \<noteq> [] \<and> \<not> compile_status gl GL_GEOMETRY_SHADER gs)
                \<or> \<not> compile_status gl GL_FRAGMENT_SHADER fs) \<longrightarrow>
            \<not> fst (LoadVertGeomFrag gl ndebug p0 vf gf ff)
            \<and> last (snd (snd (LoadVertGeomFrag gl ndebug p0 vf gf ff)))
                \<in> {Printf (''Failed to compile vertex shader \"'' @ vf @ ''\"\<newline>''),
                   Printf (''Failed to compile geometry shader \"'' @ gf @ ''\"\<newline>''),
                   Printf (''Failed to compile fragment shader \"'' @ ff @ ''\"\<newline>'')})
       \<and> (LoadFile gl cf = None \<longrightarrow>
            \<not> fst (LoadCompute gl ndebug p0 cf)
            \<and> Printf (''Failed to load compute shader '' @ cf @ ''\<newline>'')
                \<in> set (snd (snd (LoadCompute gl ndebug p0 cf))))
       \<and> (LoadFile gl cf = Some cs \<and> \<not> compile_status gl GL_COMPUTE_SHADER cs \<longrightarrow>
            \<not> fst (LoadCompute gl ndebug p0 cf)
            \<and> last (snd (snd (LoadCompute gl ndebug p0 cf)))
                = Printf (''Failed to compile compute shader '' @ cf @ ''\<newline>''))
       \<and> (shader_files_fail gl ''shader/splat_vert.glsl'' ''shader/splat_geom.glsl''
              ''shader/splat_frag.glsl'' \<longrightarrow>
            (\<exists>ev. SplatRenderer_Init gl lib ndebug uninit dev rs gaussianCloud
                     = InitFalse (ev @ [Printf ''Error loading splat shaders!\<newline>''])))
       \<and> (image_load ''texture/sphere.png'' = None \<longrightarrow>
            PointRenderer_Init gl image_load ndebug uninit dev rp pointCloud
              = InitFalse [Printf ''Error loading sphere.png\<newline>''])
       \<and> (image_load ''texture/sphere.png'' \<noteq> None
            \<and> (shader_files_fail gl ''shader/point_vert.glsl'' ''shader/point_geom.glsl''
                  ''shader/point_frag.glsl''
                \<or> compute_file_fails gl ''shader/presort_compute.glsl'') \<longrightarrow>
            (\<exists>ev msg. PointRenderer_Init gl image_load ndebug uninit dev rp pointCloud
                         = InitFalse (ev @ [Printf msg])
                     \<and> msg \<in> {''Error loading point shaders!\<newline>'',
                              ''Error loading point pre-sort compute shader!\<newline>''}))"
proof -
  have E: "shader_files_fail gl ''shader/splat_vert.glsl'' ''shader/splat_geom.glsl''
              ''shader/splat_frag.glsl'' \<longrightarrow>
            (\<exists>ev. SplatRenderer_Init gl lib ndebug uninit dev rs gaussianCloud
                     = InitFalse (ev @ [Printf ''Error loading splat shaders!\<newline>'']))"
    using SplatRenderer_Init_load_failure_report[of gl ndebug uninit lib dev rs gaussianCloud]
      shader_files_fail_load[of gl "''shader/splat_vert.glsl''" "''shader/splat_geom.glsl''"
        "''shader/splat_frag.glsl''" ndebug "new_Program uninit"]
    by simp
  have G: "image_load ''texture/sphere.png'' \<noteq> None
            \<and> (shader_files_fail gl ''shader/point_vert.glsl'' ''shader/point_geom.glsl''
                  ''shader/point_frag.glsl''
                \<or> compute_file_fails gl ''shader/presort_compute.glsl'') \<longrightarrow>
            (\<exists>ev msg. PointRenderer_Init gl image_load ndebug uninit dev rp pointCloud
                         = InitFalse (ev @ [Printf msg])
                     \<and> msg \<in> {''Error loading point shaders!\<newline>'',
                              ''Error loading point pre-sort compute shader!\<newline>''})"
  proof
    assume a: "image_load ''texture/sphere.png'' \<noteq> None
            \<and> (shader_files_fail gl ''shader/point_vert.glsl'' ''shader/point_geom.glsl''
                  ''shader/point_frag.glsl''
                \<or> compute_file_fails gl ''shader/presort_compute.glsl'')"
    then obtain tex where t: "image_load ''texture/sphere.png'' = Some tex" by auto
    show "\<exists>ev msg. PointRenderer_Init gl image_load ndebug uninit dev rp pointCloud
                         = InitFalse (ev @ [Printf msg])
                     \<and> msg \<in> {''Error loading point shaders!\<newline>'',
                              ''Error loading point pre-sort compute shader!\<newline>''}"
    proof (cases "fst (LoadVertGeomFrag gl ndebug (new_Program uninit)
             ''shader/point_vert.glsl'' ''shader/point_geom.glsl'' ''shader/point_frag.glsl'')")
      case False
      from PointRenderer_Init_shader_failure[where image_load = image_load, OF t False,
          of dev rp pointCloud]
      obtain ev where "PointRenderer_Init gl image_load ndebug uninit dev rp pointCloud
                 = InitFalse (ev @ [Printf ''Error loading point shaders!\<newline>''])" ..
      then show ?thesis by simp
    next
      case True
      with shader_files_fail_load[of gl "''shader/point_vert.glsl''" "''shader/point_geom.glsl''"
        "''shader/point_frag.glsl''" ndebug "new_Program uninit"]
      have "\<not> shader_files_fail gl ''shader/point_vert.glsl'' ''shader/point_geom.glsl''
                  ''shader/point_frag.glsl''" by auto
      with a have "compute_file_fails gl ''shader/presort_compute.glsl''" by simp
      from compute_file_fails_load[OF this assms, of ndebug "new_Program uninit"]
      have "\<not> fst (LoadCompute gl ndebug (new_Program uninit) ''shader/presort_compute.glsl'')" .
      from PointRenderer_Init_compute_failure[where image_load = image_load, OF t True this,
          of dev rp pointCloud]
      obtain ev where "PointRenderer_Init gl image_load ndebug uninit dev rp pointCloud
                 = InitFalse (ev @ [Printf ''Error loading point pre-sort compute shader!\<newline>''])" ..
      then show ?thesis by simp
    qed
  qed
  show ?thesis
    using LoadVertGeomFrag_missing_file_report[of gl vf gf ff ndebug p0]
      LoadVertGeomFrag_uncompilable_report[of gl vf vs gf gs ff fs ndebug p0]
      LoadCompute_missing_file_report[OF _ assms, of cf ndebug p0]
      LoadCompute_uncompilable_report[of gl cf cs ndebug p0]
      PointRenderer_Init_texture_failure[of image_load gl ndebug uninit dev rp pointCloud]
      E G
    by blast
qed

lemma linking_driver_rejects: "rejects_empty_compute (linking_driver files)"
  by (simp add: rejects_empty_compute_def linking_driver_def)

theorem load_failure_aborts_init_witness:
  "rejects_empty_compute (linking_driver no_compute_file)
   \<and> LoadFile (linking_driver no_compute_file) ''shader/presort_compute.glsl'' = None
   \<and> \<not> fst (LoadCompute (linking_driver no_compute_file) True (new_Program 0)
               ''shader/presort_compute.glsl'')
   \<and> (\<exists>ev msg. PointRenderer_Init (linking_driver no_compute_file) (\<lambda>f. Some 1) True 0
                   empty_device (new_PointRenderer 0) [one_point] = InitFalse (ev @ [Printf msg]))
   \<and> LoadFile (linking_driver no_splat_vert_file) ''shader/splat_vert.glsl'' = None
   \<and> (\<exists>ev. SplatRenderer_Init (linking_driver no_splat_vert_file) some_math False 0
               empty_device (new_SplatRenderer 0) [one_gaussian]
             = InitFalse (ev @ [Printf ''Error loading splat shaders!\<newline>'']))
   \<and> PointRenderer_Init (linking_driver all_files) (\<lambda>f. None) False 0
         empty_device (new_PointRenderer 0) [one_point]
       = InitFalse [Printf ''Error loading sphere.png\<newline>'']"
proof -
  have c: "LoadFile (linking_driver no_compute_file) ''shader/presort_compute.glsl'' = None"
          "compute_file_fails (linking_driver no_compute_file) ''shader/presort_compute.glsl''"
    by (simp_all add: linking_driver_def no_compute_file_def compute_file_fails_def)
  have v: "LoadFile (linking_driver no_splat_vert_file) ''shader/splat_vert.glsl'' = None"
          "shader_files_fail (linking_driver no_splat_vert_file) ''shader/splat_vert.glsl''
             ''shader/splat_geom.glsl'' ''shader/splat_frag.glsl''"
    by (simp_all add: linking_driver_def no_splat_vert_file_def shader_files_fail_def)
  note T1 = load_failure_aborts_init[OF linking_driver_rejects[of no_compute_file],
      where cf = "''shader/presort_compute.glsl''" and ndebug = True
        and ?p0.0 = "new_Program 0" and image_load = "\<lambda>f. Some 1" and uninit = 0
        and dev = empty_device and rp = "new_PointRenderer 0" and pointCloud = "[one_point]"]
  from T1[THEN conjunct2, THEN conjunct2, THEN conjunct1, rule_format, OF c(1)]
  have p1: "\<not> fst (LoadCompute (linking_driver no_compute_file) True (new_Program 0)
               ''shader/presort_compute.glsl'')"
    by (rule conjunct1)
  have pre: "(\<lambda>f. Some (1::nat)) ''texture/sphere.png'' \<noteq> None
      \<and> (shader_files_fail (linking_driver no_compute_file) ''shader/point_vert.glsl''
            ''shader/point_geom.glsl'' ''shader/point_frag.glsl''
          \<or> compute_file_fails (linking_driver no_compute_file) ''shader/presort_compute.glsl'')"
    using c(2) by simp
  from T1[THEN conjunct2, THEN conjunct2, THEN conjunct2, THEN conjunct2, THEN conjunct2,
          THEN conjunct2, rule_format, OF pre]
  obtain ev msg where "PointRenderer_Init (linking_driver no_compute_file) (\<lambda>f. Some 1) True 0
                   empty_device (new_PointRenderer 0) [one_point] = InitFalse (ev @ [Printf msg])"
    by blast
  then have p2: "\<exists>ev msg. PointRenderer_Init (linking_driver no_compute_file) (\<lambda>f. Some 1) True 0
                   empty_device (new_PointRenderer 0) [one_point] = InitFalse (ev @ [Printf msg])"
    by blast
  note T2 = load_failure_aborts_init[OF linking_driver_rejects[of no_splat_vert_file],
      where ndebug = False and lib = some_math and uninit = 0
        and dev = empty_device and rs = "new_SplatRenderer 0" and gaussianCloud = "[one_gaussian]"]
  from T2[THEN conjunct2, THEN conjunct2, THEN conjunct2, THEN conjunct2, THEN conjunct1,
          rule_format, OF v(2)]
  have p3: "\<exists>ev. SplatRenderer_Init (linking_driver no_splat_vert_file) some_math False 0
               empty_device (new_SplatRenderer 0) [one_gaussian]
             = InitFalse (ev @ [Printf ''Error loading splat shaders!\<newline>''])" .
  note T3 = load_failure_aborts_init[OF linking_driver_rejects[of all_files],
      where ndebug = False and image_load = "\<lambda>f. None" and uninit = 0
        and dev = empty_device and rp = "new_PointRenderer 0" and pointCloud = "[one_point]"]
  from T3[THEN conjunct2, THEN conjunct2, THEN conjunct2, THEN conjunct2, THEN conjunct2,
          THEN conjunct1, rule_format]
  have p4: "PointRenderer_Init (linking_driver all_files) (\<lambda>f. None) False 0
         empty_device (new_PointRenderer 0) [one_point]
       = InitFalse [Printf ''Error loading sphere.png\<newline>'']"
    by simp
  from linking_driver_rejects c(1) p1 p2 v(1) p3 p4 show ?thesis by blast
qed

text \<open>
  The condition on the driver is needed. The branch of \<open>LoadCompute\<close> for a file that cannot
  be loaded has no \<open>return\<close>: with a driver that compiled and linked the empty text, against
  the shading language, the load would return true and \<open>PointRenderer::Init\<close> with it.
\<close>

lemma LoadCompute_on_accepting_driver:
  "LoadFile (test_driver no_compute_file True True) ''shader/presort_compute.glsl'' = None
   \<and> fst (LoadCompute (test_driver no_compute_file True True) True (new_Program 0)
             ''shader/presort_compute.glsl'')
   \<and> (case PointRenderer_Init (test_driver no_compute_file True True) (\<lambda>f. Some 1) True 0
               empty_device (new_PointRenderer 0) [] of
         InitTrue r d ev \<Rightarrow> True | InitFalse ev \<Rightarrow> False | InitAborted ev \<Rightarrow> False)"
proof -
  have f: "LoadFile (test_driver no_compute_file True True) ''shader/presort_compute.glsl'' = None"
    by (simp add: test_driver_def no_compute_file_def)
  have c: "fst (LoadCompute (test_driver no_compute_file True True) True (new_Program 0)
             ''shader/presort_compute.glsl'')"
    unfolding LoadCompute_missing_file_result[OF f]
    by (simp add: test_driver_def CompileShader_def CheckLinkStatus_def info_log_length_def)
  have v: "fst (LoadVertGeomFrag (test_driver no_compute_file True True) True (new_Program 0)
             ''shader/point_vert.glsl'' ''shader/point_geom.glsl'' ''shader/point_frag.glsl'')"
    by (simp add: LoadVertGeomFrag_def test_driver_def no_compute_file_def Delete_def
          new_Program_def CompileShader_def CheckLinkStatus_def info_log_length_def Let_def)
  show ?thesis using f c v
    by (auto simp add: PointRenderer_Init_def Point_BuildVertexArrayObject_def GetAttribLoc_def
          new_BufferObject_def Let_def
          split: option.splits prod.splits bool.splits sum.splits)
qed

subsection \<open>Loading again\<close>

text \<open>
  C10, as amended. \<open>LoadVertGeomFrag\<close> and \<open>LoadCompute\<close> start with the five delete calls
  of \<open>Delete\<close> on the handles of the program loaded before. After a load that returned false
  both reflection tables are empty, so every lookup of a name takes the branch for a name
  that is not found; after any load the tables hold nothing of the program loaded before.
  When \<open>LoadVertGeomFrag\<close> cannot load one of its files, or the compute shader of
  \<open>LoadCompute\<close> does not compile, the program handle and the shader handles are 0.
\<close>

theorem load_discards_previous_program:
  "take 5 (snd (snd (LoadVertGeomFrag gl ndebug p0 vf gf ff))) = fst (Delete p0)
   \<and> take 5 (snd (snd (LoadCompute gl ndebug p0 cf))) = fst (Delete p0)
   \<and> (\<not> fst (LoadVertGeomFrag gl ndebug p0 vf gf ff) \<longrightarrow>
        uniforms (fst (snd (LoadVertGeomFrag gl ndebug p0 vf gf ff))) name = None
        \<and> attribs (fst (snd (LoadVertGeomFrag gl ndebug p0 vf gf ff))) name = None
        \<and> snd (GetUniformLoc nd (fst (snd (LoadVertGeomFrag gl ndebug p0 vf gf ff))) name)
            = (if nd then Inr 0 else Inl AssertionFailed)
        \<and> snd (GetAttribLoc nd (fst (snd (LoadVertGeomFrag gl ndebug p0 vf gf ff))) name)
            = (if nd then Inr 0 else Inl AssertionFailed))
   \<and> (\<not> fst (LoadCompute gl ndebug p0 cf) \<longrightarrow>
        uniforms (fst (snd (LoadCompute gl ndebug p0 cf))) name = None
        \<and> attribs (fst (snd (LoadCompute gl ndebug p0 cf))) name = None
        \<and> snd (GetUniformLoc nd (fst (snd (LoadCompute gl ndebug p0 cf))) name)
            = (if nd then Inr 0 else Inl AssertionFailed)
        \<and> snd (GetAttribLoc nd (fst (snd (LoadCompute gl ndebug p0 cf))) name)
            = (if nd then Inr 0 else Inl AssertionFailed))
   \<and> (LoadFile gl vf = None \<or> (gf \<noteq> [] \<and> LoadFile gl gf = None) \<or> LoadFile gl ff = None \<longrightarrow>
        \<not> fst (LoadVertGeomFrag gl ndebug p0 vf gf ff)
        \<and> program (fst (snd (LoadVertGeomFrag gl ndebug p0 vf gf ff))) = 0
        \<and> vertShader (fst (snd (LoadVertGeomFrag gl ndebug p0 vf gf ff))) = 0
        \<and> geomShader (fst (snd (LoadVertGeomFrag gl ndebug p0 vf gf ff))) = 0
        \<and> fragShader (fst (snd (LoadVertGeomFrag gl ndebug p0 vf gf ff))) = 0
        \<and> computeShader (fst (snd (LoadVertGeomFrag gl ndebug p0 vf gf ff))) = 0)
   \<and> (LoadFile gl cf = Some cs \<and> \<not> compile_status gl GL_COMPUTE_SHADER cs \<longrightarrow>
        \<not> fst (LoadCompute gl ndebug p0 cf)
        \<and> program (fst (snd (LoadCompute gl ndebug p0 cf))) = 0
        \<and> computeShader (fst (snd (LoadCompute gl ndebug p0 cf))) = 0)
   \<and> uniforms (fst (snd (LoadVertGeomFrag gl ndebug (p0\<lparr>uniforms := utab, attribs := atab\<rparr>) vf gf ff)))
       = uniforms (fst (snd (LoadVertGeomFrag gl ndebug p0 vf gf ff)))
   \<and> attribs (fst (snd (LoadVertGeomFrag gl ndebug (p0\<lparr>uniforms := utab, attribs := atab\<rparr>) vf gf ff)))
       = attribs (fst (snd (LoadVertGeomFrag gl ndebug p0 vf gf ff)))
   \<and> uniforms (fst (snd (LoadCompute gl ndebug (p0\<lparr>uniforms := utab, attribs := atab\<rparr>) cf)))
       = uniforms (fst (snd (LoadCompute gl ndebug p0 cf)))
   \<and> attribs (fst (snd (LoadCompute gl ndebug (p0\<lparr>uniforms := utab, attribs := atab\<rparr>) cf)))
       = attribs (fst (snd (LoadCompute gl ndebug p0 cf)))"
proof -
  have t1: "\<not> fst (LoadVertGeomFrag gl ndebug p0 vf gf ff) \<longrightarrow>
        uniforms (fst (snd (LoadVertGeomFrag gl ndebug p0 vf gf ff))) name = None
        \<and> attribs (fst (snd (LoadVertGeomFrag gl ndebug p0 vf gf ff))) name = None
        \<and> snd (GetUniformLoc nd (fst (snd (LoadVertGeomFrag gl ndebug p0 vf gf ff))) name)
            = (if nd then Inr 0 else Inl AssertionFailed)
        \<and> snd (GetAttribLoc nd (fst (snd (LoadVertGeomFrag gl ndebug p0 vf gf ff))) name)
            = (if nd then Inr 0 else Inl AssertionFailed)"
    using LoadVertGeomFrag_failed_tables[of gl ndebug p0 vf gf ff]
    by (simp add: GetUniformLoc_def GetAttribLoc_def)
  have t2: "\<not> fst (LoadCompute gl ndebug p0 cf) \<longrightarrow>
        uniforms (fst (snd (LoadCompute gl ndebug p0 cf))) name = None
        \<and> attribs (fst (snd (LoadCompute gl ndebug p0 cf))) name = None
        \<and> snd (GetUniformLoc nd (fst (snd (LoadCompute gl ndebug p0 cf))) name)
            = (if nd then Inr 0 else Inl AssertionFailed)
        \<and> snd (GetAttribLoc nd (fst (snd (LoadCompute gl ndebug p0 cf))) name)
            = (if nd then Inr 0 else Inl AssertionFailed)"
    using LoadCompute_failed_tables[of gl ndebug p0 cf]
    by (simp add: GetUniformLoc_def GetAttribLoc_def)
  show ?thesis
    using t1 t2 LoadVertGeomFrag_deletes_first[of gl ndebug p0 vf gf ff]
      LoadCompute_deletes_first[of gl ndebug p0 cf]
      LoadVertGeomFrag_missing_file[of gl vf gf ff ndebug p0]
      LoadCompute_uncompilable[of gl cf cs ndebug p0]
      LoadVertGeomFrag_forgets_tables[where gl = gl and ndebug = ndebug and ?p0.0 = p0
        and utab = utab and atab = atab and vf = vf and gf = gf and ff = ff]
      LoadCompute_forgets_tables[where gl = gl and ndebug = ndebug and ?p0.0 = p0
        and utab = utab and atab = atab and cf = cf]
    by blast
qed

theorem load_discards_previous_program_witness:
  "take 5 (snd (snd (LoadVertGeomFrag (test_driver only_compute_file False True) True
                       one_uniform_program ''v.glsl'' ''g.glsl'' ''f.glsl'')))
     = [DeleteShader 2, DeleteShader 0, DeleteShader 3, DeleteShader 0, DeleteProgram 1]
   \<and> \<not> fst (LoadVertGeomFrag (test_driver only_compute_file False True) True
                one_uniform_program ''v.glsl'' ''g.glsl'' ''f.glsl'')
   \<and> uniforms (fst (snd (LoadVertGeomFrag (test_driver only_compute_file False True) True
                one_uniform_program ''v.glsl'' ''g.glsl'' ''f.glsl''))) ''pointSize'' = None
   \<and> snd (GetUniformLoc True (fst (snd (LoadVertGeomFrag (test_driver only_compute_file False True)
                True one_uniform_program ''v.glsl'' ''g.glsl'' ''f.glsl''))) ''pointSize'') = Inr 0
   \<and> program (fst (snd (LoadVertGeomFrag (test_driver only_compute_file False True) True
                one_uniform_program ''v.glsl'' ''g.glsl'' ''f.glsl''))) = 0
   \<and> \<not> fst (LoadCompute (test_driver only_compute_file False True) True
                one_uniform_program ''c.glsl'')
   \<and> attribs (fst (snd (LoadCompute (test_driver only_compute_file False True) True
                one_uniform_program ''c.glsl''))) ''pointSize'' = None
   \<and> program (fst (snd (LoadCompute (test_driver only_compute_file False True) True
                one_uniform_program ''c.glsl''))) = 0"
proof -
  let ?gl = "test_driver only_compute_file False True"
  have f: "LoadFile ?gl ''v.glsl'' = None" "LoadFile ?gl ''c.glsl'' = Some ''x''"
          "\<not> compile_status ?gl GL_COMPUTE_SHADER ''x''"
    by (simp_all add: test_driver_def only_compute_file_def)
  have d: "fst (Delete one_uniform_program)
             = [DeleteShader 2, DeleteShader 0, DeleteShader 3, DeleteShader 0, DeleteProgram 1]"
    by (simp add: Delete_def one_uniform_program_def)
  show ?thesis
    using load_discards_previous_program[where gl = ?gl and ndebug = True
        and ?p0.0 = one_uniform_program and vf = "''v.glsl''" and gf = "''g.glsl''"
        and ff = "''f.glsl''" and cf = "''c.glsl''" and name = "''pointSize''" and nd = True
        and cs = "''x''"] f
    unfolding d by simp
qed

text \<open>
  A load that fails at the link step keeps the handles it has created: with a driver that
  compiles and does not link, \<open>LoadCompute\<close> returns false and leaves the program handle 7
  and the compute shader handle 3.
\<close>

theorem load_discards_previous_program_counterexample:
  "\<not> (let r = LoadCompute (test_driver (\<lambda>f. Some ''void main() {}'') True False) True
                 one_uniform_program ''c.glsl''
       in \<not> fst r \<longrightarrow> program (fst (snd r)) = 0 \<and> computeShader (fst (snd r)) = 0)"
  by (simp add: LoadCompute_def test_driver_def Delete_def one_uniform_program_def
        CompileShader_def CheckLinkStatus_def info_log_length_def Let_def)

section \<open>Floating point\<close>

lemma powi2_less: "(2::real) powi p \<le> a \<Longrightarrow> a < 2 powi q \<Longrightarrow> p < q"
proof (rule ccontr)
  assume a: "(2::real) powi p \<le> a" "a < 2 powi q" and "\<not> p < q"
  then have "q \<le> p" by simp
  then have "(2::real) powi q \<le> 2 powi p" by (intro power_int_increasing) simp_all
  with a show False by linarith
qed

lemma ulp_exponent_from_cases:
  "ulp_exponent_from k a = -149 \<or> 2 powi (ulp_exponent_from k a + 23) \<le> a"
proof (induction k)
  case 0
  show ?case by simp
next
  case (Suc k)
  have "int k - 149 + 23 = int k - 126" by simp
  with Suc show ?case by auto
qed

lemma ulp_exponent_from_eq:
  assumes "-149 \<le> e" "e + 149 < int k" "2 powi (e + 23) \<le> a" "a < 2 powi (e + 24)"
  shows "ulp_exponent_from k a = e"
  using assms
proof (induction k)
  case 0
  then show ?case by simp
next
  case (Suc k)
  show ?case
  proof (cases "2 powi (int k - 126) \<le> a")
    case True
    from powi2_less[OF True Suc.prems(4)] have "int k - 126 < e + 24" .
    with Suc.prems(2) have "int k - 149 = e" by simp
    with True show ?thesis by simp
  next
    case False
    have "e + 149 \<noteq> int k"
    proof
      assume "e + 149 = int k"
      then have "int k - 126 = e + 23" by simp
      with False Suc.prems(3) show False by simp
    qed
    with Suc.prems(2) have "e + 149 < int k" by simp
    from Suc.IH[OF Suc.prems(1) this Suc.prems(3,4)] False show ?thesis by simp
  qed
qed

text \<open>The spacing in the binade \<open>2^(e+23) \<le> a < 2^(e+24)\<close> is \<open>2^e\<close>.\<close>

lemma ulp_exponent_eq:
  assumes "-149 \<le> e" "e \<le> 104" "2 powi (e + 23) \<le> a" "a < 2 powi (e + 24)"
  shows "ulp_exponent a = e"
  unfolding ulp_exponent_def using assms by (intro ulp_exponent_from_eq) simp_all

lemma round_half_even_of_int [simp]: "round_half_even (of_int j) = j"
  by (simp add: round_half_even_def)

text \<open>A number of the format is its own rounding.\<close>

lemma binary32_exact:
  assumes x: "x = of_int m * 2 powi e" and m: "\<bar>m\<bar> < 16777216" and e: "-149 \<le> e" "e \<le> 104"
  shows "binary32 neg x = (if m = 0 then signed_zero neg else Finite x)"
proof -
  define k where "k = ulp_exponent \<bar>x\<bar>"
  have ax: "\<bar>x\<bar> = of_int \<bar>m\<bar> * 2 powi e" unfolding x by (simp add: abs_mult)
  have "of_int \<bar>m\<bar> < (16777216 :: real)" using m by linarith
  then have "\<bar>x\<bar> < 16777216 * 2 powi e" unfolding ax by (intro mult_strict_right_mono) simp_all
  also have "(16777216 :: real) * 2 powi e = 2 powi (e + 24)" by (simp add: power_int_add)
  finally have lt: "\<bar>x\<bar> < 2 powi (e + 24)" .
  have k_le: "k \<le> e"
  proof -
    from ulp_exponent_from_cases[of 254 "\<bar>x\<bar>"]
    consider "k = -149" | "2 powi (k + 23) \<le> \<bar>x\<bar>" unfolding k_def ulp_exponent_def by blast
    then show ?thesis
    proof cases
      case 1
      with e show ?thesis by simp
    next
      case 2
      from powi2_less[OF 2 lt] show ?thesis by simp
    qed
  qed
  define d where "d = nat (e - k)"
  have ek: "e = k + int d" using k_le by (simp add: d_def)
  have "(2::real) powi e = 2 powi k * 2 ^ d" unfolding ek by (simp add: power_int_add)
  then have xk: "x = of_int (m * 2 ^ d) * 2 powi k" unfolding x by simp
  have q: "x / 2 powi k = of_int (m * 2 ^ d)" unfolding xk by simp
  have y: "of_int (round_half_even (x / 2 powi k)) * 2 powi k = x"
    unfolding q round_half_even_of_int using xk by simp
  have "(2::real) powi (e + 24) \<le> 2 powi 128" using e by (intro power_int_increasing) simp_all
  with lt have small: "\<not> 2 powi 128 \<le> \<bar>x\<bar>" by linarith
  have z: "x = 0 \<longleftrightarrow> m = 0" unfolding x by simp
  show ?thesis
    unfolding binary32_def Let_def k_def[symmetric] y using small z by simp
qed

lemma binary32_of_int:
  "\<bar>m\<bar> < 16777216 \<Longrightarrow>
     binary32 neg (of_int m) = (if m = 0 then signed_zero neg else Finite (of_int m))"
  using binary32_exact[of "of_int m" m 0 neg] by simp

lemma binary32_0 [simp]: "binary32 neg 0 = signed_zero neg"
  using binary32_of_int[of 0 neg] by simp

lemma binary32_1 [simp]: "binary32 neg 1 = Finite 1"
  using binary32_of_int[of 1 neg] by simp

lemma binary32_m1 [simp]: "binary32 neg (- 1) = Finite (- 1)"
  using binary32_of_int[of "- 1" neg] by simp

lemma binary32_numeral [simp]:
  "numeral n < (16777216::int) \<Longrightarrow> binary32 neg (numeral n) = Finite (numeral n)"
  using binary32_of_int[of "numeral n" neg] by simp

lemma binary32_neg_numeral [simp]:
  "numeral n < (16777216::int) \<Longrightarrow> binary32 neg (- numeral n) = Finite (- numeral n)"
  using binary32_of_int[of "- numeral n" neg] by simp

text \<open>Rounding inside a known binade.\<close>

lemma binary32_round:
  assumes "-149 \<le> e" "e \<le> 104" "2 powi (e + 23) \<le> \<bar>x\<bar>" "\<bar>x\<bar> < 2 powi (e + 24)"
  shows "binary32 neg x =
           (let y = of_int (round_half_even (x / 2 powi e)) * 2 powi e
            in if 2 powi 128 \<le> \<bar>y\<bar> then signed_inf (x < 0)
               else if y = 0 then signed_zero neg else Finite y)"
  unfolding binary32_def ulp_exponent_eq[OF assms] by (simp add: Let_def)

lemmas float_defs = float_add_def float_sub_def float_mul_def signed_zero_def signed_inf_def

section \<open>Depth keys\<close>


lemma trunc_range:
  "u32_representable f \<Longrightarrow>
     0 \<le> trunc_toward_zero (float_val f) \<and> trunc_toward_zero (float_val f) < 4294967296"
  by (cases f) (auto simp: trunc_toward_zero_def floor_less_iff)

lemma unat_float_to_u32:
  assumes "u32_representable f"
  shows "unat (float_to_u32 oor f) = nat (trunc_toward_zero (float_val f))"
proof -
  from trunc_range[OF assms]
  have r: "0 \<le> trunc_toward_zero (float_val f)" "trunc_toward_zero (float_val f) < 4294967296"
    by auto
  have "unat (word_of_int (trunc_toward_zero (float_val f)) :: u32)
          = nat (trunc_toward_zero (float_val f) mod 2 ^ 32)"
    by (simp add: unat_eq_nat_uint uint_word_of_int take_bit_eq_mod)
  with r show ?thesis using assms by (simp add: float_to_u32_def)
qed

lemma u32_le_max: "(w :: u32) \<le> 4294967295"
proof -
  have "unat w < 2 ^ 32" using unsigned_less[of w] by simp
  then show ?thesis by (simp add: word_le_nat_alt)
qed

lemma unat_depth_key:
  "unat (depth_key oor d) = 4294967295 - unat (float_to_u32 oor (float_mul d (Finite 65536)))"
  unfolding depth_key_def using u32_le_max[of "float_to_u32 oor (float_mul d (Finite 65536))"]
  by (simp add: unat_sub)

text \<open>Inside the range of the conversion the key is \<open>2^32 - 1\<close> less the integer part.\<close>

lemma depth_key_in_range:
  assumes "u32_representable (float_mul d (Finite 65536))"
  shows "unat (depth_key oor d)
           = 4294967295 - nat (trunc_toward_zero (float_val (float_mul d (Finite 65536))))"
  by (simp add: unat_depth_key unat_float_to_u32[OF assms])



text \<open>The conversion of the code is the conversion as the specification has it.\<close>

lemma float_to_u32_spec: "float_to_u32 oor f = spec_uint32 oor f"
proof (cases f)
  case (Finite s)
  consider "0 \<le> s" "s < 4294967296" | "-1 < s" "s < 0" | "s \<le> -1" | "4294967296 \<le> s"
    by linarith
  then show ?thesis
  proof cases
    case 1
    then have "0 \<le> \<lfloor>s\<rfloor>" by simp
    then have "(of_nat (nat \<lfloor>s\<rfloor>) :: u32) = word_of_int \<lfloor>s\<rfloor>" by simp
    with 1 show ?thesis
      by (simp add: Finite float_to_u32_def spec_uint32_def trunc_toward_zero_def)
  next
    case 2
    then have "\<lceil>s\<rceil> = 0" by (intro ceiling_unique) simp_all
    with 2 show ?thesis
      by (simp add: Finite float_to_u32_def spec_uint32_def trunc_toward_zero_def)
  next
    case 3
    then show ?thesis by (simp add: Finite float_to_u32_def spec_uint32_def)
  next
    case 4
    then show ?thesis by (simp add: Finite float_to_u32_def spec_uint32_def)
  qed
qed (simp_all add: float_to_u32_def spec_uint32_def trunc_toward_zero_def)

lemma depth_key_spec_key:
  "depth_key oor (camera_depth m p) = spec_key oor m p"
  by (simp add: camera_depth_def camera_forward_def camera_eye_def spec_key_def depth_key_def
        mat3_mul_vec3_def mat3_of_mat4_def vec3_of_vec4_def vec3_sub_def dot3_def mk_vec3_def
        float_to_u32_spec Let_def)

subsection \<open>The host loop\<close>

lemma build_vecs_pointwise:
  "length dv = length ps \<Longrightarrow> length iv = length ps \<Longrightarrow>
   \<exists>dv' iv'. build_vecs oor fw ey ps i (dv, iv) = Some (dv', iv')
      \<and> length dv' = length ps \<and> length iv' = length ps
      \<and> (\<forall>j < length ps. dv' ! j =
            (if i \<le> j then depth_key oor (dot3 (vec3_sub (ps ! j) ey) fw) else dv ! j))
      \<and> (\<forall>j < length ps. iv' ! j = (if i \<le> j then word_of_nat j else iv ! j))"
proof (induction "length ps - i" arbitrary: i dv iv)
  case 0
  then have "\<not> i < length ps" by simp
  then show ?case using 0 by (subst build_vecs.simps) auto
next
  case (Suc n)
  then have lt: "i < length ps" by simp
  let ?dv = "dv[i := depth_key oor (dot3 (vec3_sub (ps ! i) ey) fw)]"
  let ?iv = "iv[i := word_of_nat i]"
  have n: "n = length ps - Suc i" using Suc(2) by simp
  have l1: "length ?dv = length ps" "length ?iv = length ps" using Suc by simp_all
  from Suc(1)[OF n l1] obtain dv' iv' where
    r: "build_vecs oor fw ey ps (Suc i) (?dv, ?iv) = Some (dv', iv')"
       "length dv' = length ps" "length iv' = length ps"
       "\<forall>j < length ps. dv' ! j =
          (if Suc i \<le> j then depth_key oor (dot3 (vec3_sub (ps ! j) ey) fw) else ?dv ! j)"
       "\<forall>j < length ps. iv' ! j = (if Suc i \<le> j then word_of_nat j else ?iv ! j)"
    by blast
  have step: "build_vecs oor fw ey ps i (dv, iv) = build_vecs oor fw ey ps (Suc i) (?dv, ?iv)"
    using lt Suc(3,4) by (subst build_vecs.simps) simp
  have a: "\<forall>j < length ps. dv' ! j =
             (if i \<le> j then depth_key oor (dot3 (vec3_sub (ps ! j) ey) fw) else dv ! j)"
  proof (intro allI impI)
    fix j assume j: "j < length ps"
    show "dv' ! j = (if i \<le> j then depth_key oor (dot3 (vec3_sub (ps ! j) ey) fw) else dv ! j)"
      using r(4) j Suc(3) by (cases "j = i") (auto simp: nth_list_update)
  qed
  have b: "\<forall>j < length ps. iv' ! j = (if i \<le> j then word_of_nat j else iv ! j)"
  proof (intro allI impI)
    fix j assume j: "j < length ps"
    show "iv' ! j = (if i \<le> j then word_of_nat j else iv ! j)"
      using r(5) j Suc(4) by (cases "j = i") (auto simp: nth_list_update)
  qed
  show ?case unfolding step using r(1,2,3) a b by blast
qed

lemma build_vecs_0:
  assumes "length dv = length ps" "length iv = length ps"
  shows "build_vecs oor fw ey ps 0 (dv, iv) =
     Some (map (\<lambda>p. depth_key oor (dot3 (vec3_sub p ey) fw)) ps, identity_permutation (length ps))"
proof -
  from build_vecs_pointwise[OF assms, of oor fw ey 0] obtain dv' iv' where
    r: "build_vecs oor fw ey ps 0 (dv, iv) = Some (dv', iv')"
       "length dv' = length ps" "length iv' = length ps"
       "\<forall>j < length ps. dv' ! j = depth_key oor (dot3 (vec3_sub (ps ! j) ey) fw)"
       "\<forall>j < length ps. iv' ! j = word_of_nat j"
    by auto
  have "dv' = map (\<lambda>p. depth_key oor (dot3 (vec3_sub p ey) fw)) ps"
    using r(2,4) by (intro nth_equalityI) auto
  moreover have "iv' = identity_permutation (length ps)"
    using r(3,5) unfolding identity_permutation_def by (intro nth_equalityI) auto
  ultimately show ?thesis using r(1) by simp
qed

lemma splat_build_vecs_ready:
  assumes "length (depthVec r) = length (positionVec r)" "length (indexVec r) = length (positionVec r)"
  shows "splat_build_vecs oor r cameraMat =
     Some (map (\<lambda>p. spec_key oor cameraMat p) (positionVec r),
           identity_permutation (length (positionVec r)))"
  unfolding splat_build_vecs_def build_vecs_0[OF assms]
  by (simp add: depth_key_spec_key[symmetric] camera_depth_def)


lemma SplatRenderer_Render_ready:
  assumes "length (depthVec r) = length (positionVec r)" "length (indexVec r) = length (positionVec r)"
  shows "SplatRenderer_Render lib oor r cameraMat viewport nearFar fovy =
     (let r' = r\<lparr>depthVec := map (spec_key oor cameraMat) (positionVec r),
                 indexVec := identity_permutation (length (positionVec r))\<rparr>
      in Some (r', update_buffers r' @ sort_block r' (length (positionVec r))
                   @ copy_sorted_indices r' (splatVao r') (length (positionVec r))
                   @ splat_draw lib r' cameraMat viewport nearFar fovy))"
  unfolding SplatRenderer_Render_def splat_build_vecs_ready[OF assms]
  by (simp add: Let_def)

lemmas fixture_defs =
  two_splats_def two_splats_device_def empty_device_def identity_camera_def some_math_def
  some_frame_def one_uniform_program_def two_points_def two_points_device_def
  no_splats_def no_points_def no_points_device_def

lemmas vector_defs =
  camera_depth_def camera_forward_def camera_eye_def mat3_mul_vec3_def mat3_of_mat4_def
  vec3_of_vec4_def mk_vec3_def mk_vec4_def dot3_def vec3_sub_def vec3_lit_def vec4_lit_def

lemmas key_defs =
  depth_key_def float_to_u32_def trunc_toward_zero_def

text \<open>The keys of the two clouds used below, whatever the platform does outside the range.\<close>

lemma two_splats_keys:
  "splat_keys oor identity_camera (two_splats [vec3_lit 0 0 (-1), vec3_lit 0 0 (-2)])
     = [4294901759, 4294836223]"
  by (simp add: splat_keys_def two_splats_def identity_camera_def vector_defs key_defs float_defs)

lemma two_points_keys:
  "point_keys oor identity_camera (two_points [vec4_lit 0 0 (-1) 1, vec4_lit 0 0 (-2) 1])
     = [4294901759, 4294836223]"
  by (simp add: point_keys_def two_points_def identity_camera_def vector_defs key_defs float_defs)

section \<open>The device\<close>

lemma run_append: "run oor srt (a @ b) dev = run oor srt b (run oor srt a dev)"
  by (induction a arbitrary: dev) auto

lemma holds_wordsD:
  "holds_words dev obj n \<Longrightarrow> \<exists>xs. buffers dev obj = Some (U32Data xs) \<and> length xs = n"
  by (auto simp: holds_words_def split: option.splits buffer_data.splits)

lemma holds_wordsI:
  "buffers dev obj = Some (U32Data xs) \<Longrightarrow> length xs = n \<Longrightarrow> holds_words dev obj n"
  by (simp add: holds_words_def)

subsection \<open>The sorter's contract\<close>

lemma insertion_sorter_contract: "sorter_contract insertion_sorter"
  by (simp add: sorter_contract_def insertion_sorter_def)

lemma sorter_contract_length: "sorter_contract srt \<Longrightarrow> length (srt kvs) = length kvs"
  by (metis sorter_contract_def size_mset)

lemma sorter_contract_values:
  assumes "sorter_contract srt" "length ks = length vs"
  shows "mset (map snd (srt (zip ks vs))) = mset vs"
proof -
  have "mset (map snd (srt (zip ks vs))) = image_mset snd (mset (srt (zip ks vs)))" by simp
  also have "\<dots> = image_mset snd (mset (zip ks vs))" using assms(1) by (simp add: sorter_contract_def)
  also have "\<dots> = mset (map snd (zip ks vs))" by simp
  also have "\<dots> = mset vs" using assms(2) by simp
  finally show ?thesis .
qed


lemma sorter_contract_empty: "sorter_contract srt \<Longrightarrow> srt [] = []"
  using sorter_contract_length[of srt "[]"] by simp

lemma unat_word_of_nat_u32: "n \<le> 4294967295 \<Longrightarrow> unat (word_of_nat n :: u32) = n"
  by (simp add: unat_of_nat)

lemma distinct_identity_permutation:
  assumes "n \<le> 4294967296"
  shows "distinct (identity_permutation n)"
proof -
  have "inj_on (word_of_nat :: nat \<Rightarrow> u32) (set [0 ..< n])"
  proof (rule inj_onI)
    fix a b assume a: "a \<in> set [0 ..< n]" and b: "b \<in> set [0 ..< n]"
      and e: "(word_of_nat a :: u32) = word_of_nat b"
    from a b assms have ab: "a \<le> 4294967295" "b \<le> 4294967295" by auto
    have u: "unat (word_of_nat a :: u32) = a" "unat (word_of_nat b :: u32) = b"
      using ab(1) apply (rule unat_word_of_nat_u32)
      using ab(2) apply (rule unat_word_of_nat_u32)
      done
    from e have "unat (word_of_nat a :: u32) = unat (word_of_nat b :: u32)" by (rule arg_cong)
    then show "a = b" unfolding u .
  qed
  then show ?thesis by (simp add: identity_permutation_def distinct_map)
qed

lemma length_identity_permutation [simp]: "length (identity_permutation n) = n"
  by (simp add: identity_permutation_def)

lemma element_array_identity:
  "n \<le> 4294967295 \<Longrightarrow> element_array n = identity_permutation n"
  by (simp add: element_array_def identity_permutation_def unat_word_of_nat_u32)

subsection \<open>The blocks of a frame on the device\<close>

lemma run_update_buffers:
  assumes "holds_words dev (keyBuffer r) (length (depthVec r))"
      and "holds_words dev (valBuffer r) (length (indexVec r))"
  shows "run oor srt (update_buffers r) dev =
           dev\<lparr>buffers := (buffers dev)(keyBuffer r \<mapsto> U32Data (depthVec r),
                                        valBuffer r \<mapsto> U32Data (indexVec r))\<rparr>"
  using holds_wordsD[OF assms(1)] holds_wordsD[OF assms(2)]
  by (auto simp: update_buffers_def exec_BufferUpdate_def)

lemma run_sort_block:
  assumes "buffers dev (keyBuffer r) = Some (U32Data ks)"
      and "buffers dev (valBuffer r) = Some (U32Data vs)"
      and "length ks = n" "length vs = n" "n \<le> sorter r" "keyBuffer r \<noteq> valBuffer r"
  shows "run oor srt (sort_block r n) dev =
           dev\<lparr>buffers := (buffers dev)(keyBuffer r \<mapsto> U32Data (map fst (srt (zip ks vs))),
                                        valBuffer r \<mapsto> U32Data (map snd (srt (zip ks vs))))\<rparr>"
  using assms by (simp add: sort_block_def exec_sorter_sort_def Let_def)

lemma run_copy_sorted_indices:
  assumes "buffers dev (valBuffer r) = Some (U32Data vs)"
      and "buffers dev (elementBuffer vao) = Some (U32Data es)"
      and "length vs = n" "length es = n" "n \<le> 4294967295" "valBuffer r \<noteq> elementBuffer vao"
  shows "run oor srt (copy_sorted_indices r vao n) dev =
           dev\<lparr>bound := (bound dev)(GL_COPY_READ_BUFFER \<mapsto> valBuffer r,
                                    GL_COPY_WRITE_BUFFER \<mapsto> elementBuffer vao),
               buffers := (buffers dev)(elementBuffer vao \<mapsto> U32Data vs)\<rparr>"
proof -
  have m: "(n * 4) mod 18446744073709551616 = n * 4" using assms(5) by simp
  show ?thesis
    using assms unfolding copy_sorted_indices_def m
    by (simp add: exec_glCopyBufferSubData_def)
qed

lemma run_sort_copy:
  assumes c: "sorter_contract srt"
      and k: "buffers dev (keyBuffer r) = Some (U32Data ks)"
      and v: "buffers dev (valBuffer r) = Some (U32Data vs)"
      and e: "holds_words dev (elementBuffer vao) n"
      and l: "length ks = n" "length vs = n" "n \<le> sorter r" "n \<le> 4294967295"
      and d: "keyBuffer r \<noteq> valBuffer r" "keyBuffer r \<noteq> elementBuffer vao"
             "valBuffer r \<noteq> elementBuffer vao"
  shows "run oor srt (sort_block r n @ copy_sorted_indices r vao n) dev =
           dev\<lparr>bound := (bound dev)(GL_COPY_READ_BUFFER \<mapsto> valBuffer r,
                                    GL_COPY_WRITE_BUFFER \<mapsto> elementBuffer vao),
               buffers := (buffers dev)(keyBuffer r \<mapsto> U32Data (map fst (srt (zip ks vs))),
                                        valBuffer r \<mapsto> U32Data (map snd (srt (zip ks vs))),
                                        elementBuffer vao \<mapsto> U32Data (map snd (srt (zip ks vs))))\<rparr>"
proof -
  let ?sp = "srt (zip ks vs)"
  let ?d2 = "dev\<lparr>buffers := (buffers dev)(keyBuffer r \<mapsto> U32Data (map fst ?sp),
                                           valBuffer r \<mapsto> U32Data (map snd ?sp))\<rparr>"
  from holds_wordsD[OF e] obtain es where
    es: "buffers dev (elementBuffer vao) = Some (U32Data es)" "length es = n" by blast
  have ls: "length (map snd ?sp) = n" using sorter_contract_length[OF c] l by simp
  have s: "run oor srt (sort_block r n) dev = ?d2" by (rule run_sort_block[OF k v l(1,2,3) d(1)])
  have v2: "buffers ?d2 (valBuffer r) = Some (U32Data (map snd ?sp))" by simp
  have e2: "buffers ?d2 (elementBuffer vao) = Some (U32Data es)" using es d by simp
  show ?thesis
    unfolding run_append s run_copy_sorted_indices[OF v2 e2 ls es(2) l(4) d(3)]
    by simp
qed

lemma run_splat_draw:
  assumes "buffers dev (elementBuffer (splatVao r)) = Some (U32Data es)"
  shows "buffers (run oor srt (splat_draw lib r cameraMat viewport nearFar fovy) dev) = buffers dev
       \<and> draws (run oor srt (splat_draw lib r cameraMat viewport nearFar fovy) dev) = draws dev @ [es]
       \<and> errors (run oor srt (splat_draw lib r cameraMat viewport nearFar fovy) dev) = errors dev
       \<and> fault (run oor srt (splat_draw lib r cameraMat viewport nearFar fovy) dev) = fault dev
       \<and> next_buffer (run oor srt (splat_draw lib r cameraMat viewport nearFar fovy) dev) = next_buffer dev"
  using assms by (simp add: splat_draw_def exec_DrawElements_def Let_def)

lemma run_point_draw:
  assumes "buffers dev (elementBuffer (pointVao r)) = Some (U32Data es)"
  shows "buffers (run oor srt (point_draw lib r cameraMat viewport nearFar fovy) dev) = buffers dev
       \<and> draws (run oor srt (point_draw lib r cameraMat viewport nearFar fovy) dev) = draws dev @ [es]
       \<and> errors (run oor srt (point_draw lib r cameraMat viewport nearFar fovy) dev) = errors dev
       \<and> fault (run oor srt (point_draw lib r cameraMat viewport nearFar fovy) dev) = fault dev
       \<and> next_buffer (run oor srt (point_draw lib r cameraMat viewport nearFar fovy) dev) = next_buffer dev"
  using assms by (simp add: point_draw_def exec_DrawElements_def Let_def)

subsection \<open>The dispatch\<close>

lemma unat_dispatch_groups:
  "unat (dispatch_groups n) = ((n mod 4294967296 + 255) mod 4294967296) div 256"
  by (simp add: dispatch_groups_def LOCAL_SIZE_def unat_div unat_word_ariths unat_of_nat)

lemma dispatch_groups_ceil:
  assumes "n + 255 < 4294967296"
  shows "unat (dispatch_groups n) = (n + 255) div 256"
  using assms by (simp add: unat_dispatch_groups)

lemma dispatch_groups_cover:
  assumes "n + 255 < 4294967296"
  shows "n \<le> LOCAL_SIZE * unat (dispatch_groups n)"
  using assms by (simp add: dispatch_groups_ceil LOCAL_SIZE_def)

lemma presort_fold_pointwise:
  "length ks = length ps \<Longrightarrow> length vs = length ps \<Longrightarrow>
   length (fst (fold (presort_invocation oor fw ey ps) [0 ..< m] (ks, vs))) = length ps
   \<and> length (snd (fold (presort_invocation oor fw ey ps) [0 ..< m] (ks, vs))) = length ps
   \<and> (\<forall>j < length ps. fst (fold (presort_invocation oor fw ey ps) [0 ..< m] (ks, vs)) ! j =
         (if j < m then depth_key oor (dot3 (vec3_sub (vec3_of_vec4 (ps ! j)) ey) fw) else ks ! j))
   \<and> (\<forall>j < length ps. snd (fold (presort_invocation oor fw ey ps) [0 ..< m] (ks, vs)) ! j =
         (if j < m then word_of_nat j else vs ! j))"
proof (induction m)
  case 0
  then show ?case by simp
next
  case (Suc m)
  let ?kv = "fold (presort_invocation oor fw ey ps) [0 ..< m] (ks, vs)"
  have st: "fold (presort_invocation oor fw ey ps) [0 ..< Suc m] (ks, vs) =
            presort_invocation oor fw ey ps m ?kv" by simp
  from Suc have ih: "length (fst ?kv) = length ps" "length (snd ?kv) = length ps"
    "\<forall>j < length ps. fst ?kv ! j =
        (if j < m then depth_key oor (dot3 (vec3_sub (vec3_of_vec4 (ps ! j)) ey) fw) else ks ! j)"
    "\<forall>j < length ps. snd ?kv ! j = (if j < m then word_of_nat j else vs ! j)"
    by blast+
  show ?case unfolding st using ih
    by (auto simp: presort_invocation_def nth_list_update less_Suc_eq)
qed

lemma presort_fold_all:
  assumes "length ks = length ps" "length vs = length ps" "length ps \<le> m"
  shows "fold (presort_invocation oor (camera_forward cameraMat) (camera_eye cameraMat) ps)
              [0 ..< m] (ks, vs) =
           (map (\<lambda>p. spec_key oor cameraMat (vec3_of_vec4 p)) ps, identity_permutation (length ps))"
proof -
  let ?kv = "fold (presort_invocation oor (camera_forward cameraMat) (camera_eye cameraMat) ps)
                  [0 ..< m] (ks, vs)"
  from presort_fold_pointwise[OF assms(1,2), of oor "camera_forward cameraMat" "camera_eye cameraMat" m]
  have p: "length (fst ?kv) = length ps" "length (snd ?kv) = length ps"
    "\<forall>j < length ps. fst ?kv ! j =
        (if j < m then depth_key oor (dot3 (vec3_sub (vec3_of_vec4 (ps ! j)) (camera_eye cameraMat))
                                          (camera_forward cameraMat)) else ks ! j)"
    "\<forall>j < length ps. snd ?kv ! j = (if j < m then word_of_nat j else vs ! j)"
    by blast+
  have "fst ?kv = map (\<lambda>p. spec_key oor cameraMat (vec3_of_vec4 p)) ps"
    using p(1,3) assms(3)
    by (intro nth_equalityI) (auto simp: depth_key_spec_key[symmetric] camera_depth_def)
  moreover have "snd ?kv = identity_permutation (length ps)"
    using p(2,4) assms(3) unfolding identity_permutation_def by (intro nth_equalityI) auto
  ultimately show ?thesis by (simp add: prod_eq_iff)
qed

lemma run_depth_compute:
  assumes "buffers dev (posBuffer r) = Some (Vec4Data ps)"
      and "buffers dev (keyBuffer r) = Some (U32Data ks)"
      and "buffers dev (valBuffer r) = Some (U32Data vs)"
      and "length ks = length ps" "length vs = length ps" "keyBuffer r \<noteq> valBuffer r"
      and "length ps \<le> LOCAL_SIZE * unat (dispatch_groups n)"
  shows "buffers (run oor srt (depth_compute r cameraMat n) dev) =
           (buffers dev)(keyBuffer r \<mapsto> U32Data (map (\<lambda>p. spec_key oor cameraMat (vec3_of_vec4 p)) ps),
                         valBuffer r \<mapsto> U32Data (identity_permutation (length ps)))
       \<and> draws (run oor srt (depth_compute r cameraMat n) dev) = draws dev
       \<and> errors (run oor srt (depth_compute r cameraMat n) dev) = errors dev
       \<and> fault (run oor srt (depth_compute r cameraMat n) dev) = fault dev
       \<and> next_buffer (run oor srt (depth_compute r cameraMat n) dev) = next_buffer dev"
  using assms
  by (simp add: depth_compute_def exec_glDispatchCompute_def Let_def presort_fold_all)


section \<open>Frames\<close>

lemma splat_keys_spec: "splat_keys oor cameraMat r = map (spec_key oor cameraMat) (positionVec r)"
  by (simp add: splat_keys_def depth_key_spec_key)

lemma point_keys_spec:
  "point_keys oor cameraMat r = map (\<lambda>p. spec_key oor cameraMat (vec3_of_vec4 p)) (posVec r)"
  by (simp add: point_keys_def depth_key_spec_key)

lemma length_splat_keys [simp]: "length (splat_keys oor cameraMat r) = length (positionVec r)"
  by (simp add: splat_keys_def)

lemma length_point_keys [simp]: "length (point_keys oor cameraMat r) = length (posVec r)"
  by (simp add: point_keys_def)

lemma length_draw_order:
  "sorter_contract srt \<Longrightarrow> length (draw_order srt keys) = length keys"
  by (simp add: draw_order_def sorter_contract_length)

lemma length_sorted_keys:
  "sorter_contract srt \<Longrightarrow> length (sorted_keys srt keys) = length keys"
  by (simp add: sorted_keys_def sorter_contract_length)

lemma mset_draw_order:
  "sorter_contract srt \<Longrightarrow> mset (draw_order srt keys) = mset (identity_permutation (length keys))"
  unfolding draw_order_def
  using sorter_contract_values[of srt keys "identity_permutation (length keys)"] by simp

lemma distinct_draw_order:
  assumes "sorter_contract srt" "length keys \<le> 4294967296"
  shows "distinct (draw_order srt keys)"
  using mset_draw_order[OF assms(1), of keys] distinct_identity_permutation[OF assms(2)]
  by (metis mset_eq_imp_distinct_iff)

text \<open>What a frame of the splat renderer does, once the renderer is initialised.\<close>

lemma splat_frame_effect:
  assumes ready: "splat_ready r dev" and c: "sorter_contract srt"
  shows "\<exists>dev'. splat_frame lib oor srt (cameraMat, viewport, nearFar, fovy) (r, dev) =
            Some (r\<lparr>depthVec := splat_keys oor cameraMat r,
                    indexVec := identity_permutation (length (positionVec r))\<rparr>, dev')
         \<and> buffers dev' = (buffers dev)
              (keyBuffer r \<mapsto> U32Data (sorted_keys srt (splat_keys oor cameraMat r)),
               valBuffer r \<mapsto> U32Data (draw_order srt (splat_keys oor cameraMat r)),
               elementBuffer (splatVao r) \<mapsto> U32Data (draw_order srt (splat_keys oor cameraMat r)))
         \<and> draws dev' = draws dev @ [draw_order srt (splat_keys oor cameraMat r)]
         \<and> errors dev' = errors dev \<and> fault dev' = fault dev
         \<and> next_buffer dev' = next_buffer dev"
proof -
  let ?n = "length (positionVec r)"
  let ?keys = "splat_keys oor cameraMat r"
  let ?r' = "r\<lparr>depthVec := ?keys, indexVec := identity_permutation ?n\<rparr>"
  from ready have fr: "frame_ready r (splatVao r) ?n dev"
    and lv: "length (depthVec r) = ?n" "length (indexVec r) = ?n"
    by (simp_all add: splat_ready_def)
  from fr have n: "?n \<le> 4294967295" "?n \<le> sorter r"
    and d: "keyBuffer r \<noteq> valBuffer r" "keyBuffer r \<noteq> elementBuffer (splatVao r)"
           "valBuffer r \<noteq> elementBuffer (splatVao r)"
    and h: "holds_words dev (keyBuffer r) ?n" "holds_words dev (valBuffer r) ?n"
           "holds_words dev (elementBuffer (splatVao r)) ?n"
    by (simp_all add: frame_ready_def)
  let ?d1 = "dev\<lparr>buffers := (buffers dev)(keyBuffer r \<mapsto> U32Data ?keys,
                                           valBuffer r \<mapsto> U32Data (identity_permutation ?n))\<rparr>"
  have u: "run oor srt (update_buffers ?r') dev = ?d1"
    using run_update_buffers[of dev ?r' oor srt] h by simp
  have k1: "buffers ?d1 (keyBuffer ?r') = Some (U32Data ?keys)"
    and v1: "buffers ?d1 (valBuffer ?r') = Some (U32Data (identity_permutation ?n))"
    using d by simp_all
  have e1: "holds_words ?d1 (elementBuffer (splatVao ?r')) ?n"
    using h(3) d by (simp add: holds_words_def)
  let ?d3 = "run oor srt (sort_block ?r' ?n @ copy_sorted_indices ?r' (splatVao ?r') ?n) ?d1"
  have sc: "?d3 = ?d1\<lparr>bound := (bound ?d1)(GL_COPY_READ_BUFFER \<mapsto> valBuffer ?r',
                                    GL_COPY_WRITE_BUFFER \<mapsto> elementBuffer (splatVao ?r')),
               buffers := (buffers ?d1)
                 (keyBuffer ?r' \<mapsto> U32Data (map fst (srt (zip ?keys (identity_permutation ?n)))),
                  valBuffer ?r' \<mapsto> U32Data (map snd (srt (zip ?keys (identity_permutation ?n)))),
                  elementBuffer (splatVao ?r')
                    \<mapsto> U32Data (map snd (srt (zip ?keys (identity_permutation ?n)))))\<rparr>"
    using run_sort_copy[OF c k1 v1 e1, of oor] n d by simp
  have e3: "buffers ?d3 (elementBuffer (splatVao ?r')) = Some (U32Data (draw_order srt ?keys))"
    unfolding sc by (simp add: draw_order_def)
  from run_splat_draw[OF e3, of oor srt lib cameraMat viewport nearFar fovy]
  have dr: "buffers (run oor srt (splat_draw lib ?r' cameraMat viewport nearFar fovy) ?d3) = buffers ?d3"
    "draws (run oor srt (splat_draw lib ?r' cameraMat viewport nearFar fovy) ?d3)
       = draws ?d3 @ [draw_order srt ?keys]"
    "errors (run oor srt (splat_draw lib ?r' cameraMat viewport nearFar fovy) ?d3) = errors ?d3"
    "fault (run oor srt (splat_draw lib ?r' cameraMat viewport nearFar fovy) ?d3) = fault ?d3"
    "next_buffer (run oor srt (splat_draw lib ?r' cameraMat viewport nearFar fovy) ?d3)
       = next_buffer ?d3"
    by blast+
  have fr_eq: "splat_frame lib oor srt (cameraMat, viewport, nearFar, fovy) (r, dev) =
      Some (?r', run oor srt (splat_draw lib ?r' cameraMat viewport nearFar fovy) ?d3)"
    by (simp add: splat_frame_def SplatRenderer_Render_ready[OF lv, folded splat_keys_spec]
          Let_def run_append u)
  have b3: "buffers ?d3 = (buffers dev)
              (keyBuffer r \<mapsto> U32Data (sorted_keys srt ?keys),
               valBuffer r \<mapsto> U32Data (draw_order srt ?keys),
               elementBuffer (splatVao r) \<mapsto> U32Data (draw_order srt ?keys))"
    unfolding sc using d by (simp add: draw_order_def sorted_keys_def fun_upd_twist)
  have o3: "draws ?d3 = draws dev" "errors ?d3 = errors dev" "fault ?d3 = fault dev"
    "next_buffer ?d3 = next_buffer dev"
    unfolding sc by simp_all
  show ?thesis
    unfolding fr_eq using dr b3 o3 by simp
qed


text \<open>What a frame of the point renderer does, once the renderer is initialised.\<close>

lemma point_frame_effect:
  assumes ready: "point_ready r dev" and c: "sorter_contract srt"
  shows "buffers (point_frame lib oor srt r (cameraMat, viewport, nearFar, fovy) dev) = (buffers dev)
              (keyBuffer r \<mapsto> U32Data (sorted_keys srt (point_keys oor cameraMat r)),
               valBuffer r \<mapsto> U32Data (draw_order srt (point_keys oor cameraMat r)),
               elementBuffer (pointVao r) \<mapsto> U32Data (draw_order srt (point_keys oor cameraMat r)))
         \<and> draws (point_frame lib oor srt r (cameraMat, viewport, nearFar, fovy) dev)
             = draws dev @ [draw_order srt (point_keys oor cameraMat r)]
         \<and> errors (point_frame lib oor srt r (cameraMat, viewport, nearFar, fovy) dev) = errors dev
         \<and> fault (point_frame lib oor srt r (cameraMat, viewport, nearFar, fovy) dev) = fault dev
         \<and> next_buffer (point_frame lib oor srt r (cameraMat, viewport, nearFar, fovy) dev)
             = next_buffer dev"
proof -
  let ?n = "length (posVec r)"
  let ?keys = "point_keys oor cameraMat r"
  from ready have fr: "frame_ready r (pointVao r) ?n dev"
    and pb: "buffers dev (posBuffer r) = Some (Vec4Data (posVec r))"
    and nb: "?n + 255 < 4294967296"
    by (simp_all add: point_ready_def)
  from fr have n: "?n \<le> 4294967295" "?n \<le> sorter r"
    and d: "keyBuffer r \<noteq> valBuffer r" "keyBuffer r \<noteq> elementBuffer (pointVao r)"
           "valBuffer r \<noteq> elementBuffer (pointVao r)"
    and h: "holds_words dev (keyBuffer r) ?n" "holds_words dev (valBuffer r) ?n"
           "holds_words dev (elementBuffer (pointVao r)) ?n"
    by (simp_all add: frame_ready_def)
  from holds_wordsD[OF h(1)] obtain ks where
    ks: "buffers dev (keyBuffer r) = Some (U32Data ks)" "length ks = ?n" by blast
  from holds_wordsD[OF h(2)] obtain vs where
    vs: "buffers dev (valBuffer r) = Some (U32Data vs)" "length vs = ?n" by blast
  let ?d1 = "run oor srt (depth_compute r cameraMat ?n) dev"
  from run_depth_compute[OF pb ks(1) vs(1) ks(2) vs(2) d(1) dispatch_groups_cover[OF nb],
      of oor srt cameraMat]
  have c1: "buffers ?d1 = (buffers dev)(keyBuffer r \<mapsto> U32Data ?keys,
                             valBuffer r \<mapsto> U32Data (identity_permutation ?n))"
    "draws ?d1 = draws dev" "errors ?d1 = errors dev" "fault ?d1 = fault dev"
    "next_buffer ?d1 = next_buffer dev"
    by (simp_all add: point_keys_spec)
  have k1: "buffers ?d1 (keyBuffer r) = Some (U32Data ?keys)"
    and v1: "buffers ?d1 (valBuffer r) = Some (U32Data (identity_permutation ?n))"
    unfolding c1 using d by simp_all
  have e1: "holds_words ?d1 (elementBuffer (pointVao r)) ?n"
    using h(3) d unfolding holds_words_def c1 by simp
  let ?d3 = "run oor srt (sort_block r ?n @ copy_sorted_indices r (pointVao r) ?n) ?d1"
  have sc: "?d3 = ?d1\<lparr>bound := (bound ?d1)(GL_COPY_READ_BUFFER \<mapsto> valBuffer r,
                                    GL_COPY_WRITE_BUFFER \<mapsto> elementBuffer (pointVao r)),
               buffers := (buffers ?d1)
                 (keyBuffer r \<mapsto> U32Data (map fst (srt (zip ?keys (identity_permutation ?n)))),
                  valBuffer r \<mapsto> U32Data (map snd (srt (zip ?keys (identity_permutation ?n)))),
                  elementBuffer (pointVao r)
                    \<mapsto> U32Data (map snd (srt (zip ?keys (identity_permutation ?n)))))\<rparr>"
    using run_sort_copy[OF c k1 v1 e1, of oor] n d by simp
  have e3: "buffers ?d3 (elementBuffer (pointVao r)) = Some (U32Data (draw_order srt ?keys))"
    unfolding sc by (simp add: draw_order_def)
  from run_point_draw[OF e3, of oor srt lib cameraMat viewport nearFar fovy]
  have dr: "buffers (run oor srt (point_draw lib r cameraMat viewport nearFar fovy) ?d3) = buffers ?d3"
    "draws (run oor srt (point_draw lib r cameraMat viewport nearFar fovy) ?d3)
       = draws ?d3 @ [draw_order srt ?keys]"
    "errors (run oor srt (point_draw lib r cameraMat viewport nearFar fovy) ?d3) = errors ?d3"
    "fault (run oor srt (point_draw lib r cameraMat viewport nearFar fovy) ?d3) = fault ?d3"
    "next_buffer (run oor srt (point_draw lib r cameraMat viewport nearFar fovy) ?d3)
       = next_buffer ?d3"
    by blast+
  have fr_eq: "point_frame lib oor srt r (cameraMat, viewport, nearFar, fovy) dev =
      run oor srt (point_draw lib r cameraMat viewport nearFar fovy) ?d3"
    by (simp add: point_frame_def PointRenderer_Render_def Let_def run_append)
  have b3: "buffers ?d3 = (buffers dev)
              (keyBuffer r \<mapsto> U32Data (sorted_keys srt ?keys),
               valBuffer r \<mapsto> U32Data (draw_order srt ?keys),
               elementBuffer (pointVao r) \<mapsto> U32Data (draw_order srt ?keys))"
    unfolding sc using d by (simp add: c1 draw_order_def sorted_keys_def fun_upd_twist)
  have o3: "draws ?d3 = draws dev" "errors ?d3 = errors dev" "fault ?d3 = fault dev"
    "next_buffer ?d3 = next_buffer dev"
    unfolding sc by (simp_all add: c1)
  show ?thesis
    unfolding fr_eq using dr b3 o3 by simp
qed

text \<open>A frame leaves the renderer ready for the next one.\<close>

lemma holds_words_upd:
  "holds_words (dev\<lparr>buffers := b\<rparr>) obj n
     = (case b obj of Some (U32Data xs) \<Rightarrow> length xs = n | _ \<Rightarrow> False)"
  by (simp add: holds_words_def)

lemma frame_ready_buffers:
  assumes "frame_ready r vao n dev"
      and "buffers dev' = (buffers dev)(keyBuffer r \<mapsto> U32Data a, valBuffer r \<mapsto> U32Data b,
                                        elementBuffer vao \<mapsto> U32Data c)"
      and "length a = n" "length b = n" "length c = n"
  shows "frame_ready r vao n dev'"
  using assms by (simp add: frame_ready_def holds_words_def)

lemma splat_frame_ready:
  assumes "splat_ready r dev" "sorter_contract srt"
  shows "\<exists>r' dev'. splat_frame lib oor srt fp (r, dev) = Some (r', dev') \<and> splat_ready r' dev'
           \<and> positionVec r' = positionVec r \<and> keyBuffer r' = keyBuffer r
           \<and> valBuffer r' = valBuffer r \<and> splatVao r' = splatVao r \<and> sorter r' = sorter r
           \<and> errors dev' = errors dev \<and> fault dev' = fault dev
           \<and> length (draws dev') = Suc (length (draws dev))"
proof -
  obtain cameraMat viewport nearFar fovy where fp: "fp = (cameraMat, viewport, nearFar, fovy)"
    by (cases fp) auto
  let ?keys = "splat_keys oor cameraMat r"
  let ?r' = "r\<lparr>depthVec := ?keys, indexVec := identity_permutation (length (positionVec r))\<rparr>"
  from splat_frame_effect[OF assms, of lib oor cameraMat viewport nearFar fovy]
  obtain dev' where
    e: "splat_frame lib oor srt (cameraMat, viewport, nearFar, fovy) (r, dev) = Some (?r', dev')"
       "buffers dev' = (buffers dev)
              (keyBuffer r \<mapsto> U32Data (sorted_keys srt ?keys),
               valBuffer r \<mapsto> U32Data (draw_order srt ?keys),
               elementBuffer (splatVao r) \<mapsto> U32Data (draw_order srt ?keys))"
       "draws dev' = draws dev @ [draw_order srt ?keys]"
       "errors dev' = errors dev" "fault dev' = fault dev"
    by blast
  from assms(1) have fr: "frame_ready r (splatVao r) (length (positionVec r)) dev"
    by (simp add: splat_ready_def)
  have "frame_ready r (splatVao r) (length (positionVec r)) dev'"
    by (rule frame_ready_buffers[OF fr e(2)])
       (simp_all add: length_sorted_keys[OF assms(2)] length_draw_order[OF assms(2)])
  then have "frame_ready ?r' (splatVao ?r') (length (positionVec ?r')) dev'"
    by (simp add: frame_ready_def)
  then have "splat_ready ?r' dev'" by (simp add: splat_ready_def)
  then show ?thesis using e unfolding fp by auto
qed

lemma point_frame_ready:
  assumes "point_ready r dev" "sorter_contract srt"
  shows "point_ready r (point_frame lib oor srt r fp dev)
       \<and> errors (point_frame lib oor srt r fp dev) = errors dev
       \<and> fault (point_frame lib oor srt r fp dev) = fault dev
       \<and> length (draws (point_frame lib oor srt r fp dev)) = Suc (length (draws dev))"
proof -
  obtain cameraMat viewport nearFar fovy where fp: "fp = (cameraMat, viewport, nearFar, fovy)"
    by (cases fp) auto
  let ?keys = "point_keys oor cameraMat r"
  let ?dev' = "point_frame lib oor srt r (cameraMat, viewport, nearFar, fovy) dev"
  from point_frame_effect[OF assms, of lib oor cameraMat viewport nearFar fovy]
  have e: "buffers ?dev' = (buffers dev)
              (keyBuffer r \<mapsto> U32Data (sorted_keys srt ?keys),
               valBuffer r \<mapsto> U32Data (draw_order srt ?keys),
               elementBuffer (pointVao r) \<mapsto> U32Data (draw_order srt ?keys))"
       "draws ?dev' = draws dev @ [draw_order srt ?keys]"
       "errors ?dev' = errors dev" "fault ?dev' = fault dev"
    by blast+
  from assms(1) have fr: "frame_ready r (pointVao r) (length (posVec r)) dev"
    and pb: "buffers dev (posBuffer r) = Some (Vec4Data (posVec r))"
    and nb: "length (posVec r) + 255 < 4294967296"
    by (simp_all add: point_ready_def)
  have fr': "frame_ready r (pointVao r) (length (posVec r)) ?dev'"
    by (rule frame_ready_buffers[OF fr e(1)])
       (simp_all add: length_sorted_keys[OF assms(2)] length_draw_order[OF assms(2)])
  from fr have hw: "holds_words dev (keyBuffer r) (length (posVec r))"
    "holds_words dev (valBuffer r) (length (posVec r))"
    "holds_words dev (elementBuffer (pointVao r)) (length (posVec r))"
    by (simp_all add: frame_ready_def)
  have ne: "posBuffer r \<noteq> keyBuffer r" "posBuffer r \<noteq> valBuffer r"
    "posBuffer r \<noteq> elementBuffer (pointVao r)"
    using hw pb by (auto simp: holds_words_def)
  have "buffers ?dev' (posBuffer r) = Some (Vec4Data (posVec r))"
    unfolding e(1) using ne pb by simp
  with fr' nb have "point_ready r ?dev'" by (simp add: point_ready_def)
  then show ?thesis using e unfolding fp by simp
qed


subsection \<open>The device between the blocks of a frame\<close>

lemma u32_buffer_eq: "buffers dev obj = Some (U32Data xs) \<Longrightarrow> u32_buffer dev obj = Some xs"
  by (simp add: u32_buffer_def)

lemma copy_sorted_indices_bytes:
  "n \<le> 4294967295 \<Longrightarrow>
   copy_sorted_indices r vao n =
     [glBindBuffer GL_COPY_READ_BUFFER (valBuffer r),
      glBindBuffer GL_COPY_WRITE_BUFFER (elementBuffer vao),
      glCopyBufferSubData GL_COPY_READ_BUFFER GL_COPY_WRITE_BUFFER 0 0 (4 * n)]"
  by (simp add: copy_sorted_indices_def mult.commute)

lemma splat_frame_steps:
  assumes ready: "splat_ready r dev" and c: "sorter_contract srt"
  shows "buffers (run oor srt (update_buffers (r\<lparr>depthVec := splat_keys oor cameraMat r,
                      indexVec := identity_permutation (length (positionVec r))\<rparr>)) dev)
           = (buffers dev)(keyBuffer r \<mapsto> U32Data (splat_keys oor cameraMat r),
                           valBuffer r \<mapsto> U32Data (identity_permutation (length (positionVec r))))"
    and "buffers (run oor srt (update_buffers (r\<lparr>depthVec := splat_keys oor cameraMat r,
                      indexVec := identity_permutation (length (positionVec r))\<rparr>)
                    @ sort_block (r\<lparr>depthVec := splat_keys oor cameraMat r,
                      indexVec := identity_permutation (length (positionVec r))\<rparr>)
                        (length (positionVec r))) dev)
           = (buffers dev)(keyBuffer r \<mapsto> U32Data (sorted_keys srt (splat_keys oor cameraMat r)),
                           valBuffer r \<mapsto> U32Data (draw_order srt (splat_keys oor cameraMat r)))"
    and "buffers (run oor srt (update_buffers (r\<lparr>depthVec := splat_keys oor cameraMat r,
                      indexVec := identity_permutation (length (positionVec r))\<rparr>)
                    @ sort_block (r\<lparr>depthVec := splat_keys oor cameraMat r,
                      indexVec := identity_permutation (length (positionVec r))\<rparr>)
                        (length (positionVec r))
                    @ copy_sorted_indices (r\<lparr>depthVec := splat_keys oor cameraMat r,
                      indexVec := identity_permutation (length (positionVec r))\<rparr>)
                        (splatVao r) (length (positionVec r))) dev)
           = (buffers dev)(keyBuffer r \<mapsto> U32Data (sorted_keys srt (splat_keys oor cameraMat r)),
                           valBuffer r \<mapsto> U32Data (draw_order srt (splat_keys oor cameraMat r)),
                           elementBuffer (splatVao r)
                             \<mapsto> U32Data (draw_order srt (splat_keys oor cameraMat r)))"
proof -
  let ?n = "length (positionVec r)"
  let ?keys = "splat_keys oor cameraMat r"
  let ?r' = "r\<lparr>depthVec := ?keys, indexVec := identity_permutation ?n\<rparr>"
  from ready have fr: "frame_ready r (splatVao r) ?n dev" by (simp add: splat_ready_def)
  from fr have n: "?n \<le> 4294967295" "?n \<le> sorter r"
    and d: "keyBuffer r \<noteq> valBuffer r" "keyBuffer r \<noteq> elementBuffer (splatVao r)"
           "valBuffer r \<noteq> elementBuffer (splatVao r)"
    and h: "holds_words dev (keyBuffer r) ?n" "holds_words dev (valBuffer r) ?n"
           "holds_words dev (elementBuffer (splatVao r)) ?n"
    by (simp_all add: frame_ready_def)
  let ?d1 = "dev\<lparr>buffers := (buffers dev)(keyBuffer r \<mapsto> U32Data ?keys,
                                           valBuffer r \<mapsto> U32Data (identity_permutation ?n))\<rparr>"
  have u: "run oor srt (update_buffers ?r') dev = ?d1"
    using run_update_buffers[of dev ?r' oor srt] h by simp
  show "buffers (run oor srt (update_buffers ?r') dev)
           = (buffers dev)(keyBuffer r \<mapsto> U32Data ?keys,
                           valBuffer r \<mapsto> U32Data (identity_permutation ?n))"
    unfolding u by simp
  have k1: "buffers ?d1 (keyBuffer ?r') = Some (U32Data ?keys)"
    and v1: "buffers ?d1 (valBuffer ?r') = Some (U32Data (identity_permutation ?n))"
    using d by simp_all
  have e1: "holds_words ?d1 (elementBuffer (splatVao ?r')) ?n"
    using h(3) d by (simp add: holds_words_def)
  have s: "run oor srt (sort_block ?r' ?n) ?d1 =
      ?d1\<lparr>buffers := (buffers ?d1)
         (keyBuffer ?r' \<mapsto> U32Data (map fst (srt (zip ?keys (identity_permutation ?n)))),
          valBuffer ?r' \<mapsto> U32Data (map snd (srt (zip ?keys (identity_permutation ?n)))))\<rparr>"
    using run_sort_block[OF k1 v1, of ?n oor srt] n d by simp
  show "buffers (run oor srt (update_buffers ?r' @ sort_block ?r' ?n) dev)
           = (buffers dev)(keyBuffer r \<mapsto> U32Data (sorted_keys srt ?keys),
                           valBuffer r \<mapsto> U32Data (draw_order srt ?keys))"
    unfolding run_append u s using d by (simp add: sorted_keys_def draw_order_def)
  have sc: "run oor srt (sort_block ?r' ?n @ copy_sorted_indices ?r' (splatVao ?r') ?n) ?d1 =
      ?d1\<lparr>bound := (bound ?d1)(GL_COPY_READ_BUFFER \<mapsto> valBuffer ?r',
                                    GL_COPY_WRITE_BUFFER \<mapsto> elementBuffer (splatVao ?r')),
               buffers := (buffers ?d1)
                 (keyBuffer ?r' \<mapsto> U32Data (map fst (srt (zip ?keys (identity_permutation ?n)))),
                  valBuffer ?r' \<mapsto> U32Data (map snd (srt (zip ?keys (identity_permutation ?n)))),
                  elementBuffer (splatVao ?r')
                    \<mapsto> U32Data (map snd (srt (zip ?keys (identity_permutation ?n)))))\<rparr>"
    using run_sort_copy[OF c k1 v1 e1, of oor] n d by simp
  have "run oor srt (update_buffers ?r' @ sort_block ?r' ?n
                      @ copy_sorted_indices ?r' (splatVao r) ?n) dev
        = run oor srt (sort_block ?r' ?n @ copy_sorted_indices ?r' (splatVao ?r') ?n) ?d1"
    by (simp add: run_append u)
  then show "buffers (run oor srt (update_buffers ?r' @ sort_block ?r' ?n
                      @ copy_sorted_indices ?r' (splatVao r) ?n) dev)
           = (buffers dev)(keyBuffer r \<mapsto> U32Data (sorted_keys srt ?keys),
                           valBuffer r \<mapsto> U32Data (draw_order srt ?keys),
                           elementBuffer (splatVao r) \<mapsto> U32Data (draw_order srt ?keys))"
    unfolding sc using d by (simp add: sorted_keys_def draw_order_def fun_upd_twist)
qed

lemma point_frame_steps:
  assumes ready: "point_ready r dev" and c: "sorter_contract srt"
  shows "buffers (run oor srt (depth_compute r cameraMat (length (posVec r))) dev)
           = (buffers dev)(keyBuffer r \<mapsto> U32Data (point_keys oor cameraMat r),
                           valBuffer r \<mapsto> U32Data (identity_permutation (length (posVec r))))"
    and "buffers (run oor srt (depth_compute r cameraMat (length (posVec r))
                    @ sort_block r (length (posVec r))) dev)
           = (buffers dev)(keyBuffer r \<mapsto> U32Data (sorted_keys srt (point_keys oor cameraMat r)),
                           valBuffer r \<mapsto> U32Data (draw_order srt (point_keys oor cameraMat r)))"
    and "buffers (run oor srt (depth_compute r cameraMat (length (posVec r))
                    @ sort_block r (length (posVec r))
                    @ copy_sorted_indices r (pointVao r) (length (posVec r))) dev)
           = (buffers dev)(keyBuffer r \<mapsto> U32Data (sorted_keys srt (point_keys oor cameraMat r)),
                           valBuffer r \<mapsto> U32Data (draw_order srt (point_keys oor cameraMat r)),
                           elementBuffer (pointVao r)
                             \<mapsto> U32Data (draw_order srt (point_keys oor cameraMat r)))"
proof -
  let ?n = "length (posVec r)"
  let ?keys = "point_keys oor cameraMat r"
  from ready have fr: "frame_ready r (pointVao r) ?n dev"
    and pb: "buffers dev (posBuffer r) = Some (Vec4Data (posVec r))"
    and nb: "?n + 255 < 4294967296"
    by (simp_all add: point_ready_def)
  from fr have n: "?n \<le> 4294967295" "?n \<le> sorter r"
    and d: "keyBuffer r \<noteq> valBuffer r" "keyBuffer r \<noteq> elementBuffer (pointVao r)"
           "valBuffer r \<noteq> elementBuffer (pointVao r)"
    and h: "holds_words dev (keyBuffer r) ?n" "holds_words dev (valBuffer r) ?n"
           "holds_words dev (elementBuffer (pointVao r)) ?n"
    by (simp_all add: frame_ready_def)
  from holds_wordsD[OF h(1)] obtain ks where
    ks: "buffers dev (keyBuffer r) = Some (U32Data ks)" "length ks = ?n" by blast
  from holds_wordsD[OF h(2)] obtain vs where
    vs: "buffers dev (valBuffer r) = Some (U32Data vs)" "length vs = ?n" by blast
  let ?d1 = "run oor srt (depth_compute r cameraMat ?n) dev"
  from run_depth_compute[OF pb ks(1) vs(1) ks(2) vs(2) d(1) dispatch_groups_cover[OF nb],
      of oor srt cameraMat]
  show c1: "buffers ?d1 = (buffers dev)(keyBuffer r \<mapsto> U32Data ?keys,
                             valBuffer r \<mapsto> U32Data (identity_permutation ?n))"
    by (simp add: point_keys_spec)
  have k1: "buffers ?d1 (keyBuffer r) = Some (U32Data ?keys)"
    and v1: "buffers ?d1 (valBuffer r) = Some (U32Data (identity_permutation ?n))"
    unfolding c1 using d by simp_all
  have e1: "holds_words ?d1 (elementBuffer (pointVao r)) ?n"
    using h(3) d unfolding holds_words_def c1 by simp
  have s: "run oor srt (sort_block r ?n) ?d1 =
      ?d1\<lparr>buffers := (buffers ?d1)
         (keyBuffer r \<mapsto> U32Data (map fst (srt (zip ?keys (identity_permutation ?n)))),
          valBuffer r \<mapsto> U32Data (map snd (srt (zip ?keys (identity_permutation ?n)))))\<rparr>"
    using run_sort_block[OF k1 v1, of ?n oor srt] n d by simp
  show "buffers (run oor srt (depth_compute r cameraMat ?n @ sort_block r ?n) dev)
           = (buffers dev)(keyBuffer r \<mapsto> U32Data (sorted_keys srt ?keys),
                           valBuffer r \<mapsto> U32Data (draw_order srt ?keys))"
    unfolding run_append s using d by (simp add: c1 sorted_keys_def draw_order_def)
  have sc: "run oor srt (sort_block r ?n @ copy_sorted_indices r (pointVao r) ?n) ?d1 =
      ?d1\<lparr>bound := (bound ?d1)(GL_COPY_READ_BUFFER \<mapsto> valBuffer r,
                                    GL_COPY_WRITE_BUFFER \<mapsto> elementBuffer (pointVao r)),
               buffers := (buffers ?d1)
                 (keyBuffer r \<mapsto> U32Data (map fst (srt (zip ?keys (identity_permutation ?n)))),
                  valBuffer r \<mapsto> U32Data (map snd (srt (zip ?keys (identity_permutation ?n)))),
                  elementBuffer (pointVao r)
                    \<mapsto> U32Data (map snd (srt (zip ?keys (identity_permutation ?n)))))\<rparr>"
    using run_sort_copy[OF c k1 v1 e1, of oor] n d by simp
  have "run oor srt (depth_compute r cameraMat ?n @ sort_block r ?n
                      @ copy_sorted_indices r (pointVao r) ?n) dev
        = run oor srt (sort_block r ?n @ copy_sorted_indices r (pointVao r) ?n) ?d1"
    by (simp add: run_append)
  then show "buffers (run oor srt (depth_compute r cameraMat ?n @ sort_block r ?n
                      @ copy_sorted_indices r (pointVao r) ?n) dev)
           = (buffers dev)(keyBuffer r \<mapsto> U32Data (sorted_keys srt ?keys),
                           valBuffer r \<mapsto> U32Data (draw_order srt ?keys),
                           elementBuffer (pointVao r) \<mapsto> U32Data (draw_order srt ?keys))"
    unfolding sc using d by (simp add: c1 sorted_keys_def draw_order_def fun_upd_twist)
qed

lemma unat_identity_permutation:
  "i < n \<Longrightarrow> n \<le> 4294967295 \<Longrightarrow> unat (identity_permutation n ! i) = i"
  by (simp add: identity_permutation_def unat_word_of_nat_u32)


section \<open>The permutation\<close>

text \<open>
  The permutation below the wrap-around of the group count. A frame of the splat renderer
  starts with the upload of the identity permutation to the value buffer (\<open>value[i] = i\<close>
  for every \<open>i < N\<close>), so the sort that follows finds it there; after the sort the value
  buffer holds \<open>N\<close> distinct indices that are, as a multiset, the indices \<open>0..N-1\<close>. The
  frame leaves the renderer ready for the next frame, so this holds in every frame. The same
  holds for the point renderer while \<open>N + 255 < 2^32\<close>, which is part of \<open>point_ready\<close>:
  there the dispatch writes the identity. The element array that \<open>BuildVertexArrayObject\<close>
  builds is the identity permutation as well. \<open>N\<close> is at most \<open>UINT32_MAX\<close>, as the
  assertion of \<open>BuildVertexArrayObject\<close> asks, and the sorter is any function that meets its
  contract.
\<close>

lemma value_buffer_permutation:
  assumes "splat_ready rs ds" and "point_ready rp dp" and "sorter_contract srt"
      and "numPoints \<le> 4294967295"
  shows "(\<exists>r' rest.
            SplatRenderer_Render lib oor rs cameraMat viewport nearFar fovy =
              Some (r', update_buffers r' @ sort_block r' (length (positionVec rs)) @ rest)
          \<and> u32_buffer (run oor srt (update_buffers r') ds) (valBuffer rs)
              = Some (identity_permutation (length (positionVec rs)))
          \<and> (\<exists>vs. u32_buffer (run oor srt (update_buffers r'
                                    @ sort_block r' (length (positionVec rs))) ds) (valBuffer rs)
                      = Some vs
                  \<and> length vs = length (positionVec rs)
                  \<and> mset vs = mset (identity_permutation (length (positionVec rs)))
                  \<and> distinct vs)
          \<and> splat_ready r' (run oor srt (update_buffers r'
                                @ sort_block r' (length (positionVec rs)) @ rest) ds))
       \<and> (\<exists>rest.
            PointRenderer_Render lib rp cameraMat viewport nearFar fovy =
              depth_compute rp cameraMat (length (posVec rp))
              @ sort_block rp (length (posVec rp)) @ rest
          \<and> u32_buffer (run oor srt (depth_compute rp cameraMat (length (posVec rp))) dp)
                (valBuffer rp)
              = Some (identity_permutation (length (posVec rp)))
          \<and> (\<exists>vs. u32_buffer (run oor srt (depth_compute rp cameraMat (length (posVec rp))
                                    @ sort_block rp (length (posVec rp))) dp) (valBuffer rp)
                      = Some vs
                  \<and> length vs = length (posVec rp)
                  \<and> mset vs = mset (identity_permutation (length (posVec rp)))
                  \<and> distinct vs)
          \<and> point_ready rp (run oor srt (depth_compute rp cameraMat (length (posVec rp))
                                @ sort_block rp (length (posVec rp)) @ rest) dp))
       \<and> element_array numPoints = identity_permutation numPoints
       \<and> (\<forall>i < numPoints. unat (identity_permutation numPoints ! i) = i)"
proof -
  let ?ns = "length (positionVec rs)"
  let ?ks = "splat_keys oor cameraMat rs"
  let ?r' = "rs\<lparr>depthVec := ?ks, indexVec := identity_permutation ?ns\<rparr>"
  let ?rest = "copy_sorted_indices ?r' (splatVao ?r') ?ns
               @ splat_draw lib ?r' cameraMat viewport nearFar fovy"
  from assms(1) have lv: "length (depthVec rs) = ?ns" "length (indexVec rs) = ?ns"
    and ns: "?ns \<le> 4294967295"
    and ds: "keyBuffer rs \<noteq> valBuffer rs"
    by (simp_all add: splat_ready_def frame_ready_def)
  have r1: "SplatRenderer_Render lib oor rs cameraMat viewport nearFar fovy =
              Some (?r', update_buffers ?r' @ sort_block ?r' ?ns @ ?rest)"
    by (simp add: SplatRenderer_Render_ready[OF lv, folded splat_keys_spec] Let_def)
  have r2: "u32_buffer (run oor srt (update_buffers ?r') ds) (valBuffer rs)
              = Some (identity_permutation ?ns)"
    by (rule u32_buffer_eq) (simp add: splat_frame_steps(1)[OF assms(1,3)])
  have r3: "u32_buffer (run oor srt (update_buffers ?r' @ sort_block ?r' ?ns) ds) (valBuffer rs)
              = Some (draw_order srt ?ks)"
    by (rule u32_buffer_eq) (simp add: splat_frame_steps(2)[OF assms(1,3)])
  have r4: "length (draw_order srt ?ks) = ?ns"
    "mset (draw_order srt ?ks) = mset (identity_permutation ?ns)"
    "distinct (draw_order srt ?ks)"
    using length_draw_order[OF assms(3), of ?ks] mset_draw_order[OF assms(3), of ?ks]
      distinct_draw_order[OF assms(3), of ?ks] ns by simp_all
  from splat_frame_ready[OF assms(1,3), of lib oor "(cameraMat, viewport, nearFar, fovy)"]
  have r5: "splat_ready ?r' (run oor srt (update_buffers ?r' @ sort_block ?r' ?ns @ ?rest) ds)"
    by (auto simp: splat_frame_def r1)
  let ?np = "length (posVec rp)"
  let ?kp = "point_keys oor cameraMat rp"
  let ?prest = "copy_sorted_indices rp (pointVao rp) ?np
                @ point_draw lib rp cameraMat viewport nearFar fovy"
  from assms(2) have np: "?np \<le> 4294967295" and dp: "keyBuffer rp \<noteq> valBuffer rp"
    by (simp_all add: point_ready_def frame_ready_def)
  have p1: "PointRenderer_Render lib rp cameraMat viewport nearFar fovy =
              depth_compute rp cameraMat ?np @ sort_block rp ?np @ ?prest"
    by (simp add: PointRenderer_Render_def Let_def)
  have p2: "u32_buffer (run oor srt (depth_compute rp cameraMat ?np) dp) (valBuffer rp)
              = Some (identity_permutation ?np)"
    by (rule u32_buffer_eq) (simp add: point_frame_steps(1)[OF assms(2,3)])
  have p3: "u32_buffer (run oor srt (depth_compute rp cameraMat ?np @ sort_block rp ?np) dp)
               (valBuffer rp) = Some (draw_order srt ?kp)"
    by (rule u32_buffer_eq) (simp add: point_frame_steps(2)[OF assms(2,3)])
  have p4: "length (draw_order srt ?kp) = ?np"
    "mset (draw_order srt ?kp) = mset (identity_permutation ?np)"
    "distinct (draw_order srt ?kp)"
    using length_draw_order[OF assms(3), of ?kp] mset_draw_order[OF assms(3), of ?kp]
      distinct_draw_order[OF assms(3), of ?kp] np by simp_all
  from point_frame_ready[OF assms(2,3), of lib oor "(cameraMat, viewport, nearFar, fovy)"]
  have p5: "point_ready rp (run oor srt (depth_compute rp cameraMat ?np
                                @ sort_block rp ?np @ ?prest) dp)"
    by (simp add: point_frame_def p1)
  have e: "element_array numPoints = identity_permutation numPoints"
    by (rule element_array_identity[OF assms(4)])
  have i: "\<forall>i < numPoints. unat (identity_permutation numPoints ! i) = i"
    using assms(4) by (simp add: unat_identity_permutation)
  from r1 r2 r3 r4 r5 have A: "\<exists>r' rest.
            SplatRenderer_Render lib oor rs cameraMat viewport nearFar fovy =
              Some (r', update_buffers r' @ sort_block r' ?ns @ rest)
          \<and> u32_buffer (run oor srt (update_buffers r') ds) (valBuffer rs)
              = Some (identity_permutation ?ns)
          \<and> (\<exists>vs. u32_buffer (run oor srt (update_buffers r' @ sort_block r' ?ns) ds) (valBuffer rs)
                      = Some vs
                  \<and> length vs = ?ns \<and> mset vs = mset (identity_permutation ?ns) \<and> distinct vs)
          \<and> splat_ready r' (run oor srt (update_buffers r' @ sort_block r' ?ns @ rest) ds)"
    by blast
  from p1 p2 p3 p4 p5 have B: "\<exists>rest.
            PointRenderer_Render lib rp cameraMat viewport nearFar fovy =
              depth_compute rp cameraMat ?np @ sort_block rp ?np @ rest
          \<and> u32_buffer (run oor srt (depth_compute rp cameraMat ?np) dp) (valBuffer rp)
              = Some (identity_permutation ?np)
          \<and> (\<exists>vs. u32_buffer (run oor srt (depth_compute rp cameraMat ?np @ sort_block rp ?np) dp)
                      (valBuffer rp) = Some vs
                  \<and> length vs = ?np \<and> mset vs = mset (identity_permutation ?np) \<and> distinct vs)
          \<and> point_ready rp (run oor srt (depth_compute rp cameraMat ?np
                                @ sort_block rp ?np @ rest) dp)"
    by blast
  from A B e i show ?thesis by blast
qed


lemma identity_permutation_2: "identity_permutation 2 = [0, 1]"
  by (simp add: identity_permutation_def numeral_2_eq_2)

lemma two_splats_ready:
  "splat_ready (two_splats [p, q]) (two_splats_device [p, q])"
  by (simp add: splat_ready_def frame_ready_def holds_words_def fixture_defs)

lemma two_points_ready:
  "point_ready (two_points [p, q]) (two_points_device [p, q])"
  by (simp add: point_ready_def frame_ready_def holds_words_def two_points_def
        two_points_device_def empty_device_def)

lemma value_buffer_permutation_example:
  "(\<exists>r' rest.
       SplatRenderer_Render some_math wrap_conversion
           (two_splats [vec3_lit 0 0 (-2), vec3_lit 0 0 (-1)]) identity_camera
           (vec4_lit 0 0 640 480) \<lparr>x2 = Finite 1, y2 = Finite 100\<rparr> (Finite 1) =
         Some (r', update_buffers r' @ sort_block r' 2 @ rest)
     \<and> u32_buffer (run wrap_conversion insertion_sorter (update_buffers r')
                      (two_splats_device [vec3_lit 0 0 (-2), vec3_lit 0 0 (-1)])) 8 = Some [0, 1]
     \<and> (\<exists>vs. u32_buffer (run wrap_conversion insertion_sorter
                             (update_buffers r' @ sort_block r' 2)
                             (two_splats_device [vec3_lit 0 0 (-2), vec3_lit 0 0 (-1)])) 8 = Some vs
             \<and> length vs = 2 \<and> mset vs = mset [0, 1] \<and> distinct vs))
   \<and> (\<exists>vs. u32_buffer (run wrap_conversion insertion_sorter
                           (depth_compute (two_points [vec4_lit 0 0 (-2) 1, vec4_lit 0 0 (-1) 1])
                               identity_camera 2
                            @ sort_block (two_points [vec4_lit 0 0 (-2) 1, vec4_lit 0 0 (-1) 1]) 2)
                           (two_points_device [vec4_lit 0 0 (-2) 1, vec4_lit 0 0 (-1) 1])) 8 = Some vs
           \<and> length vs = 2 \<and> mset vs = mset [0, 1] \<and> distinct vs)
   \<and> element_array 2 = [0, 1]"
proof -
  let ?rs = "two_splats [vec3_lit 0 0 (-2), vec3_lit 0 0 (-1)]"
  let ?rp = "two_points [vec4_lit 0 0 (-2) 1, vec4_lit 0 0 (-1) 1]"
  have L: "length (positionVec ?rs) = 2" "valBuffer ?rs = 8"
          "length (posVec ?rp) = 2" "valBuffer ?rp = 8"
    by (simp_all add: fixture_defs)
  have n: "(2::nat) \<le> 4294967295" by simp
  from value_buffer_permutation[OF
      two_splats_ready[of "vec3_lit 0 0 (-2)" "vec3_lit 0 0 (-1)"]
      two_points_ready[of "vec4_lit 0 0 (-2) 1" "vec4_lit 0 0 (-1) 1"] insertion_sorter_contract n,
      where lib = some_math and oor = wrap_conversion and cameraMat = identity_camera
        and viewport = "vec4_lit 0 0 640 480" and nearFar = "\<lparr>x2 = Finite 1, y2 = Finite 100\<rparr>" and fovy = "Finite 1"]
  show ?thesis
    unfolding L identity_permutation_2 by blast
qed


section \<open>From the sorter to the draw\<close>

text \<open>
  C6. In a frame of either renderer the three calls that follow the sort bind the
  sorter's value buffer for reading and the element buffer of the vertex array for
  writing and copy \<open>4 * N\<close> bytes from offset 0 to offset 0 with \<open>glCopyBufferSubData\<close>, a
  copy inside the device: the frame has no call that reads a buffer back to the host. After
  it the element buffer holds what the sort left in the value buffer, and the draw that
  ends the frame uses that order.
\<close>

theorem index_copy_on_device:
  assumes "splat_ready rs ds" and "point_ready rp dp" and "sorter_contract srt"
  shows "(\<exists>r' pre.
            SplatRenderer_Render lib oor rs cameraMat viewport nearFar fovy =
              Some (r', pre @ sort_block r' (length (positionVec rs))
                        @ copy_sorted_indices r' (splatVao rs) (length (positionVec rs))
                        @ splat_draw lib r' cameraMat viewport nearFar fovy)
          \<and> copy_sorted_indices r' (splatVao rs) (length (positionVec rs)) =
              [glBindBuffer GL_COPY_READ_BUFFER (valBuffer rs),
               glBindBuffer GL_COPY_WRITE_BUFFER (elementBuffer (splatVao rs)),
               glCopyBufferSubData GL_COPY_READ_BUFFER GL_COPY_WRITE_BUFFER 0 0
                 (4 * length (positionVec rs))]
          \<and> u32_buffer (run oor srt (pre @ sort_block r' (length (positionVec rs))) ds)
                (valBuffer rs) = Some (draw_order srt (splat_keys oor cameraMat rs))
          \<and> u32_buffer (run oor srt (pre @ sort_block r' (length (positionVec rs))
                             @ copy_sorted_indices r' (splatVao rs) (length (positionVec rs))) ds)
                (elementBuffer (splatVao rs)) = Some (draw_order srt (splat_keys oor cameraMat rs))
          \<and> draws (run oor srt (pre @ sort_block r' (length (positionVec rs))
                             @ copy_sorted_indices r' (splatVao rs) (length (positionVec rs))
                             @ splat_draw lib r' cameraMat viewport nearFar fovy) ds)
              = draws ds @ [draw_order srt (splat_keys oor cameraMat rs)])
       \<and> PointRenderer_Render lib rp cameraMat viewport nearFar fovy =
            depth_compute rp cameraMat (length (posVec rp)) @ sort_block rp (length (posVec rp))
            @ copy_sorted_indices rp (pointVao rp) (length (posVec rp))
            @ point_draw lib rp cameraMat viewport nearFar fovy
       \<and> copy_sorted_indices rp (pointVao rp) (length (posVec rp)) =
            [glBindBuffer GL_COPY_READ_BUFFER (valBuffer rp),
             glBindBuffer GL_COPY_WRITE_BUFFER (elementBuffer (pointVao rp)),
             glCopyBufferSubData GL_COPY_READ_BUFFER GL_COPY_WRITE_BUFFER 0 0
               (4 * length (posVec rp))]
       \<and> u32_buffer (run oor srt (depth_compute rp cameraMat (length (posVec rp))
                          @ sort_block rp (length (posVec rp))) dp)
             (valBuffer rp) = Some (draw_order srt (point_keys oor cameraMat rp))
       \<and> u32_buffer (run oor srt (depth_compute rp cameraMat (length (posVec rp))
                          @ sort_block rp (length (posVec rp))
                          @ copy_sorted_indices rp (pointVao rp) (length (posVec rp))) dp)
             (elementBuffer (pointVao rp)) = Some (draw_order srt (point_keys oor cameraMat rp))
       \<and> draws (run oor srt (PointRenderer_Render lib rp cameraMat viewport nearFar fovy) dp)
           = draws dp @ [draw_order srt (point_keys oor cameraMat rp)]"
proof -
  let ?ns = "length (positionVec rs)"
  let ?ks = "splat_keys oor cameraMat rs"
  let ?r' = "rs\<lparr>depthVec := ?ks, indexVec := identity_permutation ?ns\<rparr>"
  from assms(1) have lv: "length (depthVec rs) = ?ns" "length (indexVec rs) = ?ns"
    and ns: "?ns \<le> 4294967295"
    by (simp_all add: splat_ready_def frame_ready_def)
  have r1: "SplatRenderer_Render lib oor rs cameraMat viewport nearFar fovy =
              Some (?r', update_buffers ?r' @ sort_block ?r' ?ns
                         @ copy_sorted_indices ?r' (splatVao rs) ?ns
                         @ splat_draw lib ?r' cameraMat viewport nearFar fovy)"
    by (simp add: SplatRenderer_Render_ready[OF lv, folded splat_keys_spec] Let_def)
  have r2: "copy_sorted_indices ?r' (splatVao rs) ?ns =
              [glBindBuffer GL_COPY_READ_BUFFER (valBuffer rs),
               glBindBuffer GL_COPY_WRITE_BUFFER (elementBuffer (splatVao rs)),
               glCopyBufferSubData GL_COPY_READ_BUFFER GL_COPY_WRITE_BUFFER 0 0 (4 * ?ns)]"
    using copy_sorted_indices_bytes[OF ns, of ?r' "splatVao rs"] by simp
  have r3: "u32_buffer (run oor srt (update_buffers ?r' @ sort_block ?r' ?ns) ds) (valBuffer rs)
              = Some (draw_order srt ?ks)"
    by (rule u32_buffer_eq) (simp add: splat_frame_steps(2)[OF assms(1,3)])
  have r4: "u32_buffer (run oor srt (update_buffers ?r' @ sort_block ?r' ?ns
                          @ copy_sorted_indices ?r' (splatVao rs) ?ns) ds)
              (elementBuffer (splatVao rs)) = Some (draw_order srt ?ks)"
    by (rule u32_buffer_eq) (simp add: splat_frame_steps(3)[OF assms(1,3)])
  from splat_frame_effect[OF assms(1,3), of lib oor cameraMat viewport nearFar fovy]
  have r5: "draws (run oor srt (update_buffers ?r' @ sort_block ?r' ?ns
                          @ copy_sorted_indices ?r' (splatVao rs) ?ns
                          @ splat_draw lib ?r' cameraMat viewport nearFar fovy) ds)
              = draws ds @ [draw_order srt ?ks]"
    by (auto simp: splat_frame_def r1)
  from r1 r2 r3 r4 r5 have A: "\<exists>r' pre.
            SplatRenderer_Render lib oor rs cameraMat viewport nearFar fovy =
              Some (r', pre @ sort_block r' ?ns @ copy_sorted_indices r' (splatVao rs) ?ns
                        @ splat_draw lib r' cameraMat viewport nearFar fovy)
          \<and> copy_sorted_indices r' (splatVao rs) ?ns =
              [glBindBuffer GL_COPY_READ_BUFFER (valBuffer rs),
               glBindBuffer GL_COPY_WRITE_BUFFER (elementBuffer (splatVao rs)),
               glCopyBufferSubData GL_COPY_READ_BUFFER GL_COPY_WRITE_BUFFER 0 0 (4 * ?ns)]
          \<and> u32_buffer (run oor srt (pre @ sort_block r' ?ns) ds) (valBuffer rs)
              = Some (draw_order srt ?ks)
          \<and> u32_buffer (run oor srt (pre @ sort_block r' ?ns
                             @ copy_sorted_indices r' (splatVao rs) ?ns) ds)
                (elementBuffer (splatVao rs)) = Some (draw_order srt ?ks)
          \<and> draws (run oor srt (pre @ sort_block r' ?ns
                             @ copy_sorted_indices r' (splatVao rs) ?ns
                             @ splat_draw lib r' cameraMat viewport nearFar fovy) ds)
              = draws ds @ [draw_order srt ?ks]"
    by blast
  let ?np = "length (posVec rp)"
  let ?kp = "point_keys oor cameraMat rp"
  from assms(2) have np: "?np \<le> 4294967295"
    by (simp add: point_ready_def frame_ready_def)
  have p1: "PointRenderer_Render lib rp cameraMat viewport nearFar fovy =
            depth_compute rp cameraMat ?np @ sort_block rp ?np
            @ copy_sorted_indices rp (pointVao rp) ?np
            @ point_draw lib rp cameraMat viewport nearFar fovy"
    by (simp add: PointRenderer_Render_def Let_def)
  have p2: "copy_sorted_indices rp (pointVao rp) ?np =
            [glBindBuffer GL_COPY_READ_BUFFER (valBuffer rp),
             glBindBuffer GL_COPY_WRITE_BUFFER (elementBuffer (pointVao rp)),
             glCopyBufferSubData GL_COPY_READ_BUFFER GL_COPY_WRITE_BUFFER 0 0 (4 * ?np)]"
    by (rule copy_sorted_indices_bytes[OF np])
  have p3: "u32_buffer (run oor srt (depth_compute rp cameraMat ?np @ sort_block rp ?np) dp)
             (valBuffer rp) = Some (draw_order srt ?kp)"
    by (rule u32_buffer_eq) (simp add: point_frame_steps(2)[OF assms(2,3)])
  have p4: "u32_buffer (run oor srt (depth_compute rp cameraMat ?np @ sort_block rp ?np
                          @ copy_sorted_indices rp (pointVao rp) ?np) dp)
             (elementBuffer (pointVao rp)) = Some (draw_order srt ?kp)"
    by (rule u32_buffer_eq) (simp add: point_frame_steps(3)[OF assms(2,3)])
  from point_frame_effect[OF assms(2,3), of lib oor cameraMat viewport nearFar fovy]
  have p5: "draws (run oor srt (PointRenderer_Render lib rp cameraMat viewport nearFar fovy) dp)
           = draws dp @ [draw_order srt ?kp]"
    by (simp add: point_frame_def)
  from A p1 p2 p3 p4 p5 show ?thesis by blast
qed

lemma two_splats_draw_order:
  "draw_order insertion_sorter
     (splat_keys wrap_conversion identity_camera (two_splats [vec3_lit 0 0 (-1), vec3_lit 0 0 (-2)]))
   = [1, 0]"
  by (simp add: two_splats_keys draw_order_def insertion_sorter_def identity_permutation_def)

lemma two_points_draw_order:
  "draw_order insertion_sorter
     (point_keys wrap_conversion identity_camera
        (two_points [vec4_lit 0 0 (-1) 1, vec4_lit 0 0 (-2) 1]))
   = [1, 0]"
  by (simp add: two_points_keys draw_order_def insertion_sorter_def identity_permutation_def)

theorem index_copy_on_device_witness:
  "(\<exists>r' pre.
      SplatRenderer_Render some_math wrap_conversion
          (two_splats [vec3_lit 0 0 (-1), vec3_lit 0 0 (-2)]) identity_camera
          (vec4_lit 0 0 640 480) \<lparr>x2 = Finite 1, y2 = Finite 100\<rparr> (Finite 1) =
        Some (r', pre @ sort_block r' 2
                  @ copy_sorted_indices r' \<lparr>attribBuffers = [(0, 5)], elementBuffer = 6\<rparr> 2
                  @ splat_draw some_math r' identity_camera (vec4_lit 0 0 640 480)
                      \<lparr>x2 = Finite 1, y2 = Finite 100\<rparr> (Finite 1))
    \<and> copy_sorted_indices r' \<lparr>attribBuffers = [(0, 5)], elementBuffer = 6\<rparr> 2 =
        [glBindBuffer GL_COPY_READ_BUFFER 8, glBindBuffer GL_COPY_WRITE_BUFFER 6,
         glCopyBufferSubData GL_COPY_READ_BUFFER GL_COPY_WRITE_BUFFER 0 0 8]
    \<and> u32_buffer (run wrap_conversion insertion_sorter
                     (pre @ sort_block r' 2
                      @ copy_sorted_indices r' \<lparr>attribBuffers = [(0, 5)], elementBuffer = 6\<rparr> 2)
                     (two_splats_device [vec3_lit 0 0 (-1), vec3_lit 0 0 (-2)])) 6 = Some [1, 0])
   \<and> draws (run wrap_conversion insertion_sorter
              (PointRenderer_Render some_math (two_points [vec4_lit 0 0 (-1) 1, vec4_lit 0 0 (-2) 1])
                 identity_camera (vec4_lit 0 0 640 480) \<lparr>x2 = Finite 1, y2 = Finite 100\<rparr> (Finite 1))
              (two_points_device [vec4_lit 0 0 (-1) 1, vec4_lit 0 0 (-2) 1])) = [[1, 0]]"
proof -
  let ?rs = "two_splats [vec3_lit 0 0 (-1), vec3_lit 0 0 (-2)]"
  let ?rp = "two_points [vec4_lit 0 0 (-1) 1, vec4_lit 0 0 (-2) 1]"
  have L: "length (positionVec ?rs) = 2" "valBuffer ?rs = 8"
          "splatVao ?rs = \<lparr>attribBuffers = [(0, 5)], elementBuffer = 6\<rparr>"
          "elementBuffer \<lparr>attribBuffers = [(0, 5)], elementBuffer = 6\<rparr> = 6"
          "length (posVec ?rp) = 2" "valBuffer ?rp = 8"
          "draws (two_points_device [vec4_lit 0 0 (-1) 1, vec4_lit 0 0 (-2) 1]) = []"
    by (simp_all add: fixture_defs)
  have m: "4 * (2::nat) = 8" by simp
  from index_copy_on_device[OF
      two_splats_ready[of "vec3_lit 0 0 (-1)" "vec3_lit 0 0 (-2)"]
      two_points_ready[of "vec4_lit 0 0 (-1) 1" "vec4_lit 0 0 (-2) 1"] insertion_sorter_contract,
      where lib = some_math and oor = wrap_conversion and cameraMat = identity_camera
        and viewport = "vec4_lit 0 0 640 480" and nearFar = "\<lparr>x2 = Finite 1, y2 = Finite 100\<rparr>" and fovy = "Finite 1"]
  show ?thesis
    unfolding L two_splats_draw_order two_points_draw_order m append_Nil by blast
qed


section \<open>The order of the keys\<close>





subsection \<open>The keys at the moved camera\<close>

lemma float_literal_0003: "float_literal (3 / 1000) = Finite (6442451 / 2147483648)"
  unfolding float_literal_def
  apply (subst binary32_round[of "-32"])
      apply simp
     apply simp
    apply simp
   apply simp
  apply (simp add: round_half_even_def Let_def)
  done

lemma float_sub_0_0: "float_sub (Finite 0) (Finite 0) = Finite 0"
  by (simp add: float_sub_def float_add_def signed_zero_def)

lemma offset_camera_forward:
  "camera_forward offset_camera = mk_vec3 (Finite 0) (Finite 0) (Finite (-1))"
  by (simp add: offset_camera_def vector_defs float_defs)

lemma offset_camera_eye:
  "camera_eye offset_camera = mk_vec3 (Finite 0) (Finite 0) (Finite (6442451 / 2147483648))"
  by (simp add: offset_camera_def vector_defs float_literal_0003)

text \<open>\<open>-1 - 0.003f\<close>, \<open>-2 - 0.003f\<close> and \<open>-65535.99609375 - 0.003f\<close>, each rounded.\<close>

lemma sub_1: "float_sub (Finite (- 1)) (Finite (6442451 / 2147483648)) = Finite (- (4206887 / 4194304))"
proof -
  have "binary32 True (- 1 - 6442451 / 2147483648) = Finite (- (4206887 / 4194304))"
    by (subst binary32_round[of "-23"]) (simp_all add: round_half_even_def Let_def)
  then show ?thesis by (simp add: float_sub_def float_add_def)
qed

lemma sub_2: "float_sub (Finite (- 2)) (Finite (6442451 / 2147483648)) = Finite (- (8401191 / 4194304))"
proof -
  have "binary32 True (- 2 - 6442451 / 2147483648) = Finite (- (8401191 / 4194304))"
    by (subst binary32_round[of "-22"]) (simp_all add: round_half_even_def Let_def)
  then show ?thesis by (simp add: float_sub_def float_add_def)
qed


lemma exact_1: "binary32 neg (4206887 / 4194304) = Finite (4206887 / 4194304)"
  using binary32_exact[of "4206887 / 4194304" 8413774 "-23" neg] by simp

lemma exact_1s: "binary32 neg (4206887 / 64) = Finite (4206887 / 64)"
  using binary32_exact[of "4206887 / 64" 4206887 "-6" neg] by simp

lemma exact_2: "binary32 neg (8401191 / 4194304) = Finite (8401191 / 4194304)"
  using binary32_exact[of "8401191 / 4194304" 8401191 "-22" neg] by simp

lemma exact_2s: "binary32 neg (8401191 / 64) = Finite (8401191 / 64)"
  using binary32_exact[of "8401191 / 64" 8401191 "-6" neg] by simp


lemma offset_depth_1:
  "scaled_depth offset_camera (vec3_lit 0 0 (-1)) = Finite (4206887 / 64)"
  unfolding scaled_depth_def camera_depth_def offset_camera_forward offset_camera_eye
  by (simp add: vec3_sub_def vec3_lit_def mk_vec3_def sub_1 float_sub_0_0 dot3_def float_add_def
        float_mul_def signed_zero_def exact_1 exact_1s)

lemma offset_depth_2:
  "scaled_depth offset_camera (vec3_lit 0 0 (-2)) = Finite (8401191 / 64)"
  unfolding scaled_depth_def camera_depth_def offset_camera_forward offset_camera_eye
  by (simp add: vec3_sub_def vec3_lit_def mk_vec3_def sub_2 float_sub_0_0 dot3_def float_add_def
        float_mul_def signed_zero_def exact_2 exact_2s)



lemma depth_key_scaled:
  "depth_key oor (camera_depth cameraMat p) = 4294967295 - float_to_u32 oor (scaled_depth cameraMat p)"
  by (simp add: depth_key_def scaled_depth_def)





subsection \<open>The keys at the turned camera\<close>




























section \<open>The key the host loop writes\<close>

text \<open>
  C3. In every frame the host loop writes, for every primitive \<open>i\<close>, the key
  \<open>UINT32_MAX - (uint32)(dot(position_i - eye, forward) * 65536)\<close>, with \<open>forward\<close> the
  rotation part of the camera matrix applied to \<open>(0, 0, -1)\<close> and \<open>eye\<close> its translation
  column, all in \<open>float\<close> arithmetic, and the value \<open>i\<close>. Where the scaled depth is a number
  \<open>s\<close> with \<open>0 \<le> s < 2^32\<close> the key is \<open>2^32 - 1\<close> less the integer part of \<open>s\<close>. The
  first two calls of the frame upload the key array and the value array to the key buffer
  and the value buffer. An invocation of the device kernel writes the key by the same
  formula.
\<close>

theorem host_key_formula:
  assumes "length (depthVec r) = length (positionVec r)"
      and "length (indexVec r) = length (positionVec r)"
  shows "\<exists>dv iv rest.
           SplatRenderer_Render lib oor r cameraMat viewport nearFar fovy =
             Some (r\<lparr>depthVec := dv, indexVec := iv\<rparr>,
                   BufferUpdate (keyBuffer r) (U32Data dv)
                   # BufferUpdate (valBuffer r) (U32Data iv) # rest)
           \<and> length dv = length (positionVec r) \<and> length iv = length (positionVec r)
           \<and> (\<forall>i < length (positionVec r).
                 dv ! i = spec_key oor cameraMat (positionVec r ! i) \<and> iv ! i = word_of_nat i)
           \<and> (\<forall>i < length (positionVec r). \<forall>s.
                 scaled_depth cameraMat (positionVec r ! i) = Finite s \<longrightarrow>
                 0 \<le> s \<longrightarrow> s < 4294967296 \<longrightarrow>
                 unat (dv ! i) = 4294967295 - nat \<lfloor>s\<rfloor>)
           \<and> (\<forall>ps idx ks vs. idx < length ps \<longrightarrow> idx < length ks \<longrightarrow>
                 fst (presort_invocation oor (camera_forward cameraMat) (camera_eye cameraMat)
                        ps idx (ks, vs)) ! idx
                 = spec_key oor cameraMat (vec3_of_vec4 (ps ! idx)))"
proof -
  have k: "\<forall>ps idx ks vs. idx < length ps \<longrightarrow> idx < length ks \<longrightarrow>
                 fst (presort_invocation oor (camera_forward cameraMat) (camera_eye cameraMat)
                        ps idx (ks, vs)) ! idx
                 = spec_key oor cameraMat (vec3_of_vec4 (ps ! idx))"
    by (simp add: presort_invocation_def depth_key_spec_key[symmetric] camera_depth_def)
  have u: "\<forall>i < length (positionVec r). \<forall>s.
                 scaled_depth cameraMat (positionVec r ! i) = Finite s \<longrightarrow>
                 0 \<le> s \<longrightarrow> s < 4294967296 \<longrightarrow>
                 unat (spec_key oor cameraMat (positionVec r ! i)) = 4294967295 - nat \<lfloor>s\<rfloor>"
  proof (intro allI impI)
    fix i s
    assume s: "scaled_depth cameraMat (positionVec r ! i) = Finite s" "0 \<le> s" "s < 4294967296"
    have "u32_representable (float_mul (camera_depth cameraMat (positionVec r ! i)) (Finite 65536))"
      using s by (simp add: scaled_depth_def)
    from depth_key_in_range[OF this, of oor]
    show "unat (spec_key oor cameraMat (positionVec r ! i)) = 4294967295 - nat \<lfloor>s\<rfloor>"
      using s by (simp add: depth_key_spec_key scaled_depth_def trunc_toward_zero_def)
  qed
  show ?thesis
    unfolding SplatRenderer_Render_ready[OF assms]
    using k u by (simp add: Let_def update_buffers_def identity_permutation_def)
qed

theorem host_key_formula_witness:
  "\<exists>dv iv rest.
     SplatRenderer_Render some_math all_ones_conversion
        (two_splats [vec3_lit 0 0 (-1), vec3_lit 0 0 (-2)]) offset_camera
        (vec4_lit 0 0 640 480) \<lparr>x2 = Finite 1, y2 = Finite 100\<rparr> (Finite 1) =
       Some ((two_splats [vec3_lit 0 0 (-1), vec3_lit 0 0 (-2)])\<lparr>depthVec := dv, indexVec := iv\<rparr>,
             BufferUpdate 7 (U32Data dv) # BufferUpdate 8 (U32Data iv) # rest)
     \<and> dv ! 0 = 4294901563 \<and> dv ! 1 = 4294836027 \<and> iv ! 0 = 0 \<and> iv ! 1 = 1
     \<and> unat (dv ! 0) = 4294967295 - nat \<lfloor>4206887 / 64 :: real\<rfloor>"
proof -
  let ?r = "two_splats [vec3_lit 0 0 (-1), vec3_lit 0 0 (-2)]"
  have l: "length (depthVec ?r) = length (positionVec ?r)" "length (indexVec ?r) = length (positionVec ?r)"
    by (simp_all add: two_splats_def)
  have k: "keyBuffer ?r = 7" "valBuffer ?r = 8" "positionVec ?r = [vec3_lit 0 0 (-1), vec3_lit 0 0 (-2)]"
    by (simp_all add: two_splats_def)
  have s: "spec_key all_ones_conversion offset_camera (vec3_lit 0 0 (-1)) = 4294901563"
          "spec_key all_ones_conversion offset_camera (vec3_lit 0 0 (-2)) = 4294836027"
    by (simp_all add: depth_key_spec_key[symmetric] depth_key_scaled offset_depth_1 offset_depth_2
          float_to_u32_def trunc_toward_zero_def)
  from host_key_formula[OF l, of some_math all_ones_conversion offset_camera
      "vec4_lit 0 0 640 480" "\<lparr>x2 = Finite 1, y2 = Finite 100\<rparr>" "Finite 1"]
  obtain dv iv rest where
    h: "SplatRenderer_Render some_math all_ones_conversion ?r offset_camera
          (vec4_lit 0 0 640 480) \<lparr>x2 = Finite 1, y2 = Finite 100\<rparr> (Finite 1) =
          Some (?r\<lparr>depthVec := dv, indexVec := iv\<rparr>,
                BufferUpdate (keyBuffer ?r) (U32Data dv) # BufferUpdate (valBuffer ?r) (U32Data iv) # rest)"
       "\<forall>i < length (positionVec ?r).
           dv ! i = spec_key all_ones_conversion offset_camera (positionVec ?r ! i) \<and> iv ! i = word_of_nat i"
       "\<forall>i < length (positionVec ?r). \<forall>s.
           scaled_depth offset_camera (positionVec ?r ! i) = Finite s \<longrightarrow>
           0 \<le> s \<longrightarrow> s < 4294967296 \<longrightarrow> unat (dv ! i) = 4294967295 - nat \<lfloor>s\<rfloor>"
    by blast
  from h(2)[rule_format, of 0] h(2)[rule_format, of 1]
  have a: "dv ! 0 = 4294901563 \<and> dv ! 1 = 4294836027 \<and> iv ! 0 = 0 \<and> iv ! 1 = 1"
    unfolding k using s by simp
  from h(3)[rule_format, of 0 "4206887 / 64"]
  have b: "unat (dv ! 0) = 4294967295 - nat \<lfloor>4206887 / 64 :: real\<rfloor>"
    unfolding k by (simp add: offset_depth_1)
  from h(1) a b show ?thesis unfolding k by blast
qed

section \<open>The empty cloud\<close>

lemma draw_order_Nil: "sorter_contract srt \<Longrightarrow> draw_order srt [] = []"
  by (simp add: draw_order_def identity_permutation_def sorter_contract_empty)

lemma sorted_keys_Nil: "sorter_contract srt \<Longrightarrow> sorted_keys srt [] = []"
  by (simp add: sorted_keys_def identity_permutation_def sorter_contract_empty)

lemma holds_no_words:
  "holds_words dev obj 0 \<Longrightarrow> (buffers dev)(obj \<mapsto> U32Data []) = buffers dev"
  by (auto simp: holds_words_def fun_eq_iff split: option.splits buffer_data.splits)

lemma dispatch_groups_0: "dispatch_groups 0 = 0"
  by (simp add: dispatch_groups_def LOCAL_SIZE_def)

text \<open>
  C9. With no primitives a frame of either renderer changes no buffer. The loop of the
  splat renderer returns the two empty host vectors as they are; the point renderer
  dispatches 0 work groups; the sort is called with count 0; the copy transfers 0 bytes;
  the draw is issued with an empty index sequence; and the frame raises no OpenGL error
  and no fault, so nothing is read or written outside a buffer.
\<close>

theorem empty_cloud_frame:
  assumes "splat_ready rs ds" and "positionVec rs = []"
      and "point_ready rp dp" and "posVec rp = []"
      and "sorter_contract srt"
  shows "splat_build_vecs oor rs cameraMat = Some ([], [])
       \<and> SplatRenderer_Render lib oor rs cameraMat viewport nearFar fovy =
            Some (rs, update_buffers rs
                      @ [sorter_sort (sorter rs) (keyBuffer rs) (valBuffer rs) 0,
                         glBindBuffer GL_COPY_READ_BUFFER (valBuffer rs),
                         glBindBuffer GL_COPY_WRITE_BUFFER (elementBuffer (splatVao rs)),
                         glCopyBufferSubData GL_COPY_READ_BUFFER GL_COPY_WRITE_BUFFER 0 0 0]
                      @ splat_draw lib rs cameraMat viewport nearFar fovy)
       \<and> (\<exists>ds'. splat_frame lib oor srt (cameraMat, viewport, nearFar, fovy) (rs, ds)
                    = Some (rs, ds')
                \<and> buffers ds' = buffers ds \<and> draws ds' = draws ds @ [[]]
                \<and> errors ds' = errors ds \<and> fault ds' = fault ds)
       \<and> PointRenderer_Render lib rp cameraMat viewport nearFar fovy =
            [Bind (program (preSortProg rp)),
             SetUniform (program (preSortProg rp)) ''forward'' (UVec3 (camera_forward cameraMat)),
             SetUniform (program (preSortProg rp)) ''eye'' (UVec3 (camera_eye cameraMat)),
             glBindBufferBase 0 (posBuffer rp), glBindBufferBase 1 (keyBuffer rp),
             glBindBufferBase 2 (valBuffer rp), glDispatchCompute 0 1 1, glMemoryBarrier,
             sorter_sort (sorter rp) (keyBuffer rp) (valBuffer rp) 0,
             glBindBuffer GL_COPY_READ_BUFFER (valBuffer rp),
             glBindBuffer GL_COPY_WRITE_BUFFER (elementBuffer (pointVao rp)),
             glCopyBufferSubData GL_COPY_READ_BUFFER GL_COPY_WRITE_BUFFER 0 0 0]
            @ point_draw lib rp cameraMat viewport nearFar fovy
       \<and> buffers (point_frame lib oor srt rp (cameraMat, viewport, nearFar, fovy) dp) = buffers dp
       \<and> draws (point_frame lib oor srt rp (cameraMat, viewport, nearFar, fovy) dp)
           = draws dp @ [[]]
       \<and> errors (point_frame lib oor srt rp (cameraMat, viewport, nearFar, fovy) dp) = errors dp
       \<and> fault (point_frame lib oor srt rp (cameraMat, viewport, nearFar, fovy) dp) = fault dp"
proof -
  from assms(1,2) have lv: "depthVec rs = []" "indexVec rs = []"
    and hs: "holds_words ds (keyBuffer rs) 0" "holds_words ds (valBuffer rs) 0"
            "holds_words ds (elementBuffer (splatVao rs)) 0"
    by (simp_all add: splat_ready_def frame_ready_def)
  have lv': "length (depthVec rs) = length (positionVec rs)"
            "length (indexVec rs) = length (positionVec rs)"
    using lv assms(2) by simp_all
  have ks: "splat_keys oor cameraMat rs = []" using assms(2) by (simp add: splat_keys_def)
  have same: "rs\<lparr>depthVec := [], indexVec := identity_permutation 0\<rparr> = rs"
    using lv by (simp add: identity_permutation_def)
  have a: "splat_build_vecs oor rs cameraMat = Some ([], [])"
    using splat_build_vecs_ready[OF lv', of oor cameraMat] assms(2)
    by (simp add: identity_permutation_def)
  have b: "SplatRenderer_Render lib oor rs cameraMat viewport nearFar fovy =
            Some (rs, update_buffers rs
                      @ [sorter_sort (sorter rs) (keyBuffer rs) (valBuffer rs) 0,
                         glBindBuffer GL_COPY_READ_BUFFER (valBuffer rs),
                         glBindBuffer GL_COPY_WRITE_BUFFER (elementBuffer (splatVao rs)),
                         glCopyBufferSubData GL_COPY_READ_BUFFER GL_COPY_WRITE_BUFFER 0 0 0]
                      @ splat_draw lib rs cameraMat viewport nearFar fovy)"
  proof -
    have "rs\<lparr>depthVec := depthVec rs, indexVec := indexVec rs\<rparr> = rs" by simp
    then have same2: "rs\<lparr>depthVec := [], indexVec := []\<rparr> = rs" unfolding lv .
    show ?thesis
      by (simp add: SplatRenderer_Render_def a assms(2) Let_def sort_block_def
            copy_sorted_indices_def same2)
  qed
  from splat_frame_effect[OF assms(1,5), of lib oor cameraMat viewport nearFar fovy]
  obtain ds' where
    e: "splat_frame lib oor srt (cameraMat, viewport, nearFar, fovy) (rs, ds) = Some (rs, ds')"
       "buffers ds' = (buffers ds)(keyBuffer rs \<mapsto> U32Data [], valBuffer rs \<mapsto> U32Data [],
                                    elementBuffer (splatVao rs) \<mapsto> U32Data [])"
       "draws ds' = draws ds @ [[]]" "errors ds' = errors ds" "fault ds' = fault ds"
    unfolding ks draw_order_Nil[OF assms(5)] sorted_keys_Nil[OF assms(5)] assms(2)
    using same by auto
  have b0: "buffers ds' = buffers ds"
  proof -
    have 1: "(buffers ds)(keyBuffer rs \<mapsto> U32Data []) = buffers ds"
      by (rule holds_no_words[OF hs(1)])
    have 2: "(buffers ds)(valBuffer rs \<mapsto> U32Data []) = buffers ds"
      by (rule holds_no_words[OF hs(2)])
    have 3: "(buffers ds)(elementBuffer (splatVao rs) \<mapsto> U32Data []) = buffers ds"
      by (rule holds_no_words[OF hs(3)])
    show ?thesis unfolding e(2) 1 2 3 ..
  qed
  from e b0 have c: "\<exists>ds'. splat_frame lib oor srt (cameraMat, viewport, nearFar, fovy) (rs, ds)
                    = Some (rs, ds')
                \<and> buffers ds' = buffers ds \<and> draws ds' = draws ds @ [[]]
                \<and> errors ds' = errors ds \<and> fault ds' = fault ds"
    by blast
  from assms(3,4) have hp: "holds_words dp (keyBuffer rp) 0" "holds_words dp (valBuffer rp) 0"
            "holds_words dp (elementBuffer (pointVao rp)) 0"
    by (simp_all add: point_ready_def frame_ready_def)
  have kp: "point_keys oor cameraMat rp = []" using assms(4) by (simp add: point_keys_def)
  have d: "PointRenderer_Render lib rp cameraMat viewport nearFar fovy =
            [Bind (program (preSortProg rp)),
             SetUniform (program (preSortProg rp)) ''forward'' (UVec3 (camera_forward cameraMat)),
             SetUniform (program (preSortProg rp)) ''eye'' (UVec3 (camera_eye cameraMat)),
             glBindBufferBase 0 (posBuffer rp), glBindBufferBase 1 (keyBuffer rp),
             glBindBufferBase 2 (valBuffer rp), glDispatchCompute 0 1 1, glMemoryBarrier,
             sorter_sort (sorter rp) (keyBuffer rp) (valBuffer rp) 0,
             glBindBuffer GL_COPY_READ_BUFFER (valBuffer rp),
             glBindBuffer GL_COPY_WRITE_BUFFER (elementBuffer (pointVao rp)),
             glCopyBufferSubData GL_COPY_READ_BUFFER GL_COPY_WRITE_BUFFER 0 0 0]
            @ point_draw lib rp cameraMat viewport nearFar fovy"
    by (simp add: PointRenderer_Render_def assms(4) Let_def depth_compute_def sort_block_def
          copy_sorted_indices_def dispatch_groups_0)
  from point_frame_effect[OF assms(3,5), of lib oor cameraMat viewport nearFar fovy]
  have f: "buffers (point_frame lib oor srt rp (cameraMat, viewport, nearFar, fovy) dp)
             = (buffers dp)(keyBuffer rp \<mapsto> U32Data [], valBuffer rp \<mapsto> U32Data [],
                            elementBuffer (pointVao rp) \<mapsto> U32Data [])"
       "draws (point_frame lib oor srt rp (cameraMat, viewport, nearFar, fovy) dp)
             = draws dp @ [[]]"
       "errors (point_frame lib oor srt rp (cameraMat, viewport, nearFar, fovy) dp) = errors dp"
       "fault (point_frame lib oor srt rp (cameraMat, viewport, nearFar, fovy) dp) = fault dp"
    unfolding kp draw_order_Nil[OF assms(5)] sorted_keys_Nil[OF assms(5)] by blast+
  have f0: "buffers (point_frame lib oor srt rp (cameraMat, viewport, nearFar, fovy) dp)
             = buffers dp"
  proof -
    have 1: "(buffers dp)(keyBuffer rp \<mapsto> U32Data []) = buffers dp"
      by (rule holds_no_words[OF hp(1)])
    have 2: "(buffers dp)(valBuffer rp \<mapsto> U32Data []) = buffers dp"
      by (rule holds_no_words[OF hp(2)])
    have 3: "(buffers dp)(elementBuffer (pointVao rp) \<mapsto> U32Data []) = buffers dp"
      by (rule holds_no_words[OF hp(3)])
    show ?thesis unfolding f(1) 1 2 3 ..
  qed
  from a b c d f0 f(2,3,4) show ?thesis by blast
qed

lemma no_splats_ready: "splat_ready no_splats no_points_device"
  by (simp add: splat_ready_def frame_ready_def holds_words_def no_splats_def
        no_points_device_def empty_device_def)

lemma no_points_ready: "point_ready no_points no_points_device"
  by (simp add: point_ready_def frame_ready_def holds_words_def no_points_def
        no_points_device_def empty_device_def)

theorem empty_cloud_frame_witness:
  "splat_build_vecs wrap_conversion no_splats identity_camera = Some ([], [])
   \<and> (\<exists>ds'. splat_frame some_math wrap_conversion insertion_sorter some_frame
                (no_splats, no_points_device) = Some (no_splats, ds')
            \<and> buffers ds' = buffers no_points_device \<and> draws ds' = [[]]
            \<and> errors ds' = [] \<and> fault ds' = False)
   \<and> buffers (point_frame some_math wrap_conversion insertion_sorter no_points some_frame
                 no_points_device) = buffers no_points_device
   \<and> draws (point_frame some_math wrap_conversion insertion_sorter no_points some_frame
                 no_points_device) = [[]]
   \<and> errors (point_frame some_math wrap_conversion insertion_sorter no_points some_frame
                 no_points_device) = []
   \<and> fault (point_frame some_math wrap_conversion insertion_sorter no_points some_frame
                 no_points_device) = False"
proof -
  have p: "positionVec no_splats = []" "posVec no_points = []"
    by (simp_all add: no_splats_def no_points_def)
  have d: "draws no_points_device = []" "errors no_points_device = []"
          "fault no_points_device = False"
    by (simp_all add: no_points_device_def empty_device_def)
  have f: "some_frame = (identity_camera, vec4_lit 0 0 640 480, \<lparr>x2 = Finite 1, y2 = Finite 100\<rparr>, Finite 1)"
    by (simp add: some_frame_def)
  from empty_cloud_frame[OF no_splats_ready p(1) no_points_ready p(2) insertion_sorter_contract,
      where lib = some_math and oor = wrap_conversion and cameraMat = identity_camera
        and viewport = "vec4_lit 0 0 640 480" and nearFar = "\<lparr>x2 = Finite 1, y2 = Finite 100\<rparr>" and fovy = "Finite 1"]
  show ?thesis
    unfolding d f append_Nil by blast
qed

section \<open>The dispatch grid\<close>

lemma presort_invocation_guard:
  "length positions \<le> idx \<Longrightarrow> presort_invocation oor forward eye positions idx kv = kv"
  by (simp add: presort_invocation_def)

text \<open>
  Up to \<open>2^32 - 256\<close> primitives the group count is \<open>ceil(N / 256)\<close>, the grid covers every
  primitive, and the dispatch leaves exactly the \<open>N\<close> keys and the identity permutation.
\<close>

lemma dispatch_covers:
  assumes "point_ready r dev"
  shows "unat (dispatch_groups (length (posVec r))) = (length (posVec r) + 255) div 256
       \<and> length (posVec r) \<le> LOCAL_SIZE * unat (dispatch_groups (length (posVec r)))
       \<and> LOCAL_SIZE * unat (dispatch_groups (length (posVec r))) < length (posVec r) + LOCAL_SIZE"
proof -
  from assms have nb: "length (posVec r) + 255 < 4294967296" by (simp add: point_ready_def)
  show ?thesis
    using dispatch_groups_ceil[OF nb] dispatch_groups_cover[OF nb]
    by (simp add: LOCAL_SIZE_def)
qed

text \<open>
  C7, at the input where the code leaves the claim. \<open>UINT32_MAX\<close> primitives pass
  \<open>assert(numPoints <= UINT32_MAX)\<close>, and \<open>ceil(N / 256)\<close> is 16777216 work groups; the sum
  \<open>(GLuint)numPoints + 255\<close> wraps to 254, and the code dispatches 0 work groups.
\<close>

theorem dispatch_groups_wraps:
  "dispatch_groups 4294967295 = 0
   \<and> (4294967295 + (LOCAL_SIZE - 1)) div LOCAL_SIZE = 16777216
   \<and> depth_compute r cameraMat 4294967295 ! 6 = glDispatchCompute 0 1 1"
  by (simp add: dispatch_groups_def LOCAL_SIZE_def depth_compute_def Let_def)





section \<open>What a frame writes\<close>

lemma exec_BufferUpdate_other:
  "obj \<noteq> b \<Longrightarrow> buffers (exec_BufferUpdate b d dev) obj = buffers dev obj"
  by (simp add: exec_BufferUpdate_def split: option.splits)

lemma exec_sorter_sort_other:
  "obj \<noteq> k \<Longrightarrow> obj \<noteq> v \<Longrightarrow>
   buffers (exec_sorter_sort srt cap k v n dev) obj = buffers dev obj"
  by (simp add: exec_sorter_sort_def Let_def split: option.splits buffer_data.splits)

lemma exec_glCopyBufferSubData_other:
  "bound dev wt = Some w \<Longrightarrow> obj \<noteq> w \<Longrightarrow>
   buffers (exec_glCopyBufferSubData rt wt ro wo sz dev) obj = buffers dev obj"
  by (simp add: exec_glCopyBufferSubData_def split: option.splits buffer_data.splits)

lemma exec_glDispatchCompute_other:
  "ssbo dev 1 = Some k \<Longrightarrow> ssbo dev 2 = Some v \<Longrightarrow> obj \<noteq> k \<Longrightarrow> obj \<noteq> v \<Longrightarrow>
   buffers (exec_glDispatchCompute oor gx gy gz dev) obj = buffers dev obj"
  by (simp add: exec_glDispatchCompute_def Let_def
           split: option.splits buffer_data.splits uniform_value.splits)

lemma exec_DrawElements_buffers: "buffers (exec_DrawElements vao dev) = buffers dev"
  by (simp add: exec_DrawElements_def split: option.splits buffer_data.splits)

lemma update_buffers_other:
  "obj \<noteq> keyBuffer r \<Longrightarrow> obj \<noteq> valBuffer r \<Longrightarrow>
   buffers (run oor srt (update_buffers r) dev) obj = buffers dev obj"
  by (simp add: update_buffers_def exec_BufferUpdate_other)

lemma sort_block_other:
  "obj \<noteq> keyBuffer r \<Longrightarrow> obj \<noteq> valBuffer r \<Longrightarrow>
   buffers (run oor srt (sort_block r n) dev) obj = buffers dev obj"
  by (simp add: sort_block_def exec_sorter_sort_other)

lemma copy_sorted_indices_other:
  "obj \<noteq> elementBuffer vao \<Longrightarrow>
   buffers (run oor srt (copy_sorted_indices r vao n) dev) obj = buffers dev obj"
  by (simp add: copy_sorted_indices_def exec_glCopyBufferSubData_other)

lemma depth_compute_other:
  "obj \<noteq> keyBuffer r \<Longrightarrow> obj \<noteq> valBuffer r \<Longrightarrow>
   buffers (run oor srt (depth_compute r cameraMat n) dev) obj = buffers dev obj"
  by (simp add: depth_compute_def Let_def exec_glDispatchCompute_other)

lemma splat_draw_buffers:
  "buffers (run oor srt (splat_draw lib r cameraMat viewport nearFar fovy) dev) = buffers dev"
  by (simp add: splat_draw_def Let_def exec_DrawElements_buffers)

lemma point_draw_buffers:
  "buffers (run oor srt (point_draw lib r cameraMat viewport nearFar fovy) dev) = buffers dev"
  by (simp add: point_draw_def Let_def exec_DrawElements_buffers)

text \<open>One call of \<open>Render\<close>, from any state of the renderer and the device.\<close>

lemma SplatRenderer_Render_other:
  assumes "SplatRenderer_Render lib oor r cameraMat viewport nearFar fovy = Some (r', cmds)"
      and "obj \<noteq> keyBuffer r" "obj \<noteq> valBuffer r" "obj \<noteq> elementBuffer (splatVao r)"
  shows "buffers (run oor srt cmds dev) obj = buffers dev obj"
    and "keyBuffer r' = keyBuffer r" "valBuffer r' = valBuffer r" "splatVao r' = splatVao r"
proof -
  from assms(1) obtain dv iv where
    r': "r' = r\<lparr>depthVec := dv, indexVec := iv\<rparr>"
    and cmds: "cmds = update_buffers r' @ sort_block r' (length (positionVec r))
                 @ copy_sorted_indices r' (splatVao r') (length (positionVec r))
                 @ splat_draw lib r' cameraMat viewport nearFar fovy"
    by (auto simp: SplatRenderer_Render_def Let_def split: option.splits)
  show k: "keyBuffer r' = keyBuffer r" "valBuffer r' = valBuffer r" "splatVao r' = splatVao r"
    by (simp_all add: r')
  show "buffers (run oor srt cmds dev) obj = buffers dev obj"
    unfolding cmds run_append
    using assms(2,3,4) k
    by (simp add: splat_draw_buffers copy_sorted_indices_other sort_block_other
          update_buffers_other)
qed

lemma PointRenderer_Render_other:
  assumes "obj \<noteq> keyBuffer r" "obj \<noteq> valBuffer r" "obj \<noteq> elementBuffer (pointVao r)"
  shows "buffers (run oor srt (PointRenderer_Render lib r cameraMat viewport nearFar fovy) dev) obj
           = buffers dev obj"
  unfolding PointRenderer_Render_def Let_def run_append
  using assms
  by (simp add: point_draw_buffers copy_sorted_indices_other sort_block_other depth_compute_other)

text \<open>Any number of frames.\<close>

lemma splat_frames_other:
  "splat_frames lib oor srt fps (r, dev) = Some (r', dev') \<Longrightarrow>
   obj \<noteq> keyBuffer r \<Longrightarrow> obj \<noteq> valBuffer r \<Longrightarrow> obj \<noteq> elementBuffer (splatVao r) \<Longrightarrow>
   buffers dev' obj = buffers dev obj"
proof (induction fps arbitrary: r dev)
  case Nil
  then show ?case by simp
next
  case (Cons fp fps)
  obtain cameraMat viewport nearFar fovy where fp: "fp = (cameraMat, viewport, nearFar, fovy)"
    by (cases fp) auto
  from Cons.prems(1) obtain r1 cmds where
    r: "SplatRenderer_Render lib oor r cameraMat viewport nearFar fovy = Some (r1, cmds)"
    and rest: "splat_frames lib oor srt fps (r1, run oor srt cmds dev) = Some (r', dev')"
    by (auto simp: fp splat_frame_def split: option.splits)
  have 1: "buffers (run oor srt cmds dev) obj = buffers dev obj"
    by (rule SplatRenderer_Render_other(1)[OF r Cons.prems(2,3,4)])
  have k: "keyBuffer r1 = keyBuffer r" "valBuffer r1 = valBuffer r" "splatVao r1 = splatVao r"
    by (rule SplatRenderer_Render_other(2-4)[OF r Cons.prems(2,3,4)])+
  from Cons.IH[OF rest] Cons.prems(2,3,4) k
  have "buffers dev' obj = buffers (run oor srt cmds dev) obj" by simp
  with 1 show ?case by simp
qed

lemma point_frames_other:
  "obj \<noteq> keyBuffer r \<Longrightarrow> obj \<noteq> valBuffer r \<Longrightarrow> obj \<noteq> elementBuffer (pointVao r) \<Longrightarrow>
   buffers (point_frames lib oor srt r fps dev) obj = buffers dev obj"
proof (induction fps arbitrary: dev)
  case Nil
  then show ?case by simp
next
  case (Cons fp fps)
  obtain cameraMat viewport nearFar fovy where fp: "fp = (cameraMat, viewport, nearFar, fovy)"
    by (cases fp) auto
  have "buffers (point_frame lib oor srt r fp dev) obj = buffers dev obj"
    unfolding fp point_frame_def using Cons.prems by (simp add: PointRenderer_Render_other)
  with Cons.IH[OF Cons.prems, of "point_frame lib oor srt r fp dev"] show ?case by simp
qed

lemma splat_frames_ready:
  assumes "splat_ready r dev" "sorter_contract srt"
  shows "\<exists>r' dev'. splat_frames lib oor srt fps (r, dev) = Some (r', dev') \<and> splat_ready r' dev'
           \<and> errors dev' = errors dev \<and> fault dev' = fault dev
           \<and> length (draws dev') = length (draws dev) + length fps"
  using assms(1)
proof (induction fps arbitrary: r dev)
  case Nil
  then show ?case by simp
next
  case (Cons fp fps)
  from splat_frame_ready[OF Cons.prems assms(2), of lib oor fp] obtain r1 d1 where
    1: "splat_frame lib oor srt fp (r, dev) = Some (r1, d1)" "splat_ready r1 d1"
       "errors d1 = errors dev" "fault d1 = fault dev" "length (draws d1) = Suc (length (draws dev))"
    by blast
  from Cons.IH[OF 1(2)] obtain r' dev' where
    2: "splat_frames lib oor srt fps (r1, d1) = Some (r', dev')" "splat_ready r' dev'"
       "errors dev' = errors d1" "fault dev' = fault d1"
       "length (draws dev') = length (draws d1) + length fps"
    by blast
  from 1 2 show ?case by simp
qed

lemma point_frames_ready:
  assumes "point_ready r dev" "sorter_contract srt"
  shows "point_ready r (point_frames lib oor srt r fps dev)
       \<and> errors (point_frames lib oor srt r fps dev) = errors dev
       \<and> fault (point_frames lib oor srt r fps dev) = fault dev
       \<and> length (draws (point_frames lib oor srt r fps dev)) = length (draws dev) + length fps"
  using assms(1)
proof (induction fps arbitrary: dev)
  case Nil
  then show ?case by simp
next
  case (Cons fp fps)
  from point_frame_ready[OF Cons.prems assms(2), of lib oor fp]
  have 1: "point_ready r (point_frame lib oor srt r fp dev)"
       "errors (point_frame lib oor srt r fp dev) = errors dev"
       "fault (point_frame lib oor srt r fp dev) = fault dev"
       "length (draws (point_frame lib oor srt r fp dev)) = Suc (length (draws dev))"
    by simp_all
  from Cons.IH[OF 1(1)] 1 show ?case by simp
qed


section \<open>What Init builds\<close>

lemma GetAttribLocs_length:
  "GetAttribLocs ndebug p names = (e, Inr ls) \<Longrightarrow> length ls = length names"
  by (induction names arbitrary: e ls) (auto split: prod.splits sum.splits)

lemma GetAttribLocs_release:
  "\<exists>e ls. GetAttribLocs True p names = (e, Inr ls)"
proof (induction names)
  case Nil
  then show ?case by simp
next
  case (Cons n ns)
  then obtain e ls where "GetAttribLocs True p ns = (e, Inr ls)" by blast
  then show ?case by (simp add: GetAttribLoc_def split: option.splits)
qed

lemma zip5:
  "length locs = 5 \<Longrightarrow> map snd (zip locs [a, b, c, d, e]) = [a, b, c, d, e]"
  by (simp add: map_snd_zip_take)

lemma zip2:
  "length locs = 2 \<Longrightarrow> map snd (zip locs [a, b]) = [a, b]"
  by (simp add: map_snd_zip_take)

lemma buffer_names:
  "n + 3 = Suc (Suc (Suc n))" "n + 4 = Suc (Suc (Suc (Suc n)))"
  "n + 5 = Suc (Suc (Suc (Suc (Suc n))))" "n + 6 = Suc (Suc (Suc (Suc (Suc (Suc n)))))"
  "n + 7 = Suc (Suc (Suc (Suc (Suc (Suc (Suc n))))))"
  by simp_all

lemma Splat_BuildVertexArrayObject_layout:
  assumes "Splat_BuildVertexArrayObject lib ndebug dev r cloud = (e, Inr (r2, d2))"
  shows "positionVec r2 = positionVec r @ map g_position cloud
       \<and> indexVec r2 = indexVec r @ element_array (length cloud)
       \<and> depthVec r2 = depthVec r
       \<and> map snd (attribBuffers (splatVao r2))
            = [next_buffer dev, next_buffer dev + 1, next_buffer dev + 2, next_buffer dev + 3,
               next_buffer dev + 4]
       \<and> elementBuffer (splatVao r2) = next_buffer dev + 5
       \<and> next_buffer d2 = next_buffer dev + 6
       \<and> buffers d2 = (buffers dev)
            (next_buffer dev \<mapsto> Vec3Data (positionVec r @ map g_position cloud),
             next_buffer dev + 1 \<mapsto> Vec4Data (map (gaussian_color lib) cloud),
             next_buffer dev + 2 \<mapsto> Vec3Data (map (\<lambda>g. m3c0 (g_covMat g)) cloud),
             next_buffer dev + 3 \<mapsto> Vec3Data (map (\<lambda>g. m3c1 (g_covMat g)) cloud),
             next_buffer dev + 4 \<mapsto> Vec3Data (map (\<lambda>g. m3c2 (g_covMat g)) cloud),
             next_buffer dev + 5 \<mapsto> U32Data (indexVec r @ element_array (length cloud)))"
  using assms
  unfolding Splat_BuildVertexArrayObject_def new_BufferObject_def Let_def
  by (auto simp: buffer_names split: if_splits prod.splits sum.splits)

lemma Point_BuildVertexArrayObject_layout:
  assumes "Point_BuildVertexArrayObject ndebug dev r cloud = (e, Inr (r2, d2))"
  shows "posVec r2 = posVec r @ map point_position cloud
       \<and> indexVec r2 = indexVec r @ element_array (length cloud)
       \<and> depthVec r2 = depthVec r
       \<and> pointTex r2 = pointTex r \<and> pointProg r2 = pointProg r \<and> preSortProg r2 = preSortProg r
       \<and> map snd (attribBuffers (pointVao r2)) = [next_buffer dev, next_buffer dev + 1]
       \<and> elementBuffer (pointVao r2) = next_buffer dev + 2
       \<and> next_buffer d2 = next_buffer dev + 3
       \<and> buffers d2 = (buffers dev)
            (next_buffer dev \<mapsto> Vec4Data (posVec r @ map point_position cloud),
             next_buffer dev + 1 \<mapsto> Vec4Data (map point_color cloud),
             next_buffer dev + 2 \<mapsto> U32Data (indexVec r @ element_array (length cloud)))"
  using assms
  unfolding Point_BuildVertexArrayObject_def new_BufferObject_def Let_def
  by (auto simp: buffer_names split: if_splits prod.splits sum.splits)

lemma length_element_array: "n \<le> 4294967295 \<Longrightarrow> length (element_array n) = n"
  by (simp add: element_array_identity)

text \<open>What \<open>Init\<close> leaves when it returns true, called on a renderer as constructed.\<close>

lemma SplatRenderer_Init_layout:
  assumes "SplatRenderer_Init gl lib ndebug uninit dev (new_SplatRenderer u) cloud = InitTrue r d ev"
  shows "positionVec r = map g_position cloud
       \<and> indexVec r = element_array (length cloud)
       \<and> depthVec r = replicate (length cloud) 0
       \<and> sorter r = length cloud
       \<and> map snd (attribBuffers (splatVao r))
            = [next_buffer dev, next_buffer dev + 1, next_buffer dev + 2, next_buffer dev + 3,
               next_buffer dev + 4]
       \<and> elementBuffer (splatVao r) = next_buffer dev + 5
       \<and> keyBuffer r = next_buffer dev + 6
       \<and> valBuffer r = next_buffer dev + 7
       \<and> buffers d = (buffers dev)
            (next_buffer dev \<mapsto> Vec3Data (map g_position cloud),
             next_buffer dev + 1 \<mapsto> Vec4Data (map (gaussian_color lib) cloud),
             next_buffer dev + 2 \<mapsto> Vec3Data (map (\<lambda>g. m3c0 (g_covMat g)) cloud),
             next_buffer dev + 3 \<mapsto> Vec3Data (map (\<lambda>g. m3c1 (g_covMat g)) cloud),
             next_buffer dev + 4 \<mapsto> Vec3Data (map (\<lambda>g. m3c2 (g_covMat g)) cloud),
             next_buffer dev + 5 \<mapsto> U32Data (element_array (length cloud)),
             next_buffer dev + 6 \<mapsto> U32Data (replicate (length cloud) 0),
             next_buffer dev + 7 \<mapsto> U32Data (element_array (length cloud)))"
proof -
  from assms obtain prog e1 eb r2 d2 where
    b: "Splat_BuildVertexArrayObject lib ndebug dev ((new_SplatRenderer u)\<lparr>splatProg := prog\<rparr>) cloud
          = (eb, Inr (r2, d2))"
    and r: "r = r2\<lparr>depthVec := vector_resize (depthVec r2) (length cloud),
                   keyBuffer := next_buffer d2, valBuffer := Suc (next_buffer d2),
                   sorter := length cloud\<rparr>"
    and d: "d = d2\<lparr>buffers := (buffers d2)
                 (next_buffer d2 \<mapsto> U32Data (vector_resize (depthVec r2) (length cloud)),
                  Suc (next_buffer d2) \<mapsto> U32Data (indexVec r2)),
               next_buffer := Suc (Suc (next_buffer d2))\<rparr>"
    unfolding SplatRenderer_Init_def new_BufferObject_def Let_def
    by (auto split: prod.splits bool.splits sum.splits)
  from Splat_BuildVertexArrayObject_layout[OF b]
  show ?thesis unfolding r d
    by (simp add: new_SplatRenderer_def vector_resize_def buffer_names)
qed

lemma PointRenderer_Init_layout:
  assumes "PointRenderer_Init gl image_load ndebug uninit dev (new_PointRenderer u) cloud
             = InitTrue r d ev"
  shows "posVec r = map point_position cloud
       \<and> indexVec r = element_array (length cloud)
       \<and> depthVec r = replicate (length cloud) 0
       \<and> sorter r = length cloud
       \<and> map snd (attribBuffers (pointVao r)) = [next_buffer dev, next_buffer dev + 1]
       \<and> elementBuffer (pointVao r) = next_buffer dev + 2
       \<and> keyBuffer r = next_buffer dev + 3
       \<and> valBuffer r = next_buffer dev + 4
       \<and> posBuffer r = next_buffer dev + 5
       \<and> buffers d = (buffers dev)
            (next_buffer dev \<mapsto> Vec4Data (map point_position cloud),
             next_buffer dev + 1 \<mapsto> Vec4Data (map point_color cloud),
             next_buffer dev + 2 \<mapsto> U32Data (element_array (length cloud)),
             next_buffer dev + 3 \<mapsto> U32Data (replicate (length cloud) 0),
             next_buffer dev + 4 \<mapsto> U32Data (element_array (length cloud)),
             next_buffer dev + 5 \<mapsto> Vec4Data (map point_position cloud))"
proof -
  from assms obtain tex prog cprog eb r2 d2 where
    b: "Point_BuildVertexArrayObject ndebug dev
          ((new_PointRenderer u)\<lparr>pointTex := tex, pointProg := prog, preSortProg := cprog\<rparr>) cloud
          = (eb, Inr (r2, d2))"
    and r: "r = r2\<lparr>depthVec := vector_resize (depthVec r2) (length cloud),
                   keyBuffer := next_buffer d2, valBuffer := Suc (next_buffer d2),
                   posBuffer := Suc (Suc (next_buffer d2)),
                   sorter := length cloud\<rparr>"
    and d: "d = d2\<lparr>buffers := (buffers d2)
                 (next_buffer d2 \<mapsto> U32Data (vector_resize (depthVec r2) (length cloud)),
                  Suc (next_buffer d2) \<mapsto> U32Data (indexVec r2),
                  Suc (Suc (next_buffer d2)) \<mapsto> Vec4Data (posVec r2)),
               next_buffer := Suc (Suc (Suc (next_buffer d2)))\<rparr>"
    unfolding PointRenderer_Init_def new_BufferObject_def Let_def
    by (auto split: option.splits prod.splits bool.splits sum.splits)
  from Point_BuildVertexArrayObject_layout[OF b]
  show ?thesis unfolding r d
    by (simp add: new_PointRenderer_def vector_resize_def buffer_names)
qed

lemma SplatRenderer_Init_ready:
  assumes "SplatRenderer_Init gl lib ndebug uninit dev (new_SplatRenderer u) cloud = InitTrue r d ev"
      and "length cloud \<le> 4294967295"
  shows "splat_ready r d"
  using SplatRenderer_Init_layout[OF assms(1)] assms(2)
  by (simp add: splat_ready_def frame_ready_def holds_words_def length_element_array)

lemma PointRenderer_Init_ready:
  assumes "PointRenderer_Init gl image_load ndebug uninit dev (new_PointRenderer u) cloud
             = InitTrue r d ev"
      and "length cloud + 255 < 4294967296"
  shows "point_ready r d"
  using PointRenderer_Init_layout[OF assms(1)] assms(2)
  by (simp add: point_ready_def frame_ready_def holds_words_def length_element_array)



lemma Splat_BuildVertexArrayObject_release:
  "\<exists>e r2 d2. Splat_BuildVertexArrayObject lib True dev r cloud = (e, Inr (r2, d2))"
proof -
  from GetAttribLocs_release[of "splatProg r"
      "[''position'', ''color'', ''cov3_col0'', ''cov3_col1'', ''cov3_col2'']"]
  obtain e ls where "GetAttribLocs True (splatProg r)
      [''position'', ''color'', ''cov3_col0'', ''cov3_col1'', ''cov3_col2''] = (e, Inr ls)"
    by blast
  then show ?thesis
    unfolding Splat_BuildVertexArrayObject_def new_BufferObject_def Let_def
    by (simp del: GetAttribLocs.simps split: prod.splits)
qed

lemma Point_BuildVertexArrayObject_release:
  "\<exists>e r2 d2. Point_BuildVertexArrayObject True dev r cloud = (e, Inr (r2, d2))"
proof -
  from GetAttribLocs_release[of "pointProg r" "[''position'', ''color'']"]
  obtain e ls where "GetAttribLocs True (pointProg r) [''position'', ''color''] = (e, Inr ls)"
    by blast
  then show ?thesis
    unfolding Point_BuildVertexArrayObject_def new_BufferObject_def Let_def
    by (simp del: GetAttribLocs.simps split: prod.splits)
qed


text \<open>In a release build \<open>Init\<close> returns true once its loads have returned true.\<close>

lemma SplatRenderer_Init_release:
  assumes "fst (LoadVertGeomFrag gl True (new_Program uninit)
             ''shader/splat_vert.glsl'' ''shader/splat_geom.glsl'' ''shader/splat_frag.glsl'')"
  shows "\<exists>r d ev. SplatRenderer_Init gl lib True uninit dev r0 cloud = InitTrue r d ev"
proof -
  obtain prog ev where l: "LoadVertGeomFrag gl True (new_Program uninit)
             ''shader/splat_vert.glsl'' ''shader/splat_geom.glsl'' ''shader/splat_frag.glsl''
             = (True, prog, ev)"
    using assms
    by (cases "LoadVertGeomFrag gl True (new_Program uninit)
             ''shader/splat_vert.glsl'' ''shader/splat_geom.glsl'' ''shader/splat_frag.glsl''")
       auto
  from Splat_BuildVertexArrayObject_release[of lib dev "r0\<lparr>splatProg := prog\<rparr>" cloud]
  obtain e r2 d2 where
    "Splat_BuildVertexArrayObject lib True dev (r0\<lparr>splatProg := prog\<rparr>) cloud = (e, Inr (r2, d2))"
    by blast
  then show ?thesis
    unfolding SplatRenderer_Init_def l by (simp add: Let_def split: prod.splits)
qed

lemma PointRenderer_Init_release:
  assumes "image_load ''texture/sphere.png'' = Some tex"
      and "fst (LoadVertGeomFrag gl True (new_Program uninit)
             ''shader/point_vert.glsl'' ''shader/point_geom.glsl'' ''shader/point_frag.glsl'')"
      and "fst (LoadCompute gl True (new_Program uninit) ''shader/presort_compute.glsl'')"
  shows "\<exists>r d ev. PointRenderer_Init gl image_load True uninit dev r0 cloud = InitTrue r d ev"
proof -
  obtain prog ev where l: "LoadVertGeomFrag gl True (new_Program uninit)
             ''shader/point_vert.glsl'' ''shader/point_geom.glsl'' ''shader/point_frag.glsl''
             = (True, prog, ev)"
    using assms(2)
    by (cases "LoadVertGeomFrag gl True (new_Program uninit)
             ''shader/point_vert.glsl'' ''shader/point_geom.glsl'' ''shader/point_frag.glsl''")
       auto
  obtain cprog ec where c: "LoadCompute gl True (new_Program uninit) ''shader/presort_compute.glsl''
             = (True, cprog, ec)"
    using assms(3)
    by (cases "LoadCompute gl True (new_Program uninit) ''shader/presort_compute.glsl''") auto
  from Point_BuildVertexArrayObject_release[of dev
      "r0\<lparr>pointTex := tex, pointProg := prog, preSortProg := cprog\<rparr>" cloud]
  obtain e r2 d2 where
    "Point_BuildVertexArrayObject True dev
       (r0\<lparr>pointTex := tex, pointProg := prog, preSortProg := cprog\<rparr>) cloud = (e, Inr (r2, d2))"
    by blast
  then show ?thesis
    unfolding PointRenderer_Init_def l c assms(1) by (simp add: Let_def split: prod.splits)
qed


text \<open>
  C8. One call of \<open>Render\<close>, from any state, leaves every buffer object other than the key
  buffer, the value buffer and the element buffer as it was. The attribute buffers that
  \<open>Init\<close> creates (position, colour and the three covariance columns for splats; position
  and colour for points) are other objects than those three, so after any number of frames
  they hold what \<open>Init\<close> wrote into them.
\<close>

theorem attribute_buffers_read_only:
  assumes "SplatRenderer_Init gl lib ndebug uninit d0 (new_SplatRenderer u0) gaussianCloud
             = InitTrue rs ds evs"
      and "PointRenderer_Init gl image_load ndebug uninit d1 (new_PointRenderer u1) pointCloud
             = InitTrue rp dp evp"
      and "splat_frames lib oor srt fps (rs, ds) = Some (rs', ds')"
      and "SplatRenderer_Render lib oor r cameraMat viewport nearFar fovy = Some (r', cmds)"
      and "obj \<notin> {keyBuffer r, valBuffer r, elementBuffer (splatVao r)}"
      and "objp \<notin> {keyBuffer p, valBuffer p, elementBuffer (pointVao p)}"
  shows "buffers (run oor srt cmds dev) obj = buffers dev obj
       \<and> buffers (run oor srt (PointRenderer_Render lib p cameraMat viewport nearFar fovy) dev) objp
           = buffers dev objp
       \<and> map (\<lambda>a. buffers ds' (snd a)) (attribBuffers (splatVao rs))
           = [Some (Vec3Data (map g_position gaussianCloud)),
              Some (Vec4Data (map (gaussian_color lib) gaussianCloud)),
              Some (Vec3Data (map (\<lambda>g. m3c0 (g_covMat g)) gaussianCloud)),
              Some (Vec3Data (map (\<lambda>g. m3c1 (g_covMat g)) gaussianCloud)),
              Some (Vec3Data (map (\<lambda>g. m3c2 (g_covMat g)) gaussianCloud))]
       \<and> map (\<lambda>a. buffers (point_frames lib oor srt rp fps dp) (snd a)) (attribBuffers (pointVao rp))
           = [Some (Vec4Data (map point_position pointCloud)),
              Some (Vec4Data (map point_color pointCloud))]
       \<and> buffers (point_frames lib oor srt rp fps dp) (posBuffer rp)
           = Some (Vec4Data (map point_position pointCloud))"
proof -
  have a: "buffers (run oor srt cmds dev) obj = buffers dev obj"
    using SplatRenderer_Render_other(1)[OF assms(4), of obj srt dev] assms(5) by simp
  have b: "buffers (run oor srt (PointRenderer_Render lib p cameraMat viewport nearFar fovy) dev) objp
           = buffers dev objp"
    using PointRenderer_Render_other[of objp p oor srt lib cameraMat viewport nearFar fovy dev]
      assms(6) by simp
  let ?n = "next_buffer d0"
  from SplatRenderer_Init_layout[OF assms(1)]
  have ls: "map snd (attribBuffers (splatVao rs)) = [?n, ?n + 1, ?n + 2, ?n + 3, ?n + 4]"
    "elementBuffer (splatVao rs) = ?n + 5" "keyBuffer rs = ?n + 6" "valBuffer rs = ?n + 7"
    "buffers ds ?n = Some (Vec3Data (map g_position gaussianCloud))"
    "buffers ds (?n + 1) = Some (Vec4Data (map (gaussian_color lib) gaussianCloud))"
    "buffers ds (?n + 2) = Some (Vec3Data (map (\<lambda>g. m3c0 (g_covMat g)) gaussianCloud))"
    "buffers ds (?n + 3) = Some (Vec3Data (map (\<lambda>g. m3c1 (g_covMat g)) gaussianCloud))"
    "buffers ds (?n + 4) = Some (Vec3Data (map (\<lambda>g. m3c2 (g_covMat g)) gaussianCloud))"
    by simp_all
  have fs: "buffers ds' b = buffers ds b" if "b \<in> {?n, ?n + 1, ?n + 2, ?n + 3, ?n + 4}" for b
    using splat_frames_other[OF assms(3), of b] that ls(2,3,4) by auto
  have "map (\<lambda>a. buffers ds' (snd a)) (attribBuffers (splatVao rs))
          = map (buffers ds') (map snd (attribBuffers (splatVao rs)))"
    by (simp add: comp_def)
  then have c: "map (\<lambda>a. buffers ds' (snd a)) (attribBuffers (splatVao rs))
           = [Some (Vec3Data (map g_position gaussianCloud)),
              Some (Vec4Data (map (gaussian_color lib) gaussianCloud)),
              Some (Vec3Data (map (\<lambda>g. m3c0 (g_covMat g)) gaussianCloud)),
              Some (Vec3Data (map (\<lambda>g. m3c1 (g_covMat g)) gaussianCloud)),
              Some (Vec3Data (map (\<lambda>g. m3c2 (g_covMat g)) gaussianCloud))]"
    unfolding ls(1) using fs ls(5-9) by simp
  let ?m = "next_buffer d1"
  let ?dp' = "point_frames lib oor srt rp fps dp"
  from PointRenderer_Init_layout[OF assms(2)]
  have lp: "map snd (attribBuffers (pointVao rp)) = [?m, ?m + 1]"
    "elementBuffer (pointVao rp) = ?m + 2" "keyBuffer rp = ?m + 3" "valBuffer rp = ?m + 4"
    "posBuffer rp = ?m + 5"
    "buffers dp ?m = Some (Vec4Data (map point_position pointCloud))"
    "buffers dp (?m + 1) = Some (Vec4Data (map point_color pointCloud))"
    "buffers dp (?m + 5) = Some (Vec4Data (map point_position pointCloud))"
    by simp_all
  have fp: "buffers ?dp' b = buffers dp b" if "b \<in> {?m, ?m + 1, ?m + 5}" for b
    using point_frames_other[of b rp lib oor srt fps dp] that lp(2,3,4) by auto
  have "map (\<lambda>a. buffers ?dp' (snd a)) (attribBuffers (pointVao rp))
          = map (buffers ?dp') (map snd (attribBuffers (pointVao rp)))"
    by (simp add: comp_def)
  then have d: "map (\<lambda>a. buffers ?dp' (snd a)) (attribBuffers (pointVao rp))
           = [Some (Vec4Data (map point_position pointCloud)),
              Some (Vec4Data (map point_color pointCloud))]"
    unfolding lp(1) using fp lp(6,7) by simp
  have e: "buffers ?dp' (posBuffer rp) = Some (Vec4Data (map point_position pointCloud))"
    unfolding lp(5) using fp lp(8) by simp
  from a b c d e show ?thesis by blast
qed



lemma test_driver_loads:
  "fst (LoadVertGeomFrag (test_driver all_files True True) True (new_Program 0) vf gf ff)"
  "fst (LoadCompute (test_driver all_files True True) True (new_Program 0) cf)"
  by (simp_all add: LoadVertGeomFrag_def LoadCompute_def test_driver_def all_files_def Delete_def
        new_Program_def CompileShader_def CheckLinkStatus_def info_log_length_def Let_def)

theorem attribute_buffers_read_only_witness:
  "(case SplatRenderer_Init (test_driver all_files True True) some_math True 0 empty_device
           (new_SplatRenderer 0) [one_gaussian] of
      InitTrue rs ds evs \<Rightarrow>
        (case splat_frames some_math wrap_conversion insertion_sorter [some_frame, some_frame]
                (rs, ds) of
           Some (rs', ds') \<Rightarrow>
             map (\<lambda>a. buffers ds' (snd a)) (attribBuffers (splatVao rs))
               = [Some (Vec3Data [g_position one_gaussian]),
                  Some (Vec4Data [gaussian_color some_math one_gaussian]),
                  Some (Vec3Data [m3c0 (g_covMat one_gaussian)]),
                  Some (Vec3Data [m3c1 (g_covMat one_gaussian)]),
                  Some (Vec3Data [m3c2 (g_covMat one_gaussian)])]
         | None \<Rightarrow> False)
    | InitFalse ev \<Rightarrow> False
    | InitAborted ev \<Rightarrow> False)
   \<and> (case PointRenderer_Init (test_driver all_files True True) (\<lambda>f. Some 2) True 0 empty_device
             (new_PointRenderer 0) [one_point] of
        InitTrue rp dp evp \<Rightarrow>
          map (\<lambda>a. buffers (point_frames some_math wrap_conversion insertion_sorter rp
                              [some_frame, some_frame] dp) (snd a)) (attribBuffers (pointVao rp))
            = [Some (Vec4Data [point_position one_point]), Some (Vec4Data [point_color one_point])]
      | InitFalse ev \<Rightarrow> False
      | InitAborted ev \<Rightarrow> False)
   \<and> (case SplatRenderer_Render some_math wrap_conversion
              (two_splats [vec3_lit 0 0 (-1), vec3_lit 0 0 (-2)]) identity_camera
              (vec4_lit 0 0 640 480) \<lparr>x2 = Finite 1, y2 = Finite 100\<rparr> (Finite 1) of
         Some (r', cmds) \<Rightarrow>
           buffers (run wrap_conversion insertion_sorter cmds
                      (two_splats_device [vec3_lit 0 0 (-1), vec3_lit 0 0 (-2)])) 5
             = Some (Vec3Data [vec3_lit 0 0 (-1), vec3_lit 0 0 (-2)])
       | None \<Rightarrow> False)
   \<and> buffers (run wrap_conversion insertion_sorter
                (PointRenderer_Render some_math (two_points [vec4_lit 0 0 (-1) 1, vec4_lit 0 0 (-2) 1])
                   identity_camera (vec4_lit 0 0 640 480) \<lparr>x2 = Finite 1, y2 = Finite 100\<rparr> (Finite 1))
                (two_points_device [vec4_lit 0 0 (-1) 1, vec4_lit 0 0 (-2) 1])) 9
       = Some (Vec4Data [vec4_lit 0 0 (-1) 1, vec4_lit 0 0 (-2) 1])"
proof -
  let ?gl = "test_driver all_files True True"
  let ?fps = "[some_frame, some_frame]"
  from SplatRenderer_Init_release[OF test_driver_loads(1),
      of some_math empty_device "new_SplatRenderer 0" "[one_gaussian]"]
  obtain rs ds evs where
    si: "SplatRenderer_Init ?gl some_math True 0 empty_device (new_SplatRenderer 0) [one_gaussian]
           = InitTrue rs ds evs"
    by blast
  have il: "(\<lambda>f. Some (2::nat)) ''texture/sphere.png'' = Some 2" by simp
  from PointRenderer_Init_release[OF il test_driver_loads(1) test_driver_loads(2),
      of empty_device "new_PointRenderer 0" "[one_point]"]
  obtain rp dp evp where
    pi: "PointRenderer_Init ?gl (\<lambda>f. Some 2) True 0 empty_device (new_PointRenderer 0) [one_point]
           = InitTrue rp dp evp"
    by blast
  have sr: "splat_ready rs ds"
    by (rule SplatRenderer_Init_ready[OF si]) simp
  from splat_frames_ready[OF sr insertion_sorter_contract, of some_math wrap_conversion ?fps]
  obtain rs' ds' where
    sf: "splat_frames some_math wrap_conversion insertion_sorter ?fps (rs, ds) = Some (rs', ds')"
    by blast
  let ?r = "two_splats [vec3_lit 0 0 (-1), vec3_lit 0 0 (-2)]"
  let ?p = "two_points [vec4_lit 0 0 (-1) 1, vec4_lit 0 0 (-2) 1]"
  have lr: "length (depthVec ?r) = length (positionVec ?r)"
           "length (indexVec ?r) = length (positionVec ?r)"
    by (simp_all add: two_splats_def)
  obtain r' cmds where
    rr: "SplatRenderer_Render some_math wrap_conversion ?r identity_camera
           (vec4_lit 0 0 640 480) \<lparr>x2 = Finite 1, y2 = Finite 100\<rparr> (Finite 1) = Some (r', cmds)"
    using SplatRenderer_Render_ready[OF lr, of some_math wrap_conversion identity_camera
        "vec4_lit 0 0 640 480" "\<lparr>x2 = Finite 1, y2 = Finite 100\<rparr>" "Finite 1"]
    by (simp add: Let_def)
  have o1: "(5::nat) \<notin> {keyBuffer ?r, valBuffer ?r, elementBuffer (splatVao ?r)}"
    by (simp add: two_splats_def)
  have o2: "(9::nat) \<notin> {keyBuffer ?p, valBuffer ?p, elementBuffer (pointVao ?p)}"
    by (simp add: two_points_def)
  have b1: "buffers (two_splats_device [vec3_lit 0 0 (-1), vec3_lit 0 0 (-2)]) 5
              = Some (Vec3Data [vec3_lit 0 0 (-1), vec3_lit 0 0 (-2)])"
    by (simp add: two_splats_device_def empty_device_def)
  have b9: "buffers (two_points_device [vec4_lit 0 0 (-1) 1, vec4_lit 0 0 (-2) 1]) 9
              = Some (Vec4Data [vec4_lit 0 0 (-1) 1, vec4_lit 0 0 (-2) 1])"
    by (simp add: two_points_device_def empty_device_def)
  from attribute_buffers_read_only[OF si pi sf rr o1 o2,
      of "two_splats_device [vec3_lit 0 0 (-1), vec3_lit 0 0 (-2)]"]
    attribute_buffers_read_only[OF si pi sf rr o1 o2,
      of "two_points_device [vec4_lit 0 0 (-1) 1, vec4_lit 0 0 (-2) 1]"]
  show ?thesis
    by (simp add: si pi sf rr b1 b9 del: splat_frames.simps point_frames.simps)
qed

end
